theory Spec2Isabelle
  imports Complex_Main
begin

section \<open>Floating-point values\<close>

text \<open>
  A Python float is modelled as a real number or the not-a-number value. Rounding and
  the infinities are not modelled. \<open>NaN\<close> is needed because the program itself produces
  it: storing Python's \<open>None\<close> into a cell of a numpy float array stores not-a-number.
  Arithmetic propagates \<open>NaN\<close>; every comparison with \<open>NaN\<close> is false.
\<close>

datatype pyfloat = Fl real | NaN

fun fadd :: "pyfloat \<Rightarrow> pyfloat \<Rightarrow> pyfloat" where
  "fadd (Fl a) (Fl b) = Fl (a + b)"
| "fadd _ _ = NaN"

fun fsub :: "pyfloat \<Rightarrow> pyfloat \<Rightarrow> pyfloat" where
  "fsub (Fl a) (Fl b) = Fl (a - b)"
| "fsub _ _ = NaN"

fun fmul :: "pyfloat \<Rightarrow> pyfloat \<Rightarrow> pyfloat" where
  "fmul (Fl a) (Fl b) = Fl (a * b)"
| "fmul _ _ = NaN"

fun fneg :: "pyfloat \<Rightarrow> pyfloat" where
  "fneg (Fl a) = Fl (- a)"
| "fneg NaN = NaN"

fun fabs :: "pyfloat \<Rightarrow> pyfloat" where
  "fabs (Fl a) = Fl \<bar>a\<bar>"
| "fabs NaN = NaN"

fun fle :: "pyfloat \<Rightarrow> pyfloat \<Rightarrow> bool" where
  "fle (Fl a) (Fl b) = (a \<le> b)"
| "fle _ _ = False"

fun flt :: "pyfloat \<Rightarrow> pyfloat \<Rightarrow> bool" where
  "flt (Fl a) (Fl b) = (a < b)"
| "flt _ _ = False"

definition fge :: "pyfloat \<Rightarrow> pyfloat \<Rightarrow> bool" where
  "fge a b = fle b a"

definition fgt :: "pyfloat \<Rightarrow> pyfloat \<Rightarrow> bool" where
  "fgt a b = flt b a"

text \<open>
  Python's builtin \<open>max(a, b)\<close> keeps \<open>a\<close> unless \<open>b > a\<close>, and \<open>min(a, b)\<close> keeps
  \<open>a\<close> unless \<open>b < a\<close>.
\<close>

definition py_max :: "pyfloat \<Rightarrow> pyfloat \<Rightarrow> pyfloat" where
  "py_max a b = (if fgt b a then b else a)"

definition py_min :: "pyfloat \<Rightarrow> pyfloat \<Rightarrow> pyfloat" where
  "py_min a b = (if flt b a then b else a)"

text \<open>Storing the result of a primitive into a float array: \<open>None\<close> becomes \<open>NaN\<close>.\<close>

fun store_float :: "pyfloat option \<Rightarrow> pyfloat" where
  "store_float None = NaN"
| "store_float (Some v) = v"

subsection \<open>Constants of the module\<close>

definition SUCCESSFUL_RETURN :: int where
  "SUCCESSFUL_RETURN = 0"

definition qpOASESReturnValueDict :: "int \<rightharpoonup> string" where
  "qpOASESReturnValueDict =
     [0 \<mapsto> ''SUCCESSFUL_RETURN'',
      61 \<mapsto> ''HOTSTART_STOPPED_INFEASIBILITY'',
      33 \<mapsto> ''INIT_FAILED'',
      35 \<mapsto> ''INIT_FAILED_CHOLESKY'',
      38 \<mapsto> ''INIT_FAILED_UNBOUNDEDNESS'',
      34 \<mapsto> ''INIT_FAILED_TQ'',
      36 \<mapsto> ''INIT_FAILED_HOTSTART'',
      37 \<mapsto> ''INIT_FAILED_INFEASIBILITY '']"

definition SUPERTINY :: pyfloat where
  "SUPERTINY = Fl (1 / 10 ^ 10)"

definition TINY :: pyfloat where
  "TINY = Fl (1 / 10 ^ 8)"

definition SMALL :: pyfloat where
  "SMALL = Fl (1 / 10 ^ 5)"

definition INFTY :: pyfloat where
  "INFTY = Fl (10 ^ 8)"

definition MAXU :: pyfloat where
  "MAXU = Fl 100"

definition MAXX :: pyfloat where
  "MAXX = Fl 100"

section \<open>Data model\<close>

text \<open>
  A numpy array of fixed shape is a function from indices to cells. The shapes are
  kept in the solver object (\<open>N\<close>, \<open>nC\<close>, \<open>nV\<close>); where the source indexes an array
  by a parameter, the model checks the range and raises \<open>IndexError\<close> as numpy does.
  Stage indices are natural numbers: Python's negative indices are not modelled.
\<close>

type_synonym vec = "nat \<Rightarrow> pyfloat"
type_synonym mat = "nat \<Rightarrow> nat \<Rightarrow> pyfloat"
type_synonym ten3 = "nat \<Rightarrow> nat \<Rightarrow> nat \<Rightarrow> pyfloat"

datatype error =
    IndexError
  | KeyError int
  | AssertionError string
  | ValueError_dimension nat
  | ValueError_broadcast
  | ValueError_unable string

text \<open>
  A call either raises or returns; the object it mutated is returned beside the
  outcome in both cases.
\<close>

datatype 'a outcome = Raise error | Return 'a

text \<open>
  Modelled from the spec: the \<open>PathConstraint\<close> class is not part of the source file;
  its attributes are the ones the solver reads, with the shapes of the input contract:
  \<open>a, b, c\<close> of shape \<open>(N+1, nm)\<close>, \<open>abar, bbar, cbar\<close> of shape \<open>(N+1, neq)\<close>,
  \<open>D\<close> of shape \<open>(N+1, neq, nv)\<close>, \<open>G\<close> of shape \<open>(N+1, niq, nv)\<close>, \<open>lG, hG\<close> of
  shape \<open>(N+1, niq)\<close> and \<open>l, h\<close> of shape \<open>(N+1, nv)\<close>.
\<close>

record PathConstraint =
  pc_ss :: vec
  pc_N :: nat
  pc_nm :: nat
  pc_neq :: nat
  pc_niq :: nat
  pc_nv :: nat
  pc_a :: mat
  pc_b :: mat
  pc_c :: mat
  pc_abar :: mat
  pc_bbar :: mat
  pc_cbar :: mat
  pc_D :: ten3
  pc_G :: ten3
  pc_lG :: mat
  pc_hG :: mat
  pc_l :: mat
  pc_h :: mat

text \<open>The quadratic program handed to the backend by \<open>init\<close> and \<open>hotstart\<close>.\<close>

record qp =
  qp_H :: mat
  qp_g :: vec
  qp_A :: mat
  qp_lb :: vec
  qp_ub :: vec
  qp_lbA :: vec
  qp_ubA :: vec
  qp_nWSR :: int

text \<open>
  Modelled from the spec: the \<open>qpOASES\<close> class \<open>SQProblem\<close> is an external library.
  It is a parameter of every operation: a constructor, the two solve calls (each returns
  a status and the instance as it left it) and the two read-outs. The type \<open>'b\<close> is the
  state of one instance. On success the read-outs are numbers.
\<close>

record 'b SQProblem =
  sq_new :: "nat \<Rightarrow> nat \<Rightarrow> 'b"
  sq_init :: "'b \<Rightarrow> qp \<Rightarrow> int \<times> 'b"
  sq_hotstart :: "'b \<Rightarrow> qp \<Rightarrow> int \<times> 'b"
  sq_getPrimalSolution :: "'b \<Rightarrow> nat \<Rightarrow> real"
  sq_getObjVal :: "'b \<Rightarrow> real"

text \<open>
  The attributes of a \<open>qpOASESPPSolver\<close> object. \<open>I0\<close> and \<open>IN\<close> are arrays of shape
  \<open>(2,)\<close>, kept as pairs. \<open>_xfulls\<close> and \<open>_yfulls\<close> are created by \<open>np.empty\<close>: a row
  that was never written is absent from the map.
\<close>

record 'b qpOASESPPSolver =
  self_I0 :: "pyfloat \<times> pyfloat"
  self_IN :: "pyfloat \<times> pyfloat"
  self_ss :: vec
  self_Ds :: vec
  self_N :: nat
  self_K :: mat
  self_L :: mat
  self_nop :: nat
  self_constraint_set :: "PathConstraint list"
  self_nm :: nat
  self_niq :: nat
  self_neq :: nat
  self_nv :: nat
  self_nV :: nat
  self_nC :: nat
  self_H :: mat
  self_g :: vec
  self_l :: mat
  self_h :: mat
  self_lA :: mat
  self_hA :: mat
  self_A :: ten3
  self_xfull :: vec
  self_yfull :: vec
  self_nWSR_cnst :: int
  self_nWSR_up :: "nat \<Rightarrow> int"
  self_nWSR_down :: "nat \<Rightarrow> int"
  self_solver_up :: 'b
  self_solver_down :: 'b
  self_xfulls :: "nat \<rightharpoonup> vec"
  self_yfulls :: "nat \<rightharpoonup> vec"

section \<open>Array cells and slices\<close>

definition set2 :: "mat \<Rightarrow> nat \<Rightarrow> nat \<Rightarrow> pyfloat \<Rightarrow> mat" where
  "set2 M i j v = (\<lambda>i' j'. if i' = i \<and> j' = j then v else M i' j')"

definition set3 :: "ten3 \<Rightarrow> nat \<Rightarrow> nat \<Rightarrow> nat \<Rightarrow> pyfloat \<Rightarrow> ten3" where
  "set3 T i j k v = (\<lambda>i' j' k'. if i' = i \<and> j' = j \<and> k' = k then v else T i' j' k')"

text \<open>\<open>M[:, :n] = 0\<close> and \<open>T[:, :n] = 0\<close>.\<close>

definition zero_rows2 :: "mat \<Rightarrow> nat \<Rightarrow> mat" where
  "zero_rows2 M n = (\<lambda>i r. if r < n then Fl 0 else M i r)"

definition zero_rows3 :: "ten3 \<Rightarrow> nat \<Rightarrow> ten3" where
  "zero_rows3 T n = (\<lambda>i r c. if r < n then Fl 0 else T i r c)"

text \<open>\<open>M[:, k] = v\<close>.\<close>

definition set_col :: "mat \<Rightarrow> nat \<Rightarrow> pyfloat \<Rightarrow> mat" where
  "set_col M k v = (\<lambda>i k'. if k' = k then v else M i k')"

text \<open>\<open>M[:, row:row+n] = src\<close>, with \<open>src\<close> of shape \<open>(N+1, n)\<close>.\<close>

definition set_cols :: "mat \<Rightarrow> nat \<Rightarrow> nat \<Rightarrow> mat \<Rightarrow> mat" where
  "set_cols M row n src =
     (\<lambda>i r. if row \<le> r \<and> r < row + n then src i (r - row) else M i r)"

text \<open>\<open>T[:, row:row+n, col] = src\<close>, with \<open>src\<close> of shape \<open>(N+1, n)\<close>.\<close>

definition set_rows_col :: "ten3 \<Rightarrow> nat \<Rightarrow> nat \<Rightarrow> nat \<Rightarrow> mat \<Rightarrow> ten3" where
  "set_rows_col T row n col src =
     (\<lambda>i r c. if row \<le> r \<and> r < row + n \<and> c = col then src i (r - row) else T i r c)"

text \<open>\<open>T[:, row:row+n, col:col+m] = src\<close>, with \<open>src\<close> of shape \<open>(N+1, n, m)\<close>.\<close>

definition set_block :: "ten3 \<Rightarrow> nat \<Rightarrow> nat \<Rightarrow> nat \<Rightarrow> nat \<Rightarrow> ten3 \<Rightarrow> ten3" where
  "set_block T row n col m src =
     (\<lambda>i r c. if row \<le> r \<and> r < row + n \<and> col \<le> c \<and> c < col + m
        then src i (r - row) (c - col) else T i r c)"

section \<open>The K and L properties\<close>

definition K :: "'b qpOASESPPSolver \<Rightarrow> (pyfloat \<times> pyfloat) list" where
  "K s =
     (let controllable_subsets = (\<lambda>i. fgt (self_K s i 0) (fneg TINY)) in
      map (\<lambda>i. (self_K s i 0, self_K s i 1))
        (filter controllable_subsets [0..<self_N s + 1]))"

definition L :: "'b qpOASESPPSolver \<Rightarrow> (pyfloat \<times> pyfloat) list" where
  "L s =
     (let reachable_subsets = (\<lambda>i. fgt (self_L s i 0) (fneg TINY)) in
      map (\<lambda>i. (self_L s i 0, self_L s i 1))
        (filter reachable_subsets [0..<self_N s + 1]))"

section \<open>Endpoint intervals\<close>

text \<open>
  The argument is a float or an array; \<open>np.r_[I0]\<close> turns a float into an array of
  length one and leaves an array as it is. Reading index 1 of an empty array raises
  \<open>IndexError\<close>.
\<close>

datatype interval_arg = Scalar pyfloat | Array "pyfloat list"

fun np_r :: "interval_arg \<Rightarrow> pyfloat list" where
  "np_r (Scalar v) = [v]"
| "np_r (Array xs) = xs"

definition set_start_interval ::
    "'b qpOASESPPSolver \<Rightarrow> interval_arg \<Rightarrow> unit outcome \<times> 'b qpOASESPPSolver" where
  "set_start_interval s I0 =
     (let I0 = np_r I0 in
      case (if length I0 = 1 then Return [I0 ! 0, I0 ! 0]
            else if length I0 > 2 then Raise (ValueError_dimension (length I0))
            else Return I0) of
        Raise e \<Rightarrow> (Raise e, s)
      | Return I0 \<Rightarrow>
          if length I0 < 2 then (Raise IndexError, s)
          else if \<not> fge (I0 ! 1) (I0 ! 0)
            then (Raise (AssertionError ''Illegal input: non-increase end-points.''), s)
          else if \<not> fge (I0 ! 0) (Fl 0)
            then (Raise (AssertionError ''Illegal input: negative lower end-point.''), s)
          else (Return (), s\<lparr>self_I0 := (I0 ! 0, I0 ! 1)\<rparr>))"

definition set_goal_interval ::
    "'b qpOASESPPSolver \<Rightarrow> interval_arg \<Rightarrow> unit outcome \<times> 'b qpOASESPPSolver" where
  "set_goal_interval s IN =
     (let IN = np_r IN in
      case (if length IN = 1 then Return [IN ! 0, IN ! 0]
            else if length IN > 2 then Raise (ValueError_dimension (length IN))
            else Return IN) of
        Raise e \<Rightarrow> (Raise e, s)
      | Return IN \<Rightarrow>
          if length IN < 2 then (Raise IndexError, s)
          else if \<not> fge (IN ! 1) (IN ! 0)
            then (Raise (AssertionError ''Illegal input: non-increase end-points.''), s)
          else if \<not> fge (IN ! 0) (Fl 0)
            then (Raise (AssertionError ''Illegal input: negative lower end-point.''), s)
          else (Return (), s\<lparr>self_IN := (IN ! 0, IN ! 1)\<rparr>))"

section \<open>Operational rows and the set-projection primitives\<close>

definition reset_operational_rows :: "'b qpOASESPPSolver \<Rightarrow> 'b qpOASESPPSolver" where
  "reset_operational_rows s =
     (let s = s\<lparr>self_A := zero_rows3 (self_A s) (self_nop s)\<rparr>;
          s = s\<lparr>self_lA := zero_rows2 (self_lA s) (self_nop s)\<rparr>;
          s = s\<lparr>self_hA := zero_rows2 (self_hA s) (self_nop s)\<rparr>;
          s = s\<lparr>self_H := (\<lambda>r c. Fl 0)\<rparr>;
          s = s\<lparr>self_g := (\<lambda>k. Fl 0)\<rparr>
      in s)"

text \<open>The arguments every solve call gets at stage \<open>i\<close>: views of the object's arrays.\<close>

definition problem :: "'b qpOASESPPSolver \<Rightarrow> nat \<Rightarrow> qp" where
  "problem s i =
     \<lparr>qp_H = self_H s, qp_g = self_g s, qp_A = self_A s i, qp_lb = self_l s i,
      qp_ub = self_h s i, qp_lbA = self_lA s i, qp_ubA = self_hA s i,
      qp_nWSR = self_nWSR_cnst s\<rparr>"

text \<open>Cold start when \<open>init\<close> holds, hot start otherwise.\<close>

definition solve :: "'b SQProblem \<Rightarrow> bool \<Rightarrow> 'b \<Rightarrow> qp \<Rightarrow> int \<times> 'b" where
  "solve B init b p = (if init then sq_init B b p else sq_hotstart B b p)"

definition getPrimalSolution :: "'b SQProblem \<Rightarrow> 'b \<Rightarrow> vec" where
  "getPrimalSolution B b = (\<lambda>k. Fl (sq_getPrimalSolution B b k))"

definition one_step ::
    "'b SQProblem \<Rightarrow> 'b qpOASESPPSolver \<Rightarrow> nat \<Rightarrow> pyfloat \<Rightarrow> pyfloat \<Rightarrow> bool
      \<Rightarrow> (pyfloat \<times> pyfloat) option outcome \<times> 'b qpOASESPPSolver" where
  "one_step B s i xmin xmax init =
     (let s = reset_operational_rows s in
      if i > self_N s then (Raise IndexError, s)
      else
        let s = s\<lparr>self_A := set3 (self_A s) i 0 1 (Fl 1)\<rparr> in
        if i + 1 > self_N s then (Raise IndexError, s)
        else
          let s = s\<lparr>self_A := set3 (self_A s) i 0 0
                      (fmul (Fl 2) (fsub (self_ss s (i + 1)) (self_ss s i)))\<rparr>;
              s = s\<lparr>self_lA := set2 (self_lA s) i 0 xmin\<rparr>;
              s = s\<lparr>self_hA := set2 (self_hA s) i 0 xmax\<rparr>;
              s = s\<lparr>self_g := (self_g s)(1 := Fl (- 1))\<rparr>;
              (res_up, up) = solve B init (self_solver_up s) (problem s i);
              s = s\<lparr>self_solver_up := up\<rparr>;
              s = s\<lparr>self_g := (self_g s)(1 := Fl 1)\<rparr>;
              (res_down, down) = solve B init (self_solver_down s) (problem s i);
              s = s\<lparr>self_solver_down := down\<rparr>
          in
            if res_up \<noteq> SUCCESSFUL_RETURN \<or> res_down \<noteq> SUCCESSFUL_RETURN
            then (Return None, s)
            else
              let s = s\<lparr>self_xfull := getPrimalSolution B (self_solver_up s)\<rparr>;
                  xmax_i = self_xfull s 1;
                  s = s\<lparr>self_xfull := getPrimalSolution B (self_solver_down s)\<rparr>;
                  xmin_i = self_xfull s 1
              in (Return (Some (xmin_i, xmax_i)), s))"

definition reach ::
    "'b SQProblem \<Rightarrow> 'b qpOASESPPSolver \<Rightarrow> nat \<Rightarrow> pyfloat \<Rightarrow> pyfloat \<Rightarrow> bool
      \<Rightarrow> (pyfloat \<times> pyfloat) option outcome \<times> 'b qpOASESPPSolver" where
  "reach B s i xmin xmax init =
     (if i > self_N s then (Raise IndexError, s)
      else
        let s = s\<lparr>self_A := set3 (self_A s) i 0 1 (Fl 1)\<rparr>;
            s = s\<lparr>self_A := set3 (self_A s) i 0 0 (Fl 0)\<rparr>;
            s = s\<lparr>self_lA := set2 (self_lA s) i 0 xmin\<rparr>;
            s = s\<lparr>self_hA := set2 (self_hA s) i 0 xmax\<rparr>
        in
          if i + 1 > self_N s then (Raise IndexError, s)
          else
            let s = s\<lparr>self_g := (self_g s)
                        (0 := fmul (Fl (- 2)) (fsub (self_ss s (i + 1)) (self_ss s i)))\<rparr>;
                s = s\<lparr>self_g := (self_g s)(1 := Fl (- 1))\<rparr>;
                (res_up, up) = solve B init (self_solver_up s) (problem s i);
                s = s\<lparr>self_solver_up := up\<rparr>;
                s = s\<lparr>self_g := (self_g s)
                        (0 := fmul (Fl 2) (fsub (self_ss s (i + 1)) (self_ss s i)))\<rparr>;
                s = s\<lparr>self_g := (self_g s)(1 := Fl 1)\<rparr>;
                (res_down, down) = solve B init (self_solver_down s) (problem s i);
                s = s\<lparr>self_solver_down := down\<rparr>
            in
              if res_up \<noteq> SUCCESSFUL_RETURN \<or> res_down \<noteq> SUCCESSFUL_RETURN
              then (Return None, s)
              else
                let xmax_i = fneg (Fl (sq_getObjVal B (self_solver_up s)));
                    xmin_i = Fl (sq_getObjVal B (self_solver_down s))
                in (Return (Some (xmin_i, xmax_i)), s))"

text \<open>
  On a solver failure the warning text looks the status of the up solver up in
  \<open>qpOASESReturnValueDict\<close>; a status that is not a key raises \<open>KeyError\<close>.
\<close>

definition proj_x_admissible ::
    "'b SQProblem \<Rightarrow> 'b qpOASESPPSolver \<Rightarrow> nat \<Rightarrow> pyfloat \<Rightarrow> pyfloat \<Rightarrow> bool
      \<Rightarrow> (pyfloat \<times> pyfloat) option outcome \<times> 'b qpOASESPPSolver" where
  "proj_x_admissible B s i xmin xmax init =
     (if i > self_N s then (Raise IndexError, s)
      else
        let s = s\<lparr>self_A := set3 (self_A s) i 0 1 (Fl 1)\<rparr>;
            s = s\<lparr>self_A := set3 (self_A s) i 0 0 (Fl 0)\<rparr>;
            s = s\<lparr>self_lA := set2 (self_lA s) i 0 xmin\<rparr>;
            s = s\<lparr>self_hA := set2 (self_hA s) i 0 xmax\<rparr>;
            s = s\<lparr>self_g := (self_g s)(0 := Fl 0)\<rparr>;
            s = s\<lparr>self_g := (self_g s)(1 := Fl (- 1))\<rparr>;
            (res_up, up) = solve B init (self_solver_up s) (problem s i);
            s = s\<lparr>self_solver_up := up\<rparr>;
            s = s\<lparr>self_g := (self_g s)(0 := Fl 0)\<rparr>;
            s = s\<lparr>self_g := (self_g s)(1 := Fl 1)\<rparr>;
            (res_down, down) = solve B init (self_solver_down s) (problem s i);
            s = s\<lparr>self_solver_down := down\<rparr>
        in
          if res_up \<noteq> SUCCESSFUL_RETURN \<or> res_down \<noteq> SUCCESSFUL_RETURN
          then (case qpOASESReturnValueDict res_up of
                  None \<Rightarrow> (Raise (KeyError res_up), s)
                | Some _ \<Rightarrow> (Return None, s))
          else
            let s = s\<lparr>self_xfull := getPrimalSolution B (self_solver_up s)\<rparr>;
                xmax_i = self_xfull s 1;
                s = s\<lparr>self_xfull := getPrimalSolution B (self_solver_down s)\<rparr>;
                xmin_i = self_xfull s 1
            in
              if \<not> fle xmin_i (fadd xmax_i SUPERTINY)
              then (Raise (AssertionError ''i:= {:d}, xmin:= {:f}, xmax:={:f}''), s)
              else
                let xmax_i = (if fgt xmin_i xmax_i then xmin_i else xmax_i)
                in (Return (Some (xmin_i, xmax_i)), s))"

text \<open>\<open>H[2:, 2:] += np.eye(nv) * reg\<close>, on the \<open>nV - 2\<close> slack rows and columns.\<close>

definition add_reg :: "mat \<Rightarrow> nat \<Rightarrow> pyfloat \<Rightarrow> mat" where
  "add_reg H nV reg =
     (\<lambda>r c. if 2 \<le> r \<and> r < nV \<and> 2 \<le> c \<and> c < nV
        then fadd (H r c) (fmul (Fl (if r = c then 1 else 0)) reg) else H r c)"

definition greedy_step ::
    "'b SQProblem \<Rightarrow> 'b qpOASESPPSolver \<Rightarrow> nat \<Rightarrow> pyfloat \<Rightarrow> pyfloat \<Rightarrow> pyfloat \<Rightarrow> bool
      \<Rightarrow> pyfloat \<Rightarrow> (pyfloat \<times> pyfloat) option outcome \<times> 'b qpOASESPPSolver" where
  "greedy_step B s i x xmin xmax init reg =
     (let s = reset_operational_rows s in
      if i > self_N s then (Raise IndexError, s)
      else
        let s = s\<lparr>self_A := set3 (self_A s) i 0 1 (Fl 1)\<rparr>;
            s = s\<lparr>self_A := set3 (self_A s) i 0 0 (Fl 0)\<rparr>;
            s = s\<lparr>self_lA := set2 (self_lA s) i 0 x\<rparr>;
            s = s\<lparr>self_hA := set2 (self_hA s) i 0 x\<rparr>;
            s = s\<lparr>self_lA := set2 (self_lA s) i 1 xmin\<rparr>;
            s = s\<lparr>self_hA := set2 (self_hA s) i 1 xmax\<rparr>;
            s = s\<lparr>self_A := set3 (self_A s) i 1 1 (Fl 1)\<rparr>
        in
          if i \<ge> self_N s then (Raise IndexError, s)
          else
            let s = s\<lparr>self_A := set3 (self_A s) i 1 0 (fmul (Fl 2) (self_Ds s i))\<rparr>;
                s = s\<lparr>self_g := (self_g s)(0 := Fl (- 1))\<rparr>;
                s = (if self_nv s \<noteq> 0
                     then s\<lparr>self_H := add_reg (self_H s) (self_nV s) reg\<rparr> else s);
                (res_up, up) = solve B init (self_solver_up s) (problem s i);
                s = s\<lparr>self_solver_up := up\<rparr>
            in
              if res_up \<noteq> SUCCESSFUL_RETURN then (Return None, s)
              else
                let s = s\<lparr>self_xfull := getPrimalSolution B (self_solver_up s)\<rparr>;
                    u_greedy = self_xfull s 0;
                    x_greedy = fadd x (fmul (fmul (Fl 2) (self_Ds s i)) u_greedy)
                in
                  if \<not> fge (fadd x_greedy SUPERTINY) (Fl 0)
                  then (Raise (AssertionError ''Negative state (forward pass):={:f}''), s)
                  else
                    let x_greedy =
                          (if flt x_greedy (Fl 0) then fadd x_greedy SUPERTINY else x_greedy)
                    in (Return (Some (u_greedy, x_greedy)), s))"

text \<open>
  \<open>self.A[i, 0] = [0, 1]\<close> assigns a list of length two to a row of length \<open>nV\<close>; numpy
  refuses it (\<open>ValueError\<close>) unless \<open>nV = 2\<close>.
\<close>

definition least_greedy_step ::
    "'b SQProblem \<Rightarrow> 'b qpOASESPPSolver \<Rightarrow> nat \<Rightarrow> pyfloat \<Rightarrow> pyfloat \<Rightarrow> pyfloat \<Rightarrow> bool
      \<Rightarrow> pyfloat \<Rightarrow> (pyfloat \<times> pyfloat) option outcome \<times> 'b qpOASESPPSolver" where
  "least_greedy_step B s i x xmin xmax init reg =
     (let s = reset_operational_rows s in
      if i > self_N s then (Raise IndexError, s)
      else if self_nV s \<noteq> 2 then (Raise ValueError_broadcast, s)
      else
        let s = s\<lparr>self_A := set3 (set3 (self_A s) i 0 0 (Fl 0)) i 0 1 (Fl 1)\<rparr>;
            s = s\<lparr>self_lA := set2 (self_lA s) i 0 x\<rparr>;
            s = s\<lparr>self_hA := set2 (self_hA s) i 0 x\<rparr>
        in
          if i \<ge> self_N s then (Raise IndexError, s)
          else
            let s = s\<lparr>self_A := set3 (set3 (self_A s) i 1 0 (fmul (Fl 2) (self_Ds s i)))
                        i 1 1 (Fl 1)\<rparr>;
                s = s\<lparr>self_lA := set2 (self_lA s) i 1 xmin\<rparr>;
                s = s\<lparr>self_hA := set2 (self_hA s) i 1 xmax\<rparr>;
                s = s\<lparr>self_g := (self_g s)(0 := Fl 1)\<rparr>;
                s = (if self_nv s \<noteq> 0
                     then s\<lparr>self_H := add_reg (self_H s) (self_nV s) reg\<rparr> else s);
                (res_up, up) = solve B init (self_solver_up s) (problem s i);
                s = s\<lparr>self_solver_up := up\<rparr>
            in
              if res_up \<noteq> SUCCESSFUL_RETURN then (Return None, s)
              else
                let s = s\<lparr>self_xfull := getPrimalSolution B (self_solver_up s)\<rparr>;
                    u_least_greedy = self_xfull s 0;
                    x_least_greedy = fadd x (fmul (fmul (Fl 2) (self_Ds s i)) u_least_greedy)
                in
                  if \<not> fge (fadd x_least_greedy SUPERTINY) (Fl 0)
                  then (Raise (AssertionError ''Negative state (forward pass):={:f}''), s)
                  else
                    let x_least_greedy =
                          (if flt x_least_greedy (Fl 0) then fadd x_least_greedy SUPERTINY
                           else x_least_greedy)
                    in (Return (Some (u_least_greedy, x_least_greedy)), s))"

section \<open>Sweeps\<close>

text \<open>
  The body of \<open>for i in range(N - 1, -1, -1)\<close> of \<open>solve_controllable_sets\<close>, over
  the list of the stages still to visit; \<open>init\<close> is the loop's flag of the same name.
\<close>

fun controllable_loop ::
    "'b SQProblem \<Rightarrow> pyfloat \<Rightarrow> nat list \<Rightarrow> bool \<Rightarrow> 'b qpOASESPPSolver
      \<Rightarrow> bool outcome \<times> 'b qpOASESPPSolver" where
  "controllable_loop B eps [] init s = (Return True, s)"
| "controllable_loop B eps (i # stages) init s =
     (if i + 1 > self_N s then (Raise IndexError, s)
      else
        case one_step B s i (self_K s (i + 1) 0) (self_K s (i + 1) 1) init of
          (Raise e, s) \<Rightarrow> (Raise e, s)
        | (Return None, s) \<Rightarrow> (Return False, s)
        | (Return (Some (xmin_i, xmax_i)), s) \<Rightarrow>
            let s = s\<lparr>self_K := set2 (self_K s) i 1 (fsub xmax_i eps)\<rparr>;
                s = s\<lparr>self_K := set2 (self_K s) i 0 (py_max xmin_i (Fl 0))\<rparr>
            in controllable_loop B eps stages False s)"

definition solve_controllable_sets ::
    "'b SQProblem \<Rightarrow> 'b qpOASESPPSolver \<Rightarrow> pyfloat \<Rightarrow> bool outcome \<times> 'b qpOASESPPSolver" where
  "solve_controllable_sets B s eps =
     (let s = reset_operational_rows s;
          s = s\<lparr>self_nWSR_up := (\<lambda>k. 1 * self_nWSR_cnst s)\<rparr>;
          s = s\<lparr>self_nWSR_down := (\<lambda>k. 1 * self_nWSR_cnst s)\<rparr>
      in
        case proj_x_admissible B s (self_N s) (fst (self_IN s)) (snd (self_IN s)) True of
          (Raise e, s) \<Rightarrow> (Raise e, s)
        | (Return None, s) \<Rightarrow> (Return False, s)
        | (Return (Some (xmin, xmax)), s) \<Rightarrow>
            let s = s\<lparr>self_K := set2 (self_K s) (self_N s) 1 xmax\<rparr>;
                s = s\<lparr>self_K := set2 (self_K s) (self_N s) 0 xmin\<rparr>
            in controllable_loop B eps (rev [0..<self_N s]) True s)"

text \<open>The default value of the parameter \<open>eps\<close>.\<close>

definition eps_default :: pyfloat where
  "eps_default = Fl (1 / 10 ^ 14)"

text \<open>The body of \<open>for i in range(N)\<close> of \<open>solve_reachable_sets\<close>.\<close>

fun reachable_loop ::
    "'b SQProblem \<Rightarrow> nat list \<Rightarrow> 'b qpOASESPPSolver \<Rightarrow> bool outcome \<times> 'b qpOASESPPSolver" where
  "reachable_loop B [] s = (Return True, s)"
| "reachable_loop B (i # stages) s =
     (let init = (if i \<le> 1 then True else False) in
      if i > self_N s then (Raise IndexError, s)
      else
        case reach B s i (self_L s i 0) (self_L s i 1) init of
          (Raise e, s) \<Rightarrow> (Raise e, s)
        | (Return None, s) \<Rightarrow> (Return False, s)
        | (Return (Some (xmin_nx, xmax_nx)), s) \<Rightarrow>
            (case proj_x_admissible B s (i + 1) xmin_nx xmax_nx init of
               (Raise e, s) \<Rightarrow> (Raise e, s)
             | (Return None, s) \<Rightarrow> (Return False, s)
             | (Return (Some (xmin_pr, xmax_pr)), s) \<Rightarrow>
                 let s = s\<lparr>self_L := set2 (self_L s) (i + 1) 1 xmax_pr\<rparr>;
                     s = s\<lparr>self_L := set2 (self_L s) (i + 1) 0 xmin_pr\<rparr>
                 in reachable_loop B stages s))"

definition solve_reachable_sets ::
    "'b SQProblem \<Rightarrow> 'b qpOASESPPSolver \<Rightarrow> bool outcome \<times> 'b qpOASESPPSolver" where
  "solve_reachable_sets B s =
     (let s = reset_operational_rows s in
      case proj_x_admissible B s 0 (fst (self_I0 s)) (snd (self_I0 s)) True of
        (Raise e, s) \<Rightarrow> (Raise e, s)
      | (Return None, s) \<Rightarrow> (Return False, s)
      | (Return (Some (xmin, xmax)), s) \<Rightarrow>
          let s = s\<lparr>self_L := set2 (self_L s) 0 1 xmax\<rparr>;
              s = s\<lparr>self_L := set2 (self_L s) 0 0 xmin\<rparr>
          in reachable_loop B [0..<self_N s] s)"

text \<open>
  The body of \<open>for i in range(N)\<close> of \<open>solve_topp\<close>. The pair \<open>(us, xs)\<close> holds the two
  local arrays. \<open>u_, x_ = self.greedy_step(...)\<close> unpacks \<open>(None, None)\<close> without
  complaint, and the two stores turn \<open>None\<close> into \<open>NaN\<close>.
\<close>

fun forward_loop ::
    "'b SQProblem \<Rightarrow> bool \<Rightarrow> pyfloat \<Rightarrow> nat list \<Rightarrow> vec \<times> vec \<Rightarrow> 'b qpOASESPPSolver
      \<Rightarrow> (vec \<times> vec) outcome \<times> 'b qpOASESPPSolver" where
  "forward_loop B save_solutions reg [] (us, xs) s = (Return (us, xs), s)"
| "forward_loop B save_solutions reg (i # stages) (us, xs) s =
     (if i + 1 > self_N s then (Raise IndexError, s)
      else
        case greedy_step B s i (xs i) (self_K s (i + 1) 0) (self_K s (i + 1) 1) False reg of
          (Raise e, s) \<Rightarrow> (Raise e, s)
        | (Return r, s) \<Rightarrow>
            let u_res = map_option fst r;
                x_res = map_option snd r;
                xs = xs(i + 1 := store_float x_res);
                us = us(i := store_float u_res);
                s = (if save_solutions
                     then s\<lparr>self_xfulls := (self_xfulls s)(i \<mapsto> self_xfull s)\<rparr> else s)
            in forward_loop B save_solutions reg stages (us, xs) s)"

text \<open>The block of \<open>solve_topp\<close> under its comment \<open># Forward pass\<close>.\<close>

definition forward_pass ::
    "'b SQProblem \<Rightarrow> bool \<Rightarrow> pyfloat \<Rightarrow> 'b qpOASESPPSolver
      \<Rightarrow> (vec \<times> vec) outcome \<times> 'b qpOASESPPSolver" where
  "forward_pass B save_solutions reg s =
     (let xs = (\<lambda>k. Fl 0);
          us = (\<lambda>k. Fl 0);
          xs = xs(0 := py_min (self_K s 0 1) (snd (self_I0 s)))
      in
        if 1 > self_N s then (Raise IndexError, s)
        else
          case greedy_step B s 0 (xs 0) (self_K s 1 0) (self_K s 1 1) True reg of
            (Raise e, s) \<Rightarrow> (Raise e, s)
          | (Return _, s) \<Rightarrow> forward_loop B save_solutions reg [0..<self_N s] (us, xs) s)"

text \<open>
  The message of the \<open>ValueError\<close> of \<open>solve_topp\<close>: the format string of the source
  filled with its two arguments, each printed as Python prints a boolean.
\<close>

definition py_str_bool :: "bool \<Rightarrow> string" where
  "py_str_bool b = (if b then ''True'' else ''False'')"

definition unable_message :: "bool \<Rightarrow> bool \<Rightarrow> string" where
  "unable_message controllable infeasible =
     CHR 0x0A # ''Unable to parameterizes this path:'' @
     CHR 0x0A # ''- K(0) is empty : '' @ py_str_bool controllable @
     CHR 0x0A # ''- sd_start not in K(0) : '' @ py_str_bool infeasible @ [CHR 0x0A]"

definition solve_topp ::
    "'b SQProblem \<Rightarrow> 'b qpOASESPPSolver \<Rightarrow> bool \<Rightarrow> pyfloat
      \<Rightarrow> (vec \<times> vec) outcome \<times> 'b qpOASESPPSolver" where
  "solve_topp B s save_solutions reg =
     (let s = (if save_solutions then s\<lparr>self_xfulls := Map.empty\<rparr> else s);
          s = (if save_solutions then s\<lparr>self_yfulls := Map.empty\<rparr> else s)
      in
        case solve_controllable_sets B s eps_default of
          (Raise e, s) \<Rightarrow> (Raise e, s)
        | (Return controllable, s) \<Rightarrow>
            let infeasible = (flt (self_K s 0 1) (fst (self_I0 s))
                              \<or> fgt (self_K s 0 0) (snd (self_I0 s)))
            in
              if \<not> controllable \<or> infeasible
              then (let msg = unable_message controllable infeasible
                    in (Raise (ValueError_unable msg), s))
              else forward_pass B save_solutions reg s)"

section \<open>Construction\<close>

text \<open>\<open>np.allclose(a, b)\<close> on arrays of \<open>n\<close> cells, with numpy's default tolerances.\<close>

definition allclose :: "vec \<Rightarrow> vec \<Rightarrow> nat \<Rightarrow> bool" where
  "allclose a b n =
     list_all (\<lambda>k. fle (fabs (fsub (a k) (b k)))
                       (fadd (Fl (1 / 10 ^ 8)) (fmul (Fl (1 / 10 ^ 5)) (fabs (b k)))))
       [0..<n]"

definition init_matrices ::
    "'b qpOASESPPSolver \<Rightarrow> PathConstraint list \<Rightarrow> 'b qpOASESPPSolver" where
  "init_matrices s constraint_set =
     (let s = s\<lparr>self_nm := sum_list (map pc_nm constraint_set)\<rparr>;
          s = s\<lparr>self_niq := sum_list (map pc_niq constraint_set)\<rparr>;
          s = s\<lparr>self_neq := sum_list (map pc_neq constraint_set)\<rparr>;
          s = s\<lparr>self_nv := sum_list (map pc_nv constraint_set)\<rparr>;
          s = s\<lparr>self_nV := self_nv s + 2\<rparr>;
          s = s\<lparr>self_nC := self_nop s + self_nm s + self_neq s + self_niq s\<rparr>;
          s = s\<lparr>self_H := (\<lambda>r c. Fl 0)\<rparr>;
          s = s\<lparr>self_g := (\<lambda>k. Fl 0)\<rparr>;
          s = s\<lparr>self_l := (\<lambda>i k. Fl 0)\<rparr>;
          s = s\<lparr>self_h := (\<lambda>i k. Fl 0)\<rparr>;
          s = s\<lparr>self_lA := (\<lambda>i r. Fl 0)\<rparr>;
          s = s\<lparr>self_hA := (\<lambda>i r. Fl 0)\<rparr>;
          s = s\<lparr>self_A := (\<lambda>i r c. Fl 0)\<rparr>;
          s = s\<lparr>self_xfull := (\<lambda>k. Fl 0)\<rparr>;
          s = s\<lparr>self_yfull := (\<lambda>k. Fl 0)\<rparr>
      in s)"

text \<open>The four loops of \<open>_fill_matrices\<close>, each over the constraints its filter keeps.\<close>

fun fill_canonical ::
    "PathConstraint list \<Rightarrow> nat \<Rightarrow> 'b qpOASESPPSolver \<Rightarrow> 'b qpOASESPPSolver" where
  "fill_canonical [] row s = s"
| "fill_canonical (c # cs) row s =
     (let s = s\<lparr>self_A := set_rows_col (self_A s) row (pc_nm c) 0 (pc_a c)\<rparr>;
          s = s\<lparr>self_A := set_rows_col (self_A s) row (pc_nm c) 1 (pc_b c)\<rparr>;
          s = s\<lparr>self_lA := set_cols (self_lA s) row (pc_nm c) (\<lambda>i r. fneg INFTY)\<rparr>;
          s = s\<lparr>self_hA := set_cols (self_hA s) row (pc_nm c) (\<lambda>i r. fneg (pc_c c i r))\<rparr>
      in fill_canonical cs (row + pc_nm c) s)"

fun fill_equalities ::
    "PathConstraint list \<Rightarrow> nat \<Rightarrow> nat \<Rightarrow> 'b qpOASESPPSolver \<Rightarrow> 'b qpOASESPPSolver" where
  "fill_equalities [] row col s = s"
| "fill_equalities (c # cs) row col s =
     (let s = s\<lparr>self_A := set_rows_col (self_A s) row (pc_neq c) 0 (pc_abar c)\<rparr>;
          s = s\<lparr>self_A := set_rows_col (self_A s) row (pc_neq c) 1 (pc_bbar c)\<rparr>;
          s = s\<lparr>self_A := set_block (self_A s) row (pc_neq c) col (pc_nv c)
                  (\<lambda>i r k. fneg (pc_D c i r k))\<rparr>;
          s = s\<lparr>self_lA := set_cols (self_lA s) row (pc_neq c) (\<lambda>i r. fneg (pc_cbar c i r))\<rparr>;
          s = s\<lparr>self_hA := set_cols (self_hA s) row (pc_neq c) (\<lambda>i r. fneg (pc_cbar c i r))\<rparr>
      in fill_equalities cs (row + pc_neq c) (col + pc_nv c) s)"

fun fill_inequalities ::
    "PathConstraint list \<Rightarrow> nat \<Rightarrow> nat \<Rightarrow> 'b qpOASESPPSolver \<Rightarrow> 'b qpOASESPPSolver" where
  "fill_inequalities [] row col s = s"
| "fill_inequalities (c # cs) row col s =
     (let s = s\<lparr>self_A := set_block (self_A s) row (pc_niq c) col (pc_nv c) (pc_G c)\<rparr>;
          s = s\<lparr>self_lA := set_cols (self_lA s) row (pc_niq c) (pc_lG c)\<rparr>;
          s = s\<lparr>self_hA := set_cols (self_hA s) row (pc_niq c) (pc_hG c)\<rparr>
      in fill_inequalities cs (row + pc_niq c) (col + pc_nv c) s)"

fun fill_bounds ::
    "PathConstraint list \<Rightarrow> nat \<Rightarrow> 'b qpOASESPPSolver \<Rightarrow> 'b qpOASESPPSolver" where
  "fill_bounds [] row s = s"
| "fill_bounds (c # cs) row s =
     (let s = s\<lparr>self_l := set_cols (self_l s) row (pc_nv c) (pc_l c)\<rparr>;
          s = s\<lparr>self_h := set_cols (self_h s) row (pc_nv c) (pc_h c)\<rparr>
      in fill_bounds cs (row + pc_nv c) s)"

definition fill_matrices :: "'b qpOASESPPSolver \<Rightarrow> 'b qpOASESPPSolver" where
  "fill_matrices s =
     (let s = s\<lparr>self_g := (\<lambda>k. Fl 0)\<rparr>;
          s = s\<lparr>self_H := (\<lambda>r c. Fl 0)\<rparr>;
          s = s\<lparr>self_A := (\<lambda>i r c. Fl 0)\<rparr>;
          s = s\<lparr>self_A := zero_rows3 (self_A s) (self_nop s)\<rparr>;
          s = s\<lparr>self_lA := zero_rows2 (self_lA s) (self_nop s)\<rparr>;
          s = s\<lparr>self_hA := zero_rows2 (self_hA s) (self_nop s)\<rparr>;
          s = fill_canonical (filter (\<lambda>c. pc_nm c \<noteq> 0) (self_constraint_set s))
                (self_nop s) s;
          s = fill_equalities (filter (\<lambda>c. pc_neq c \<noteq> 0) (self_constraint_set s))
                (self_nop s + self_nm s) 2 s;
          s = fill_inequalities (filter (\<lambda>c. pc_niq c \<noteq> 0) (self_constraint_set s))
                (self_nop s + self_nm s + self_neq s) 2 s;
          s = s\<lparr>self_l := set_col (self_l s) 0 (fneg MAXU)\<rparr>;
          s = s\<lparr>self_h := set_col (self_h s) 0 MAXU\<rparr>;
          s = s\<lparr>self_l := set_col (self_l s) 1 (Fl 0)\<rparr>;
          s = s\<lparr>self_h := set_col (self_h s) 1 MAXX\<rparr>;
          s = fill_bounds (filter (\<lambda>c. pc_nv c \<noteq> 0) (self_constraint_set s)) 2 s
      in s)"

definition init_qpoaes_solvers ::
    "'b SQProblem \<Rightarrow> 'b qpOASESPPSolver \<Rightarrow> bool \<Rightarrow> 'b qpOASESPPSolver" where
  "init_qpoaes_solvers B s verbose =
     (let s = s\<lparr>self_nWSR_cnst := 1000\<rparr>;
          nC = self_nC s;
          nV = self_nV s;
          s = s\<lparr>self_solver_up := sq_new B nV nC\<rparr>;
          s = s\<lparr>self_solver_down := sq_new B nV nC\<rparr>
      in s)"

text \<open>
  \<open>__init__\<close>. The object is built attribute by attribute; in the record the attributes
  that \<open>_init_matrices\<close> and \<open>_init_qpoaes_solvers\<close> assign later start from a
  placeholder that is overwritten before it is read. An empty \<open>constraint_set\<close> raises
  \<open>IndexError\<close> at \<open>constraint_set[0]\<close>. The argument \<open>verbose\<close> only selects the
  print level of the backend.
\<close>

definition qpOASESPPSolver_init ::
    "'b SQProblem \<Rightarrow> PathConstraint list \<Rightarrow> bool \<Rightarrow> 'b qpOASESPPSolver outcome" where
  "qpOASESPPSolver_init B constraint_set verbose =
     (case constraint_set of
        [] \<Rightarrow> Raise IndexError
      | c0 # _ \<Rightarrow>
          let ss = pc_ss c0;
              N = pc_N c0
          in
            if \<not> list_all (\<lambda>c. allclose (pc_ss c) ss (N + 1)) constraint_set
            then Raise (AssertionError [])
            else
              let s = \<lparr>self_I0 = (Fl 0, Fl (1 / 10 ^ 4)),
                       self_IN = (Fl 0, Fl (1 / 10 ^ 4)),
                       self_ss = ss,
                       self_Ds = (\<lambda>i. fsub (ss (i + 1)) (ss i)),
                       self_N = N,
                       self_K = (\<lambda>i j. fneg (Fl 1)),
                       self_L = (\<lambda>i j. fneg (Fl 1)),
                       self_nop = 3,
                       self_constraint_set = constraint_set,
                       self_nm = 0, self_niq = 0, self_neq = 0, self_nv = 0,
                       self_nV = 0, self_nC = 0,
                       self_H = (\<lambda>r c. Fl 0), self_g = (\<lambda>k. Fl 0),
                       self_l = (\<lambda>i k. Fl 0), self_h = (\<lambda>i k. Fl 0),
                       self_lA = (\<lambda>i r. Fl 0), self_hA = (\<lambda>i r. Fl 0),
                       self_A = (\<lambda>i r c. Fl 0),
                       self_xfull = (\<lambda>k. Fl 0), self_yfull = (\<lambda>k. Fl 0),
                       self_nWSR_cnst = 0,
                       self_nWSR_up = (\<lambda>k. 0), self_nWSR_down = (\<lambda>k. 0),
                       self_solver_up = sq_new B 0 0, self_solver_down = sq_new B 0 0,
                       self_xfulls = Map.empty, self_yfulls = Map.empty\<rparr>;
                  s = init_matrices s constraint_set;
                  s = fill_matrices s;
                  s = init_qpoaes_solvers B s verbose
              in Return s)"

section \<open>Test fixtures\<close>

text \<open>
  A backend whose answers are given by two functions of the problem, one for cold starts
  and one for hot starts: each answer is a status, the primal values of \<open>u\<close> and \<open>x\<close>
  and the objective value. The instance keeps the last answer. It stands for the solver
  in the concrete runs below.
\<close>

type_synonym reply = "int \<times> real \<times> real \<times> real"

definition scripted :: "(qp \<Rightarrow> reply) \<Rightarrow> (qp \<Rightarrow> reply) \<Rightarrow> reply SQProblem" where
  "scripted cold hot =
     \<lparr>sq_new = (\<lambda>nV nC. (0, 0, 0, 0)),
      sq_init = (\<lambda>b p. (fst (cold p), cold p)),
      sq_hotstart = (\<lambda>b p. (fst (hot p), hot p)),
      sq_getPrimalSolution =
        (\<lambda>b k. if k = 0 then fst (snd b) else if k = 1 then fst (snd (snd b)) else 0),
      sq_getObjVal = (\<lambda>b. snd (snd (snd b)))\<rparr>"

text \<open>
  A constraint that contributes no rows and no slack variables, on the uniform grid
  \<open>ss[i] = i / N\<close>.
\<close>

definition no_constraint :: "nat \<Rightarrow> PathConstraint" where
  "no_constraint N =
     \<lparr>pc_ss = (\<lambda>i. Fl (real i / real N)), pc_N = N,
      pc_nm = 0, pc_neq = 0, pc_niq = 0, pc_nv = 0,
      pc_a = (\<lambda>i r. Fl 0), pc_b = (\<lambda>i r. Fl 0), pc_c = (\<lambda>i r. Fl 0),
      pc_abar = (\<lambda>i r. Fl 0), pc_bbar = (\<lambda>i r. Fl 0), pc_cbar = (\<lambda>i r. Fl 0),
      pc_D = (\<lambda>i r k. Fl 0), pc_G = (\<lambda>i r k. Fl 0),
      pc_lG = (\<lambda>i r. Fl 0), pc_hG = (\<lambda>i r. Fl 0),
      pc_l = (\<lambda>i k. Fl 0), pc_h = (\<lambda>i k. Fl 0)\<rparr>"

text \<open>
  A scripted backend with fixed answers: every cold start succeeds and every hot start
  returns \<open>hot_status\<close>; the primal solution always holds \<open>u\<close>, and its \<open>x\<close> is \<open>hi\<close>
  for a problem that maximises \<open>x\<close> (\<open>g[1] = -1\<close>) and \<open>lo\<close> otherwise.
\<close>

definition fixed_answers :: "real \<Rightarrow> real \<Rightarrow> real \<Rightarrow> int \<Rightarrow> reply SQProblem" where
  "fixed_answers lo hi u hot_status =
     scripted (\<lambda>p. (0, u, if qp_g p 1 = Fl (- 1) then hi else lo, 0))
       (\<lambda>p. (hot_status, u, if qp_g p 1 = Fl (- 1) then hi else lo, 0))"

section \<open>Auxiliary notions for the proofs\<close>

text \<open>
  The attributes no primitive assigns: two objects agree on them.
\<close>

definition same_frame :: "'b qpOASESPPSolver \<Rightarrow> 'b qpOASESPPSolver \<Rightarrow> bool" where
  "same_frame s s' \<longleftrightarrow>
     self_I0 s' = self_I0 s \<and>
     self_IN s' = self_IN s \<and>
     self_ss s' = self_ss s \<and>
     self_Ds s' = self_Ds s \<and>
     self_N s' = self_N s \<and>
     self_K s' = self_K s \<and>
     self_L s' = self_L s \<and>
     self_nop s' = self_nop s \<and>
     self_constraint_set s' = self_constraint_set s \<and>
     self_nm s' = self_nm s \<and>
     self_niq s' = self_niq s \<and>
     self_neq s' = self_neq s \<and>
     self_nv s' = self_nv s \<and>
     self_nV s' = self_nV s \<and>
     self_nC s' = self_nC s \<and>
     self_l s' = self_l s \<and>
     self_h s' = self_h s \<and>
     self_yfull s' = self_yfull s \<and>
     self_nWSR_cnst s' = self_nWSR_cnst s \<and>
     self_nWSR_up s' = self_nWSR_up s \<and>
     self_nWSR_down s' = self_nWSR_down s \<and>
     self_xfulls s' = self_xfulls s \<and>
     self_yfulls s' = self_yfulls s"


text \<open>
  The problem \<open>reach\<close> hands to a solver at stage \<open>i\<close>: operational row 0 holds
  \<open>xmin \<le> x \<le> xmax\<close>, and the objective is \<open>sg * (2 * (ss[i+1] - ss[i]) * u + x)\<close>,
  with \<open>sg = -1\<close> for the up solver and \<open>sg = 1\<close> for the down solver. Every other
  cell is the one the object held when \<open>reach\<close> was called.
\<close>

definition reach_problem ::
    "'b qpOASESPPSolver \<Rightarrow> nat \<Rightarrow> pyfloat \<Rightarrow> pyfloat \<Rightarrow> real \<Rightarrow> qp" where
  "reach_problem s i xmin xmax sg =
     \<lparr>qp_H = self_H s,
      qp_g = (self_g s)
        (0 := fmul (Fl (sg * 2)) (fsub (self_ss s (i + 1)) (self_ss s i)), 1 := Fl sg),
      qp_A = set3 (set3 (self_A s) i 0 1 (Fl 1)) i 0 0 (Fl 0) i,
      qp_lb = self_l s i,
      qp_ub = self_h s i,
      qp_lbA = set2 (self_lA s) i 0 xmin i,
      qp_ubA = set2 (self_hA s) i 0 xmax i,
      qp_nWSR = self_nWSR_cnst s\<rparr>"

text \<open>The attributes the filling loops of \<open>_fill_matrices\<close> leave alone.\<close>

definition same_config :: "'b qpOASESPPSolver \<Rightarrow> 'b qpOASESPPSolver \<Rightarrow> bool" where
  "same_config s s' \<longleftrightarrow>
     self_I0 s' = self_I0 s \<and>
     self_IN s' = self_IN s \<and>
     self_ss s' = self_ss s \<and>
     self_Ds s' = self_Ds s \<and>
     self_N s' = self_N s \<and>
     self_K s' = self_K s \<and>
     self_L s' = self_L s \<and>
     self_nop s' = self_nop s \<and>
     self_constraint_set s' = self_constraint_set s \<and>
     self_nm s' = self_nm s \<and>
     self_niq s' = self_niq s \<and>
     self_neq s' = self_neq s \<and>
     self_nv s' = self_nv s \<and>
     self_nV s' = self_nV s \<and>
     self_nC s' = self_nC s \<and>
     self_H s' = self_H s \<and>
     self_g s' = self_g s \<and>
     self_xfull s' = self_xfull s \<and>
     self_yfull s' = self_yfull s \<and>
     self_nWSR_cnst s' = self_nWSR_cnst s \<and>
     self_nWSR_up s' = self_nWSR_up s \<and>
     self_nWSR_down s' = self_nWSR_down s \<and>
     self_solver_up s' = self_solver_up s \<and>
     self_solver_down s' = self_solver_down s \<and>
     self_xfulls s' = self_xfulls s \<and>
     self_yfulls s' = self_yfulls s"

text \<open>The attributes no sweep assigns: the grid, the end point intervals and the sizes.\<close>

definition same_setup :: "'b qpOASESPPSolver \<Rightarrow> 'b qpOASESPPSolver \<Rightarrow> bool" where
  "same_setup s s' \<longleftrightarrow>
     self_I0 s' = self_I0 s \<and>
     self_IN s' = self_IN s \<and>
     self_ss s' = self_ss s \<and>
     self_Ds s' = self_Ds s \<and>
     self_N s' = self_N s \<and>
     self_nop s' = self_nop s \<and>
     self_constraint_set s' = self_constraint_set s \<and>
     self_nm s' = self_nm s \<and>
     self_niq s' = self_niq s \<and>
     self_neq s' = self_neq s \<and>
     self_nv s' = self_nv s \<and>
     self_nV s' = self_nV s \<and>
     self_nC s' = self_nC s \<and>
     self_l s' = self_l s \<and>
     self_h s' = self_h s \<and>
     self_nWSR_cnst s' = self_nWSR_cnst s"

text \<open>
  The problems the other primitives hand to a solver at stage \<open>i\<close>, written out from the
  object they were called on. \<open>one_step\<close> and \<open>greedy_step\<close> start from the reset
  arrays; \<open>proj_x_admissible\<close> from the arrays as they are. The objective of
  \<open>one_step\<close> and \<open>proj_x_admissible\<close> is \<open>sg * x\<close>, with \<open>sg = -1\<close> for the up
  solver and \<open>sg = 1\<close> for the down solver; that of \<open>greedy_step\<close> is \<open>-u\<close> plus the
  regulariser.
\<close>

definition one_step_problem ::
    "'b qpOASESPPSolver \<Rightarrow> nat \<Rightarrow> pyfloat \<Rightarrow> pyfloat \<Rightarrow> real \<Rightarrow> qp" where
  "one_step_problem s i xmin xmax sg =
     \<lparr>qp_H = (\<lambda>r c. Fl 0),
      qp_g = (\<lambda>k. Fl 0)(1 := Fl sg),
      qp_A = set3 (set3 (zero_rows3 (self_A s) (self_nop s)) i 0 1 (Fl 1)) i 0 0
               (fmul (Fl 2) (fsub (self_ss s (i + 1)) (self_ss s i))) i,
      qp_lb = self_l s i,
      qp_ub = self_h s i,
      qp_lbA = set2 (zero_rows2 (self_lA s) (self_nop s)) i 0 xmin i,
      qp_ubA = set2 (zero_rows2 (self_hA s) (self_nop s)) i 0 xmax i,
      qp_nWSR = self_nWSR_cnst s\<rparr>"

definition proj_problem ::
    "'b qpOASESPPSolver \<Rightarrow> nat \<Rightarrow> pyfloat \<Rightarrow> pyfloat \<Rightarrow> real \<Rightarrow> qp" where
  "proj_problem s i xmin xmax sg =
     \<lparr>qp_H = self_H s,
      qp_g = (self_g s)(0 := Fl 0, 1 := Fl sg),
      qp_A = set3 (set3 (self_A s) i 0 1 (Fl 1)) i 0 0 (Fl 0) i,
      qp_lb = self_l s i,
      qp_ub = self_h s i,
      qp_lbA = set2 (self_lA s) i 0 xmin i,
      qp_ubA = set2 (self_hA s) i 0 xmax i,
      qp_nWSR = self_nWSR_cnst s\<rparr>"

definition greedy_problem ::
    "'b qpOASESPPSolver \<Rightarrow> nat \<Rightarrow> pyfloat \<Rightarrow> pyfloat \<Rightarrow> pyfloat \<Rightarrow> pyfloat \<Rightarrow> qp" where
  "greedy_problem s i x xmin xmax reg =
     \<lparr>qp_H = (if self_nv s \<noteq> 0 then add_reg (\<lambda>r c. Fl 0) (self_nV s) reg else (\<lambda>r c. Fl 0)),
      qp_g = (\<lambda>k. Fl 0)(0 := Fl (- 1)),
      qp_A = set3 (set3 (set3 (set3 (zero_rows3 (self_A s) (self_nop s)) i 0 1 (Fl 1))
               i 0 0 (Fl 0)) i 1 1 (Fl 1)) i 1 0 (fmul (Fl 2) (self_Ds s i)) i,
      qp_lb = self_l s i,
      qp_ub = self_h s i,
      qp_lbA = set2 (set2 (zero_rows2 (self_lA s) (self_nop s)) i 0 x) i 1 xmin i,
      qp_ubA = set2 (set2 (zero_rows2 (self_hA s) (self_nop s)) i 0 x) i 1 xmax i,
      qp_nWSR = self_nWSR_cnst s\<rparr>"
section \<open>Frame lemmas\<close>

lemma set2_apply [simp]:
  "set2 M i j v i' j' = (if i' = i \<and> j' = j then v else M i' j')"
  by (simp add: set2_def)

lemma set3_apply [simp]:
  "set3 T i j k v i' j' k' = (if i' = i \<and> j' = j \<and> k' = k then v else T i' j' k')"
  by (simp add: set3_def)

lemma zero_rows2_apply [simp]: "zero_rows2 M n i r = (if r < n then Fl 0 else M i r)"
  by (simp add: zero_rows2_def)

lemma zero_rows3_apply [simp]: "zero_rows3 T n i r c = (if r < n then Fl 0 else T i r c)"
  by (simp add: zero_rows3_def)

lemma reset_operational_rows_sel [simp]:
  "self_I0 (reset_operational_rows s) = self_I0 s"
  "self_IN (reset_operational_rows s) = self_IN s"
  "self_ss (reset_operational_rows s) = self_ss s"
  "self_Ds (reset_operational_rows s) = self_Ds s"
  "self_N (reset_operational_rows s) = self_N s"
  "self_K (reset_operational_rows s) = self_K s"
  "self_L (reset_operational_rows s) = self_L s"
  "self_nop (reset_operational_rows s) = self_nop s"
  "self_constraint_set (reset_operational_rows s) = self_constraint_set s"
  "self_nm (reset_operational_rows s) = self_nm s"
  "self_niq (reset_operational_rows s) = self_niq s"
  "self_neq (reset_operational_rows s) = self_neq s"
  "self_nv (reset_operational_rows s) = self_nv s"
  "self_nV (reset_operational_rows s) = self_nV s"
  "self_nC (reset_operational_rows s) = self_nC s"
  "self_H (reset_operational_rows s) = (\<lambda>r c. Fl 0)"
  "self_g (reset_operational_rows s) = (\<lambda>k. Fl 0)"
  "self_l (reset_operational_rows s) = self_l s"
  "self_h (reset_operational_rows s) = self_h s"
  "self_lA (reset_operational_rows s) = zero_rows2 (self_lA s) (self_nop s)"
  "self_hA (reset_operational_rows s) = zero_rows2 (self_hA s) (self_nop s)"
  "self_A (reset_operational_rows s) = zero_rows3 (self_A s) (self_nop s)"
  "self_xfull (reset_operational_rows s) = self_xfull s"
  "self_yfull (reset_operational_rows s) = self_yfull s"
  "self_nWSR_cnst (reset_operational_rows s) = self_nWSR_cnst s"
  "self_nWSR_up (reset_operational_rows s) = self_nWSR_up s"
  "self_nWSR_down (reset_operational_rows s) = self_nWSR_down s"
  "self_solver_up (reset_operational_rows s) = self_solver_up s"
  "self_solver_down (reset_operational_rows s) = self_solver_down s"
  "self_xfulls (reset_operational_rows s) = self_xfulls s"
  "self_yfulls (reset_operational_rows s) = self_yfulls s"
  "qpOASESPPSolver.more (reset_operational_rows s) = qpOASESPPSolver.more s"
  by (simp_all add: reset_operational_rows_def Let_def)

lemma same_frame_refl [simp]: "same_frame s s"
  by (simp add: same_frame_def)

lemma same_frame_update [simp]:
  "same_frame s (s'\<lparr>self_H := vH\<rparr>) = same_frame s s'"
  "same_frame s (s'\<lparr>self_g := vg\<rparr>) = same_frame s s'"
  "same_frame s (s'\<lparr>self_lA := vlA\<rparr>) = same_frame s s'"
  "same_frame s (s'\<lparr>self_hA := vhA\<rparr>) = same_frame s s'"
  "same_frame s (s'\<lparr>self_A := vA\<rparr>) = same_frame s s'"
  "same_frame s (s'\<lparr>self_xfull := vxfull\<rparr>) = same_frame s s'"
  "same_frame s (s'\<lparr>self_solver_up := vsolver_up\<rparr>) = same_frame s s'"
  "same_frame s (s'\<lparr>self_solver_down := vsolver_down\<rparr>) = same_frame s s'"
  "same_frame s (reset_operational_rows s') = same_frame s s'"
  by (simp_all add: same_frame_def)

lemma one_step_same_frame: "same_frame s (snd (one_step B s i xmin xmax init))"
  by (simp add: one_step_def Let_def split: prod.splits option.splits)

lemma one_step_frame [simp]:
  "self_I0 (snd (one_step B s i xmin xmax init)) = self_I0 s"
  "self_IN (snd (one_step B s i xmin xmax init)) = self_IN s"
  "self_ss (snd (one_step B s i xmin xmax init)) = self_ss s"
  "self_Ds (snd (one_step B s i xmin xmax init)) = self_Ds s"
  "self_N (snd (one_step B s i xmin xmax init)) = self_N s"
  "self_K (snd (one_step B s i xmin xmax init)) = self_K s"
  "self_L (snd (one_step B s i xmin xmax init)) = self_L s"
  "self_nop (snd (one_step B s i xmin xmax init)) = self_nop s"
  "self_constraint_set (snd (one_step B s i xmin xmax init)) = self_constraint_set s"
  "self_nm (snd (one_step B s i xmin xmax init)) = self_nm s"
  "self_niq (snd (one_step B s i xmin xmax init)) = self_niq s"
  "self_neq (snd (one_step B s i xmin xmax init)) = self_neq s"
  "self_nv (snd (one_step B s i xmin xmax init)) = self_nv s"
  "self_nV (snd (one_step B s i xmin xmax init)) = self_nV s"
  "self_nC (snd (one_step B s i xmin xmax init)) = self_nC s"
  "self_l (snd (one_step B s i xmin xmax init)) = self_l s"
  "self_h (snd (one_step B s i xmin xmax init)) = self_h s"
  "self_yfull (snd (one_step B s i xmin xmax init)) = self_yfull s"
  "self_nWSR_cnst (snd (one_step B s i xmin xmax init)) = self_nWSR_cnst s"
  "self_nWSR_up (snd (one_step B s i xmin xmax init)) = self_nWSR_up s"
  "self_nWSR_down (snd (one_step B s i xmin xmax init)) = self_nWSR_down s"
  "self_xfulls (snd (one_step B s i xmin xmax init)) = self_xfulls s"
  "self_yfulls (snd (one_step B s i xmin xmax init)) = self_yfulls s"
  using one_step_same_frame [of s B i xmin xmax init] by (simp_all add: same_frame_def)

lemma reach_same_frame: "same_frame s (snd (reach B s i xmin xmax init))"
  by (simp add: reach_def Let_def split: prod.splits option.splits)

lemma reach_frame [simp]:
  "self_I0 (snd (reach B s i xmin xmax init)) = self_I0 s"
  "self_IN (snd (reach B s i xmin xmax init)) = self_IN s"
  "self_ss (snd (reach B s i xmin xmax init)) = self_ss s"
  "self_Ds (snd (reach B s i xmin xmax init)) = self_Ds s"
  "self_N (snd (reach B s i xmin xmax init)) = self_N s"
  "self_K (snd (reach B s i xmin xmax init)) = self_K s"
  "self_L (snd (reach B s i xmin xmax init)) = self_L s"
  "self_nop (snd (reach B s i xmin xmax init)) = self_nop s"
  "self_constraint_set (snd (reach B s i xmin xmax init)) = self_constraint_set s"
  "self_nm (snd (reach B s i xmin xmax init)) = self_nm s"
  "self_niq (snd (reach B s i xmin xmax init)) = self_niq s"
  "self_neq (snd (reach B s i xmin xmax init)) = self_neq s"
  "self_nv (snd (reach B s i xmin xmax init)) = self_nv s"
  "self_nV (snd (reach B s i xmin xmax init)) = self_nV s"
  "self_nC (snd (reach B s i xmin xmax init)) = self_nC s"
  "self_l (snd (reach B s i xmin xmax init)) = self_l s"
  "self_h (snd (reach B s i xmin xmax init)) = self_h s"
  "self_yfull (snd (reach B s i xmin xmax init)) = self_yfull s"
  "self_nWSR_cnst (snd (reach B s i xmin xmax init)) = self_nWSR_cnst s"
  "self_nWSR_up (snd (reach B s i xmin xmax init)) = self_nWSR_up s"
  "self_nWSR_down (snd (reach B s i xmin xmax init)) = self_nWSR_down s"
  "self_xfulls (snd (reach B s i xmin xmax init)) = self_xfulls s"
  "self_yfulls (snd (reach B s i xmin xmax init)) = self_yfulls s"
  using reach_same_frame [of s B i xmin xmax init] by (simp_all add: same_frame_def)

lemma proj_x_admissible_same_frame: "same_frame s (snd (proj_x_admissible B s i xmin xmax init))"
  by (simp add: proj_x_admissible_def Let_def split: prod.splits option.splits)

lemma proj_x_admissible_frame [simp]:
  "self_I0 (snd (proj_x_admissible B s i xmin xmax init)) = self_I0 s"
  "self_IN (snd (proj_x_admissible B s i xmin xmax init)) = self_IN s"
  "self_ss (snd (proj_x_admissible B s i xmin xmax init)) = self_ss s"
  "self_Ds (snd (proj_x_admissible B s i xmin xmax init)) = self_Ds s"
  "self_N (snd (proj_x_admissible B s i xmin xmax init)) = self_N s"
  "self_K (snd (proj_x_admissible B s i xmin xmax init)) = self_K s"
  "self_L (snd (proj_x_admissible B s i xmin xmax init)) = self_L s"
  "self_nop (snd (proj_x_admissible B s i xmin xmax init)) = self_nop s"
  "self_constraint_set (snd (proj_x_admissible B s i xmin xmax init)) = self_constraint_set s"
  "self_nm (snd (proj_x_admissible B s i xmin xmax init)) = self_nm s"
  "self_niq (snd (proj_x_admissible B s i xmin xmax init)) = self_niq s"
  "self_neq (snd (proj_x_admissible B s i xmin xmax init)) = self_neq s"
  "self_nv (snd (proj_x_admissible B s i xmin xmax init)) = self_nv s"
  "self_nV (snd (proj_x_admissible B s i xmin xmax init)) = self_nV s"
  "self_nC (snd (proj_x_admissible B s i xmin xmax init)) = self_nC s"
  "self_l (snd (proj_x_admissible B s i xmin xmax init)) = self_l s"
  "self_h (snd (proj_x_admissible B s i xmin xmax init)) = self_h s"
  "self_yfull (snd (proj_x_admissible B s i xmin xmax init)) = self_yfull s"
  "self_nWSR_cnst (snd (proj_x_admissible B s i xmin xmax init)) = self_nWSR_cnst s"
  "self_nWSR_up (snd (proj_x_admissible B s i xmin xmax init)) = self_nWSR_up s"
  "self_nWSR_down (snd (proj_x_admissible B s i xmin xmax init)) = self_nWSR_down s"
  "self_xfulls (snd (proj_x_admissible B s i xmin xmax init)) = self_xfulls s"
  "self_yfulls (snd (proj_x_admissible B s i xmin xmax init)) = self_yfulls s"
  using proj_x_admissible_same_frame [of s B i xmin xmax init] by (simp_all add: same_frame_def)

lemma greedy_step_same_frame: "same_frame s (snd (greedy_step B s i x xmin xmax init reg))"
  by (simp add: greedy_step_def Let_def split: prod.splits option.splits)

lemma greedy_step_frame [simp]:
  "self_I0 (snd (greedy_step B s i x xmin xmax init reg)) = self_I0 s"
  "self_IN (snd (greedy_step B s i x xmin xmax init reg)) = self_IN s"
  "self_ss (snd (greedy_step B s i x xmin xmax init reg)) = self_ss s"
  "self_Ds (snd (greedy_step B s i x xmin xmax init reg)) = self_Ds s"
  "self_N (snd (greedy_step B s i x xmin xmax init reg)) = self_N s"
  "self_K (snd (greedy_step B s i x xmin xmax init reg)) = self_K s"
  "self_L (snd (greedy_step B s i x xmin xmax init reg)) = self_L s"
  "self_nop (snd (greedy_step B s i x xmin xmax init reg)) = self_nop s"
  "self_constraint_set (snd (greedy_step B s i x xmin xmax init reg)) = self_constraint_set s"
  "self_nm (snd (greedy_step B s i x xmin xmax init reg)) = self_nm s"
  "self_niq (snd (greedy_step B s i x xmin xmax init reg)) = self_niq s"
  "self_neq (snd (greedy_step B s i x xmin xmax init reg)) = self_neq s"
  "self_nv (snd (greedy_step B s i x xmin xmax init reg)) = self_nv s"
  "self_nV (snd (greedy_step B s i x xmin xmax init reg)) = self_nV s"
  "self_nC (snd (greedy_step B s i x xmin xmax init reg)) = self_nC s"
  "self_l (snd (greedy_step B s i x xmin xmax init reg)) = self_l s"
  "self_h (snd (greedy_step B s i x xmin xmax init reg)) = self_h s"
  "self_yfull (snd (greedy_step B s i x xmin xmax init reg)) = self_yfull s"
  "self_nWSR_cnst (snd (greedy_step B s i x xmin xmax init reg)) = self_nWSR_cnst s"
  "self_nWSR_up (snd (greedy_step B s i x xmin xmax init reg)) = self_nWSR_up s"
  "self_nWSR_down (snd (greedy_step B s i x xmin xmax init reg)) = self_nWSR_down s"
  "self_xfulls (snd (greedy_step B s i x xmin xmax init reg)) = self_xfulls s"
  "self_yfulls (snd (greedy_step B s i x xmin xmax init reg)) = self_yfulls s"
  using greedy_step_same_frame [of s B i x xmin xmax init reg] by (simp_all add: same_frame_def)

lemma least_greedy_step_same_frame: "same_frame s (snd (least_greedy_step B s i x xmin xmax init reg))"
  by (simp add: least_greedy_step_def Let_def split: prod.splits option.splits)

lemma least_greedy_step_frame [simp]:
  "self_I0 (snd (least_greedy_step B s i x xmin xmax init reg)) = self_I0 s"
  "self_IN (snd (least_greedy_step B s i x xmin xmax init reg)) = self_IN s"
  "self_ss (snd (least_greedy_step B s i x xmin xmax init reg)) = self_ss s"
  "self_Ds (snd (least_greedy_step B s i x xmin xmax init reg)) = self_Ds s"
  "self_N (snd (least_greedy_step B s i x xmin xmax init reg)) = self_N s"
  "self_K (snd (least_greedy_step B s i x xmin xmax init reg)) = self_K s"
  "self_L (snd (least_greedy_step B s i x xmin xmax init reg)) = self_L s"
  "self_nop (snd (least_greedy_step B s i x xmin xmax init reg)) = self_nop s"
  "self_constraint_set (snd (least_greedy_step B s i x xmin xmax init reg)) = self_constraint_set s"
  "self_nm (snd (least_greedy_step B s i x xmin xmax init reg)) = self_nm s"
  "self_niq (snd (least_greedy_step B s i x xmin xmax init reg)) = self_niq s"
  "self_neq (snd (least_greedy_step B s i x xmin xmax init reg)) = self_neq s"
  "self_nv (snd (least_greedy_step B s i x xmin xmax init reg)) = self_nv s"
  "self_nV (snd (least_greedy_step B s i x xmin xmax init reg)) = self_nV s"
  "self_nC (snd (least_greedy_step B s i x xmin xmax init reg)) = self_nC s"
  "self_l (snd (least_greedy_step B s i x xmin xmax init reg)) = self_l s"
  "self_h (snd (least_greedy_step B s i x xmin xmax init reg)) = self_h s"
  "self_yfull (snd (least_greedy_step B s i x xmin xmax init reg)) = self_yfull s"
  "self_nWSR_cnst (snd (least_greedy_step B s i x xmin xmax init reg)) = self_nWSR_cnst s"
  "self_nWSR_up (snd (least_greedy_step B s i x xmin xmax init reg)) = self_nWSR_up s"
  "self_nWSR_down (snd (least_greedy_step B s i x xmin xmax init reg)) = self_nWSR_down s"
  "self_xfulls (snd (least_greedy_step B s i x xmin xmax init reg)) = self_xfulls s"
  "self_yfulls (snd (least_greedy_step B s i x xmin xmax init reg)) = self_yfulls s"
  using least_greedy_step_same_frame [of s B i x xmin xmax init reg] by (simp_all add: same_frame_def)

subsection \<open>Construction\<close>

lemma same_config_refl [simp]: "same_config s s"
  by (simp add: same_config_def)

lemma same_config_update [simp]:
  "same_config s (s'\<lparr>self_A := vA\<rparr>) = same_config s s'"
  "same_config s (s'\<lparr>self_lA := vlA\<rparr>) = same_config s s'"
  "same_config s (s'\<lparr>self_hA := vhA\<rparr>) = same_config s s'"
  "same_config s (s'\<lparr>self_l := vl\<rparr>) = same_config s s'"
  "same_config s (s'\<lparr>self_h := vh\<rparr>) = same_config s s'"
  by (simp_all add: same_config_def)

lemma fill_canonical_same_config: "same_config s (fill_canonical cs row s') = same_config s s'"
  by (induction cs arbitrary: row s') (simp_all add: Let_def)

lemma fill_canonical_sel [simp]:
  "self_I0 (fill_canonical cs row s) = self_I0 s"
  "self_IN (fill_canonical cs row s) = self_IN s"
  "self_ss (fill_canonical cs row s) = self_ss s"
  "self_Ds (fill_canonical cs row s) = self_Ds s"
  "self_N (fill_canonical cs row s) = self_N s"
  "self_K (fill_canonical cs row s) = self_K s"
  "self_L (fill_canonical cs row s) = self_L s"
  "self_nop (fill_canonical cs row s) = self_nop s"
  "self_constraint_set (fill_canonical cs row s) = self_constraint_set s"
  "self_nm (fill_canonical cs row s) = self_nm s"
  "self_niq (fill_canonical cs row s) = self_niq s"
  "self_neq (fill_canonical cs row s) = self_neq s"
  "self_nv (fill_canonical cs row s) = self_nv s"
  "self_nV (fill_canonical cs row s) = self_nV s"
  "self_nC (fill_canonical cs row s) = self_nC s"
  "self_H (fill_canonical cs row s) = self_H s"
  "self_g (fill_canonical cs row s) = self_g s"
  "self_xfull (fill_canonical cs row s) = self_xfull s"
  "self_yfull (fill_canonical cs row s) = self_yfull s"
  "self_nWSR_cnst (fill_canonical cs row s) = self_nWSR_cnst s"
  "self_nWSR_up (fill_canonical cs row s) = self_nWSR_up s"
  "self_nWSR_down (fill_canonical cs row s) = self_nWSR_down s"
  "self_solver_up (fill_canonical cs row s) = self_solver_up s"
  "self_solver_down (fill_canonical cs row s) = self_solver_down s"
  "self_xfulls (fill_canonical cs row s) = self_xfulls s"
  "self_yfulls (fill_canonical cs row s) = self_yfulls s"
  using fill_canonical_same_config [of s cs row s] by (simp_all add: same_config_def)

lemma fill_equalities_same_config: "same_config s (fill_equalities cs row col s') = same_config s s'"
  by (induction cs arbitrary: row col s') (simp_all add: Let_def)

lemma fill_equalities_sel [simp]:
  "self_I0 (fill_equalities cs row col s) = self_I0 s"
  "self_IN (fill_equalities cs row col s) = self_IN s"
  "self_ss (fill_equalities cs row col s) = self_ss s"
  "self_Ds (fill_equalities cs row col s) = self_Ds s"
  "self_N (fill_equalities cs row col s) = self_N s"
  "self_K (fill_equalities cs row col s) = self_K s"
  "self_L (fill_equalities cs row col s) = self_L s"
  "self_nop (fill_equalities cs row col s) = self_nop s"
  "self_constraint_set (fill_equalities cs row col s) = self_constraint_set s"
  "self_nm (fill_equalities cs row col s) = self_nm s"
  "self_niq (fill_equalities cs row col s) = self_niq s"
  "self_neq (fill_equalities cs row col s) = self_neq s"
  "self_nv (fill_equalities cs row col s) = self_nv s"
  "self_nV (fill_equalities cs row col s) = self_nV s"
  "self_nC (fill_equalities cs row col s) = self_nC s"
  "self_H (fill_equalities cs row col s) = self_H s"
  "self_g (fill_equalities cs row col s) = self_g s"
  "self_xfull (fill_equalities cs row col s) = self_xfull s"
  "self_yfull (fill_equalities cs row col s) = self_yfull s"
  "self_nWSR_cnst (fill_equalities cs row col s) = self_nWSR_cnst s"
  "self_nWSR_up (fill_equalities cs row col s) = self_nWSR_up s"
  "self_nWSR_down (fill_equalities cs row col s) = self_nWSR_down s"
  "self_solver_up (fill_equalities cs row col s) = self_solver_up s"
  "self_solver_down (fill_equalities cs row col s) = self_solver_down s"
  "self_xfulls (fill_equalities cs row col s) = self_xfulls s"
  "self_yfulls (fill_equalities cs row col s) = self_yfulls s"
  using fill_equalities_same_config [of s cs row col s] by (simp_all add: same_config_def)

lemma fill_inequalities_same_config: "same_config s (fill_inequalities cs row col s') = same_config s s'"
  by (induction cs arbitrary: row col s') (simp_all add: Let_def)

lemma fill_inequalities_sel [simp]:
  "self_I0 (fill_inequalities cs row col s) = self_I0 s"
  "self_IN (fill_inequalities cs row col s) = self_IN s"
  "self_ss (fill_inequalities cs row col s) = self_ss s"
  "self_Ds (fill_inequalities cs row col s) = self_Ds s"
  "self_N (fill_inequalities cs row col s) = self_N s"
  "self_K (fill_inequalities cs row col s) = self_K s"
  "self_L (fill_inequalities cs row col s) = self_L s"
  "self_nop (fill_inequalities cs row col s) = self_nop s"
  "self_constraint_set (fill_inequalities cs row col s) = self_constraint_set s"
  "self_nm (fill_inequalities cs row col s) = self_nm s"
  "self_niq (fill_inequalities cs row col s) = self_niq s"
  "self_neq (fill_inequalities cs row col s) = self_neq s"
  "self_nv (fill_inequalities cs row col s) = self_nv s"
  "self_nV (fill_inequalities cs row col s) = self_nV s"
  "self_nC (fill_inequalities cs row col s) = self_nC s"
  "self_H (fill_inequalities cs row col s) = self_H s"
  "self_g (fill_inequalities cs row col s) = self_g s"
  "self_xfull (fill_inequalities cs row col s) = self_xfull s"
  "self_yfull (fill_inequalities cs row col s) = self_yfull s"
  "self_nWSR_cnst (fill_inequalities cs row col s) = self_nWSR_cnst s"
  "self_nWSR_up (fill_inequalities cs row col s) = self_nWSR_up s"
  "self_nWSR_down (fill_inequalities cs row col s) = self_nWSR_down s"
  "self_solver_up (fill_inequalities cs row col s) = self_solver_up s"
  "self_solver_down (fill_inequalities cs row col s) = self_solver_down s"
  "self_xfulls (fill_inequalities cs row col s) = self_xfulls s"
  "self_yfulls (fill_inequalities cs row col s) = self_yfulls s"
  using fill_inequalities_same_config [of s cs row col s] by (simp_all add: same_config_def)

lemma fill_bounds_same_config: "same_config s (fill_bounds cs row s') = same_config s s'"
  by (induction cs arbitrary: row s') (simp_all add: Let_def)

lemma fill_bounds_sel [simp]:
  "self_I0 (fill_bounds cs row s) = self_I0 s"
  "self_IN (fill_bounds cs row s) = self_IN s"
  "self_ss (fill_bounds cs row s) = self_ss s"
  "self_Ds (fill_bounds cs row s) = self_Ds s"
  "self_N (fill_bounds cs row s) = self_N s"
  "self_K (fill_bounds cs row s) = self_K s"
  "self_L (fill_bounds cs row s) = self_L s"
  "self_nop (fill_bounds cs row s) = self_nop s"
  "self_constraint_set (fill_bounds cs row s) = self_constraint_set s"
  "self_nm (fill_bounds cs row s) = self_nm s"
  "self_niq (fill_bounds cs row s) = self_niq s"
  "self_neq (fill_bounds cs row s) = self_neq s"
  "self_nv (fill_bounds cs row s) = self_nv s"
  "self_nV (fill_bounds cs row s) = self_nV s"
  "self_nC (fill_bounds cs row s) = self_nC s"
  "self_H (fill_bounds cs row s) = self_H s"
  "self_g (fill_bounds cs row s) = self_g s"
  "self_xfull (fill_bounds cs row s) = self_xfull s"
  "self_yfull (fill_bounds cs row s) = self_yfull s"
  "self_nWSR_cnst (fill_bounds cs row s) = self_nWSR_cnst s"
  "self_nWSR_up (fill_bounds cs row s) = self_nWSR_up s"
  "self_nWSR_down (fill_bounds cs row s) = self_nWSR_down s"
  "self_solver_up (fill_bounds cs row s) = self_solver_up s"
  "self_solver_down (fill_bounds cs row s) = self_solver_down s"
  "self_xfulls (fill_bounds cs row s) = self_xfulls s"
  "self_yfulls (fill_bounds cs row s) = self_yfulls s"
  using fill_bounds_same_config [of s cs row s] by (simp_all add: same_config_def)
lemma init_matrices_sel [simp]:
  "self_N (init_matrices s cs) = self_N s"
  "self_ss (init_matrices s cs) = self_ss s"
  "self_Ds (init_matrices s cs) = self_Ds s"
  "self_I0 (init_matrices s cs) = self_I0 s"
  "self_IN (init_matrices s cs) = self_IN s"
  "self_K (init_matrices s cs) = self_K s"
  "self_L (init_matrices s cs) = self_L s"
  "self_nop (init_matrices s cs) = self_nop s"
  "self_constraint_set (init_matrices s cs) = self_constraint_set s"
  "self_nv (init_matrices s cs) = sum_list (map pc_nv cs)"
  "self_nV (init_matrices s cs) = sum_list (map pc_nv cs) + 2"
  "self_nm (init_matrices s cs) = sum_list (map pc_nm cs)"
  "self_neq (init_matrices s cs) = sum_list (map pc_neq cs)"
  "self_niq (init_matrices s cs) = sum_list (map pc_niq cs)"
  "self_nC (init_matrices s cs) = self_nop s + sum_list (map pc_nm cs) + sum_list (map pc_neq cs) + sum_list (map pc_niq cs)"
  by (simp_all add: init_matrices_def Let_def)

lemma fill_matrices_sel [simp]:
  "self_N (fill_matrices s) = self_N s"
  "self_ss (fill_matrices s) = self_ss s"
  "self_Ds (fill_matrices s) = self_Ds s"
  "self_I0 (fill_matrices s) = self_I0 s"
  "self_IN (fill_matrices s) = self_IN s"
  "self_K (fill_matrices s) = self_K s"
  "self_L (fill_matrices s) = self_L s"
  "self_nop (fill_matrices s) = self_nop s"
  "self_constraint_set (fill_matrices s) = self_constraint_set s"
  "self_nv (fill_matrices s) = self_nv s"
  "self_nV (fill_matrices s) = self_nV s"
  "self_nm (fill_matrices s) = self_nm s"
  "self_neq (fill_matrices s) = self_neq s"
  "self_niq (fill_matrices s) = self_niq s"
  "self_nC (fill_matrices s) = self_nC s"
  "self_g (fill_matrices s) = (\<lambda>k. Fl 0)"
  "self_H (fill_matrices s) = (\<lambda>r c. Fl 0)"
  by (simp_all add: fill_matrices_def Let_def)

lemma init_qpoaes_solvers_sel [simp]:
  "self_N (init_qpoaes_solvers B s verbose) = self_N s"
  "self_ss (init_qpoaes_solvers B s verbose) = self_ss s"
  "self_Ds (init_qpoaes_solvers B s verbose) = self_Ds s"
  "self_I0 (init_qpoaes_solvers B s verbose) = self_I0 s"
  "self_IN (init_qpoaes_solvers B s verbose) = self_IN s"
  "self_K (init_qpoaes_solvers B s verbose) = self_K s"
  "self_L (init_qpoaes_solvers B s verbose) = self_L s"
  "self_nop (init_qpoaes_solvers B s verbose) = self_nop s"
  "self_constraint_set (init_qpoaes_solvers B s verbose) = self_constraint_set s"
  "self_nv (init_qpoaes_solvers B s verbose) = self_nv s"
  "self_nV (init_qpoaes_solvers B s verbose) = self_nV s"
  "self_nm (init_qpoaes_solvers B s verbose) = self_nm s"
  "self_neq (init_qpoaes_solvers B s verbose) = self_neq s"
  "self_niq (init_qpoaes_solvers B s verbose) = self_niq s"
  "self_nC (init_qpoaes_solvers B s verbose) = self_nC s"
  "self_g (init_qpoaes_solvers B s verbose) = self_g s"
  "self_H (init_qpoaes_solvers B s verbose) = self_H s"
  "self_nWSR_cnst (init_qpoaes_solvers B s verbose) = 1000"
  "self_solver_up (init_qpoaes_solvers B s verbose) = sq_new B (self_nV s) (self_nC s)"
  "self_solver_down (init_qpoaes_solvers B s verbose) = sq_new B (self_nV s) (self_nC s)"
  by (simp_all add: init_qpoaes_solvers_def Let_def)

text \<open>
  What the constructor returns: it raises on an empty constraint list and when some
  constraint's grid is not close to the first one's, and otherwise returns an object
  with these attributes.
\<close>

lemma qpOASESPPSolver_init_sel:
  assumes "qpOASESPPSolver_init B cs verbose = Return s"
  shows "self_N s = pc_N (hd cs)"
    and "self_ss s = pc_ss (hd cs)"
    and "self_Ds s = (\<lambda>i. fsub (pc_ss (hd cs) (i + 1)) (pc_ss (hd cs) i))"
    and "self_I0 s = (Fl 0, Fl (1 / 10 ^ 4))"
    and "self_IN s = (Fl 0, Fl (1 / 10 ^ 4))"
    and "self_K s = (\<lambda>i j. Fl (- 1))"
    and "self_L s = (\<lambda>i j. Fl (- 1))"
    and "self_nop s = 3"
    and "self_nv s = sum_list (map pc_nv cs)"
    and "self_nV s = sum_list (map pc_nv cs) + 2"
    and "self_nWSR_cnst s = 1000"
    and "self_solver_up s = sq_new B (self_nV s) (self_nC s)"
    and "self_solver_down s = sq_new B (self_nV s) (self_nC s)"
    and "self_g s = (\<lambda>k. Fl 0)"
    and "self_H s = (\<lambda>r c. Fl 0)"
proof -
  obtain c0 cs' where cs: "cs = c0 # cs'"
    using assms by (cases cs) (simp_all add: qpOASESPPSolver_init_def)
  define s0 :: "'a qpOASESPPSolver" where "s0 =
    \<lparr>self_I0 = (Fl 0, Fl (1 / 10 ^ 4)),
     self_IN = (Fl 0, Fl (1 / 10 ^ 4)),
     self_ss = pc_ss c0,
     self_Ds = (\<lambda>i. fsub (pc_ss c0 (i + 1)) (pc_ss c0 i)),
     self_N = pc_N c0,
     self_K = (\<lambda>i j. fneg (Fl 1)),
     self_L = (\<lambda>i j. fneg (Fl 1)),
     self_nop = 3,
     self_constraint_set = cs,
     self_nm = 0, self_niq = 0, self_neq = 0, self_nv = 0,
     self_nV = 0, self_nC = 0,
     self_H = (\<lambda>r c. Fl 0), self_g = (\<lambda>k. Fl 0),
     self_l = (\<lambda>i k. Fl 0), self_h = (\<lambda>i k. Fl 0),
     self_lA = (\<lambda>i r. Fl 0), self_hA = (\<lambda>i r. Fl 0),
     self_A = (\<lambda>i r c. Fl 0),
     self_xfull = (\<lambda>k. Fl 0), self_yfull = (\<lambda>k. Fl 0),
     self_nWSR_cnst = 0,
     self_nWSR_up = (\<lambda>k. 0), self_nWSR_down = (\<lambda>k. 0),
     self_solver_up = sq_new B 0 0, self_solver_down = sq_new B 0 0,
     self_xfulls = Map.empty, self_yfulls = Map.empty\<rparr>"
  have s: "s = init_qpoaes_solvers B (fill_matrices (init_matrices s0 cs)) verbose"
    using assms unfolding qpOASESPPSolver_init_def cs s0_def
    by (simp add: Let_def split: if_splits)
  have s0: "self_N s0 = pc_N c0" "self_ss s0 = pc_ss c0"
    "self_Ds s0 = (\<lambda>i. fsub (pc_ss c0 (i + 1)) (pc_ss c0 i))"
    "self_I0 s0 = (Fl 0, Fl (1 / 10 ^ 4))" "self_IN s0 = (Fl 0, Fl (1 / 10 ^ 4))"
    "self_K s0 = (\<lambda>i j. Fl (- 1))" "self_L s0 = (\<lambda>i j. Fl (- 1))" "self_nop s0 = 3"
    by (simp_all add: s0_def)
  show "self_N s = pc_N (hd cs)" "self_ss s = pc_ss (hd cs)"
    "self_Ds s = (\<lambda>i. fsub (pc_ss (hd cs) (i + 1)) (pc_ss (hd cs) i))"
    "self_I0 s = (Fl 0, Fl (1 / 10 ^ 4))" "self_IN s = (Fl 0, Fl (1 / 10 ^ 4))"
    "self_K s = (\<lambda>i j. Fl (- 1))" "self_L s = (\<lambda>i j. Fl (- 1))" "self_nop s = 3"
    "self_nv s = sum_list (map pc_nv cs)" "self_nV s = sum_list (map pc_nv cs) + 2"
    "self_nWSR_cnst s = 1000"  "self_g s = (\<lambda>k. Fl 0)" "self_H s = (\<lambda>r c. Fl 0)"
    by (simp_all add: s s0 cs)
  show "self_solver_up s = sq_new B (self_nV s) (self_nC s)"
    "self_solver_down s = sq_new B (self_nV s) (self_nC s)"
    by (simp_all add: s)
qed

lemma allclose_refl_no_constraint: "allclose (pc_ss (no_constraint n)) (pc_ss (no_constraint n)) m"
  by (simp add: allclose_def no_constraint_def list_all_iff)

lemma qpOASESPPSolver_init_no_constraint:
  "\<exists>s. qpOASESPPSolver_init B [no_constraint n] verbose = Return s"
  by (simp add: qpOASESPPSolver_init_def allclose_refl_no_constraint Let_def)

subsection \<open>Operational rows\<close>

lemma reset_operational_rows_idem:
  "reset_operational_rows (reset_operational_rows s) = reset_operational_rows s"
  by (rule qpOASESPPSolver.equality) (simp_all add: fun_eq_iff)

lemma reset_at_entry:
  "one_step B (reset_operational_rows s) i xmin xmax init = one_step B s i xmin xmax init"
  "greedy_step B (reset_operational_rows s) i x xmin xmax init reg
     = greedy_step B s i x xmin xmax init reg"
  "least_greedy_step B (reset_operational_rows s) i x xmin xmax init reg
     = least_greedy_step B s i x xmin xmax init reg"
  by (simp_all add: one_step_def greedy_step_def least_greedy_step_def
      reset_operational_rows_idem)

lemma one_step_rows:
  assumes "self_nop s = 3" and "3 \<le> r"
  shows "self_A (snd (one_step B s i xmin xmax init)) j r c = self_A s j r c"
    and "self_lA (snd (one_step B s i xmin xmax init)) j r = self_lA s j r"
    and "self_hA (snd (one_step B s i xmin xmax init)) j r = self_hA s j r"
  using assms
  by (auto simp add: one_step_def Let_def split: prod.splits)

lemma greedy_step_rows:
  assumes "self_nop s = 3" and "3 \<le> r"
  shows "self_A (snd (greedy_step B s i x xmin xmax init reg)) j r c = self_A s j r c"
    and "self_lA (snd (greedy_step B s i x xmin xmax init reg)) j r = self_lA s j r"
    and "self_hA (snd (greedy_step B s i x xmin xmax init reg)) j r = self_hA s j r"
  using assms
  by (auto simp add: greedy_step_def Let_def split: prod.splits)

lemma least_greedy_step_rows:
  assumes "self_nop s = 3" and "3 \<le> r"
  shows "self_A (snd (least_greedy_step B s i x xmin xmax init reg)) j r c = self_A s j r c"
    and "self_lA (snd (least_greedy_step B s i x xmin xmax init reg)) j r = self_lA s j r"
    and "self_hA (snd (least_greedy_step B s i x xmin xmax init reg)) j r = self_hA s j r"
  using assms
  by (auto simp add: least_greedy_step_def Let_def split: prod.splits)

lemma reach_rows:
  assumes "1 \<le> r"
  shows "self_A (snd (reach B s i xmin xmax init)) j r c = self_A s j r c"
    and "self_lA (snd (reach B s i xmin xmax init)) j r = self_lA s j r"
    and "self_hA (snd (reach B s i xmin xmax init)) j r = self_hA s j r"
  using assms
  by (auto simp add: reach_def Let_def split: prod.splits)

lemma reach_stale_g:
  "2 \<le> k \<Longrightarrow> self_g (snd (reach B s i xmin xmax init)) k = self_g s k"
  by (auto simp add: reach_def Let_def split: prod.splits)

lemma proj_x_admissible_rows:
  assumes "1 \<le> r"
  shows "self_A (snd (proj_x_admissible B s i xmin xmax init)) j r c = self_A s j r c"
    and "self_lA (snd (proj_x_admissible B s i xmin xmax init)) j r = self_lA s j r"
    and "self_hA (snd (proj_x_admissible B s i xmin xmax init)) j r = self_hA s j r"
  using assms
  by (auto simp add: proj_x_admissible_def Let_def split: prod.splits option.splits)

lemma proj_x_admissible_stale_g:
  "2 \<le> k \<Longrightarrow> self_g (snd (proj_x_admissible B s i xmin xmax init)) k = self_g s k"
  by (auto simp add: proj_x_admissible_def Let_def split: prod.splits option.splits)

lemma reach_keeps_H [simp]: "self_H (snd (reach B s i xmin xmax init)) = self_H s"
  by (simp add: reach_def Let_def split: prod.splits)

lemma proj_x_admissible_keeps_H [simp]:
  "self_H (snd (proj_x_admissible B s i xmin xmax init)) = self_H s"
  by (simp add: proj_x_admissible_def Let_def split: prod.splits option.splits)

subsection \<open>Sweeps keep the setup\<close>

lemma same_setup_refl [simp]: "same_setup s s"
  by (simp add: same_setup_def)

lemma same_setup_trans: "same_setup s s1 \<Longrightarrow> same_setup s1 s2 \<Longrightarrow> same_setup s s2"
  by (simp add: same_setup_def)

lemma same_frame_setup: "same_frame s s' \<Longrightarrow> same_setup s s'"
  by (simp add: same_frame_def same_setup_def)

lemma same_setup_update [simp]:
  "same_setup s (s'\<lparr>self_K := vK\<rparr>) = same_setup s s'"
  "same_setup s (s'\<lparr>self_L := vL\<rparr>) = same_setup s s'"
  "same_setup s (s'\<lparr>self_H := vH\<rparr>) = same_setup s s'"
  "same_setup s (s'\<lparr>self_g := vg\<rparr>) = same_setup s s'"
  "same_setup s (s'\<lparr>self_lA := vlA\<rparr>) = same_setup s s'"
  "same_setup s (s'\<lparr>self_hA := vhA\<rparr>) = same_setup s s'"
  "same_setup s (s'\<lparr>self_A := vA\<rparr>) = same_setup s s'"
  "same_setup s (s'\<lparr>self_xfull := vxfull\<rparr>) = same_setup s s'"
  "same_setup s (s'\<lparr>self_yfull := vyfull\<rparr>) = same_setup s s'"
  "same_setup s (s'\<lparr>self_nWSR_up := vnWSR_up\<rparr>) = same_setup s s'"
  "same_setup s (s'\<lparr>self_nWSR_down := vnWSR_down\<rparr>) = same_setup s s'"
  "same_setup s (s'\<lparr>self_solver_up := vsolver_up\<rparr>) = same_setup s s'"
  "same_setup s (s'\<lparr>self_solver_down := vsolver_down\<rparr>) = same_setup s s'"
  "same_setup s (s'\<lparr>self_xfulls := vxfulls\<rparr>) = same_setup s s'"
  "same_setup s (s'\<lparr>self_yfulls := vyfulls\<rparr>) = same_setup s s'"
  "same_setup s (reset_operational_rows s') = same_setup s s'"
  by (simp_all add: same_setup_def)

lemma primitives_same_setup [simp]:
  "same_setup s' (snd (one_step B s i xmin xmax init)) = same_setup s' s"
  "same_setup s' (snd (reach B s i xmin xmax init)) = same_setup s' s"
  "same_setup s' (snd (proj_x_admissible B s i xmin xmax init)) = same_setup s' s"
  "same_setup s' (snd (greedy_step B s i x xmin xmax init reg)) = same_setup s' s"
  using one_step_same_frame [of s B i xmin xmax init] reach_same_frame [of s B i xmin xmax init]
    proj_x_admissible_same_frame [of s B i xmin xmax init]
    greedy_step_same_frame [of s B i x xmin xmax init reg]
  by (auto simp add: same_frame_def same_setup_def)
lemma controllable_loop_same_setup:
  "same_setup s (snd (controllable_loop B eps stages init s))"
proof (induction stages arbitrary: init s)
  case Nil
  show ?case by simp
next
  case (Cons i stages)
  show ?case
  proof (cases "one_step B s i (self_K s (Suc i) 0) (self_K s (Suc i) 1) init")
    case (Pair r s1)
    have "same_setup s (snd (one_step B s i (self_K s (Suc i) 0) (self_K s (Suc i) 1) init))"
      by simp
    then have s1: "same_setup s s1"
      unfolding Pair by simp
    show ?thesis
    proof (cases r)
      case (Raise e)
      then show ?thesis using Pair s1 by simp
    next
      case (Return v)
      show ?thesis
      proof (cases v)
        case None
        then show ?thesis using Pair Return s1 by simp
      next
        case (Some p)
        obtain xmin_i xmax_i where p: "p = (xmin_i, xmax_i)" by (cases p)
        let ?s2 = "s1\<lparr>self_K := set2 (set2 (self_K s1) i 1 (fsub xmax_i eps)) i 0
                      (py_max xmin_i (Fl 0))\<rparr>"
        have "same_setup s ?s2" using s1 by simp
        from same_setup_trans [OF this Cons [of ?s2 False]]
        show ?thesis using Pair Return Some p by (simp add: Let_def)
      qed
    qed
  qed
qed

lemma one_step_frameD:
  "one_step B s i xmin xmax init = (r, s') \<Longrightarrow> same_frame s s'"
  using one_step_same_frame [of s B i xmin xmax init] by simp

lemma reach_frameD:
  "reach B s i xmin xmax init = (r, s') \<Longrightarrow> same_frame s s'"
  using reach_same_frame [of s B i xmin xmax init] by simp

lemma proj_x_admissible_frameD:
  "proj_x_admissible B s i xmin xmax init = (r, s') \<Longrightarrow> same_frame s s'"
  using proj_x_admissible_same_frame [of s B i xmin xmax init] by simp

lemma greedy_step_frameD:
  "greedy_step B s i x xmin xmax init reg = (r, s') \<Longrightarrow> same_frame s s'"
  using greedy_step_same_frame [of s B i x xmin xmax init reg] by simp

subsection \<open>The backward loop\<close>

lemma controllable_loop_append:
  "controllable_loop B eps (xs @ ys) init s =
     (case controllable_loop B eps xs init s of
        (Return True, s1) \<Rightarrow> controllable_loop B eps ys (init \<and> xs = []) s1
      | (Return False, s1) \<Rightarrow> (Return False, s1)
      | (Raise e, s1) \<Rightarrow> (Raise e, s1))"
proof (induction xs arbitrary: init s)
  case Nil
  show ?case by simp
next
  case (Cons i xs)
  show ?case
    by (simp add: Cons Let_def split: prod.splits outcome.splits option.splits bool.splits)
qed

lemma controllable_loop_K_other:
  "j \<notin> set stages \<Longrightarrow> self_K (snd (controllable_loop B eps stages init s)) j = self_K s j"
proof (induction stages arbitrary: init s)
  case Nil
  show ?case by simp
next
  case (Cons i stages)
  show ?case
    using Cons.prems
    by (auto simp add: Cons.IH Let_def fun_eq_iff same_frame_def dest!: one_step_frameD
        split: prod.splits outcome.splits option.splits)
qed

lemma controllable_loop_stage:
  assumes "controllable_loop B eps (pre @ i # post) init s1 = (Return True, s')"
  shows "\<exists>\<sigma> lo hi \<sigma>'.
     controllable_loop B eps pre init s1 = (Return True, \<sigma>) \<and>
     one_step B \<sigma> i (self_K \<sigma> (i + 1) 0) (self_K \<sigma> (i + 1) 1) (init \<and> pre = [])
       = (Return (Some (lo, hi)), \<sigma>') \<and>
     controllable_loop B eps post False
       (\<sigma>'\<lparr>self_K := set2 (set2 (self_K \<sigma>') i 1 (fsub hi eps)) i 0 (py_max lo (Fl 0))\<rparr>)
       = (Return True, s')"
  using assms
  by (auto simp add: controllable_loop_append Let_def
      split: prod.splits outcome.splits option.splits bool.splits if_splits)

lemma rev_upt_split: "i < n \<Longrightarrow> rev [0..<n] = rev [Suc i..<n] @ i # rev [0..<i]"
proof -
  assume "i < n"
  then have "[0..<n] = [0..<i] @ i # [Suc i..<n]"
    by (metis upt_conv_Cons upt_add_eq_append le_add_diff_inverse less_imp_le_nat zero_le)
  then show ?thesis by simp
qed

subsection \<open>What the primitives return\<close>

lemma fun_upd_four: "f(x := a, y := b, x := c, y := d) = f(x := c, y := d)"
  by (auto simp add: fun_eq_iff)

lemma one_step_outcome:
  assumes "i < self_N s"
  shows "fst (one_step B s i xmin xmax init) =
     (if fst (solve B init (self_solver_up s) (one_step_problem s i xmin xmax (- 1)))
           \<noteq> SUCCESSFUL_RETURN
         \<or> fst (solve B init (self_solver_down s) (one_step_problem s i xmin xmax 1))
           \<noteq> SUCCESSFUL_RETURN
      then Return None
      else Return (Some
        (Fl (sq_getPrimalSolution B
               (snd (solve B init (self_solver_down s) (one_step_problem s i xmin xmax 1))) 1),
         Fl (sq_getPrimalSolution B
               (snd (solve B init (self_solver_up s) (one_step_problem s i xmin xmax (- 1)))) 1))))"
  using assms
  by (auto simp add: one_step_def Let_def problem_def one_step_problem_def getPrimalSolution_def
      split: prod.splits)

lemma proj_x_admissible_outcome:
  assumes "i \<le> self_N s"
  shows "fst (proj_x_admissible B s i xmin xmax init) =
     (let ru = solve B init (self_solver_up s) (proj_problem s i xmin xmax (- 1));
          rd = solve B init (self_solver_down s) (proj_problem s i xmin xmax 1);
          lo = Fl (sq_getPrimalSolution B (snd rd) 1);
          hi = Fl (sq_getPrimalSolution B (snd ru) 1)
      in
        if fst ru \<noteq> SUCCESSFUL_RETURN \<or> fst rd \<noteq> SUCCESSFUL_RETURN
        then (case qpOASESReturnValueDict (fst ru) of
                None \<Rightarrow> Raise (KeyError (fst ru)) | Some _ \<Rightarrow> Return None)
        else if \<not> fle lo (fadd hi SUPERTINY)
          then Raise (AssertionError ''i:= {:d}, xmin:= {:f}, xmax:={:f}'')
        else Return (Some (lo, if fgt lo hi then lo else hi)))"
  using assms
  by (auto simp add: proj_x_admissible_def Let_def problem_def proj_problem_def
      getPrimalSolution_def fun_upd_four split: prod.splits option.splits)

lemma greedy_step_outcome:
  assumes "i < self_N s"
  shows "fst (greedy_step B s i x xmin xmax init reg) =
     (let ru = solve B init (self_solver_up s) (greedy_problem s i x xmin xmax reg);
          u_greedy = Fl (sq_getPrimalSolution B (snd ru) 0);
          x_greedy = fadd x (fmul (fmul (Fl 2) (self_Ds s i)) u_greedy)
      in
        if fst ru \<noteq> SUCCESSFUL_RETURN then Return None
        else if \<not> fge (fadd x_greedy SUPERTINY) (Fl 0)
          then Raise (AssertionError ''Negative state (forward pass):={:f}'')
        else Return (Some (u_greedy,
               if flt x_greedy (Fl 0) then fadd x_greedy SUPERTINY else x_greedy)))"
  using assms
  by (auto simp add: greedy_step_def Let_def problem_def greedy_problem_def
      getPrimalSolution_def split: prod.splits)

text \<open>The scripted backend answers from the problem alone.\<close>

lemma solve_scripted:
  "solve (scripted cold hot) init b p =
     (fst (if init then cold p else hot p), if init then cold p else hot p)"
  by (simp add: solve_def scripted_def)

lemma scripted_readouts:
  "sq_getPrimalSolution (scripted cold hot) b 0 = fst (snd b)"
  "sq_getPrimalSolution (scripted cold hot) b 1 = fst (snd (snd b))"
  "sq_getPrimalSolution (scripted cold hot) b (Suc 0) = fst (snd (snd b))"
  "sq_getObjVal (scripted cold hot) b = snd (snd (snd b))"
  by (simp_all add: scripted_def)

subsection \<open>Sweeps keep the setup, continued\<close>

lemma solve_controllable_sets_same_setup:
  "same_setup s (snd (solve_controllable_sets B s eps))"
proof -
  let ?pre = "(reset_operational_rows s)
          \<lparr>self_nWSR_up := (\<lambda>k. self_nWSR_cnst s), self_nWSR_down := (\<lambda>k. self_nWSR_cnst s)\<rparr>"
  obtain r0 s0 where proj:
    "proj_x_admissible B ?pre (self_N s) (fst (self_IN s)) (snd (self_IN s)) True = (r0, s0)"
    by (cases "proj_x_admissible B ?pre (self_N s) (fst (self_IN s)) (snd (self_IN s)) True") blast
  have s0: "same_setup s s0"
    using same_frame_setup [OF proj_x_admissible_frameD [OF proj]] by (simp add: same_setup_def)
  show ?thesis
  proof (cases r0)
    case (Raise e)
    then show ?thesis using proj s0 by (simp add: solve_controllable_sets_def Let_def)
  next
    case (Return v)
    show ?thesis
    proof (cases v)
      case None
      then show ?thesis using proj Return s0 by (simp add: solve_controllable_sets_def Let_def)
    next
      case (Some p)
      obtain xmin xmax where p: "p = (xmin, xmax)" by (cases p)
      let ?s1 = "s0\<lparr>self_K := set2 (set2 (self_K s0) (self_N s0) 1 xmax) (self_N s0) 0 xmin\<rparr>"
      have "same_setup s ?s1" using s0 by simp
      from same_setup_trans [OF this controllable_loop_same_setup]
      show ?thesis
        using proj Return Some p by (simp add: solve_controllable_sets_def Let_def)
    qed
  qed
qed

lemma forward_loop_same_setup:
  "same_setup s (snd (forward_loop B save_solutions reg stages ux s))"
proof (induction stages arbitrary: ux s)
  case Nil
  show ?case by (cases ux) simp
next
  case (Cons i stages)
  obtain us xs where ux: "ux = (us, xs)" by (cases ux)
  show ?case
  proof (cases "greedy_step B s i (xs i) (self_K s (Suc i) 0) (self_K s (Suc i) 1) False reg")
    case (Pair r s1)
    have s1: "same_setup s s1"
      using same_frame_setup [OF greedy_step_frameD [OF Pair]] .
    show ?thesis
    proof (cases r)
      case (Raise e)
      then show ?thesis using Pair s1 ux by simp
    next
      case (Return v)
      let ?s2 = "if save_solutions
                 then s1\<lparr>self_xfulls := (self_xfulls s1)(i \<mapsto> self_xfull s1)\<rparr> else s1"
      have "same_setup s ?s2" using s1 by simp
      from same_setup_trans [OF this Cons]
      show ?thesis using Pair Return ux by (simp add: Let_def)
    qed
  qed
qed

lemma forward_pass_same_setup:
  "same_setup s (snd (forward_pass B save_solutions reg s))"
proof -
  let ?x0 = "py_min (self_K s 0 1) (snd (self_I0 s))"
  obtain r s1 where g: "greedy_step B s 0 ?x0 (self_K s 1 0) (self_K s 1 1) True reg = (r, s1)"
    by (cases "greedy_step B s 0 ?x0 (self_K s 1 0) (self_K s 1 1) True reg") blast
  have s1: "same_setup s s1"
    using same_frame_setup [OF greedy_step_frameD [OF g]] .
  show ?thesis
    using g s1 same_setup_trans [OF s1 forward_loop_same_setup]
    by (auto simp add: forward_pass_def Let_def split: outcome.splits)
qed

lemma solve_topp_same_setup:
  "same_setup s (snd (solve_topp B s save_solutions reg))"
proof -
  let ?s0 = "if save_solutions then s\<lparr>self_xfulls := Map.empty, self_yfulls := Map.empty\<rparr> else s"
  have a: "same_setup s ?s0" by simp
  have b: "same_setup s (snd (solve_controllable_sets B ?s0 eps_default))"
    by (rule same_setup_trans [OF a solve_controllable_sets_same_setup])
  have c: "same_setup s (snd (forward_pass B save_solutions reg
      (snd (solve_controllable_sets B ?s0 eps_default))))"
    by (rule same_setup_trans [OF b forward_pass_same_setup])
  show ?thesis
    using b c
    by (auto simp add: solve_topp_def Let_def split: prod.splits outcome.splits)
qed

lemma controllable_loop_sel [simp]:
  "self_I0 (snd (controllable_loop B eps stages init s)) = self_I0 s"
  "self_IN (snd (controllable_loop B eps stages init s)) = self_IN s"
  "self_ss (snd (controllable_loop B eps stages init s)) = self_ss s"
  "self_Ds (snd (controllable_loop B eps stages init s)) = self_Ds s"
  "self_N (snd (controllable_loop B eps stages init s)) = self_N s"
  "self_nop (snd (controllable_loop B eps stages init s)) = self_nop s"
  "self_constraint_set (snd (controllable_loop B eps stages init s)) = self_constraint_set s"
  "self_nm (snd (controllable_loop B eps stages init s)) = self_nm s"
  "self_niq (snd (controllable_loop B eps stages init s)) = self_niq s"
  "self_neq (snd (controllable_loop B eps stages init s)) = self_neq s"
  "self_nv (snd (controllable_loop B eps stages init s)) = self_nv s"
  "self_nV (snd (controllable_loop B eps stages init s)) = self_nV s"
  "self_nC (snd (controllable_loop B eps stages init s)) = self_nC s"
  "self_l (snd (controllable_loop B eps stages init s)) = self_l s"
  "self_h (snd (controllable_loop B eps stages init s)) = self_h s"
  "self_nWSR_cnst (snd (controllable_loop B eps stages init s)) = self_nWSR_cnst s"
  using controllable_loop_same_setup [of s B eps stages init] by (simp_all add: same_setup_def)

lemma solve_controllable_sets_sel [simp]:
  "self_I0 (snd (solve_controllable_sets B s eps)) = self_I0 s"
  "self_IN (snd (solve_controllable_sets B s eps)) = self_IN s"
  "self_ss (snd (solve_controllable_sets B s eps)) = self_ss s"
  "self_Ds (snd (solve_controllable_sets B s eps)) = self_Ds s"
  "self_N (snd (solve_controllable_sets B s eps)) = self_N s"
  "self_nop (snd (solve_controllable_sets B s eps)) = self_nop s"
  "self_constraint_set (snd (solve_controllable_sets B s eps)) = self_constraint_set s"
  "self_nm (snd (solve_controllable_sets B s eps)) = self_nm s"
  "self_niq (snd (solve_controllable_sets B s eps)) = self_niq s"
  "self_neq (snd (solve_controllable_sets B s eps)) = self_neq s"
  "self_nv (snd (solve_controllable_sets B s eps)) = self_nv s"
  "self_nV (snd (solve_controllable_sets B s eps)) = self_nV s"
  "self_nC (snd (solve_controllable_sets B s eps)) = self_nC s"
  "self_l (snd (solve_controllable_sets B s eps)) = self_l s"
  "self_h (snd (solve_controllable_sets B s eps)) = self_h s"
  "self_nWSR_cnst (snd (solve_controllable_sets B s eps)) = self_nWSR_cnst s"
  using solve_controllable_sets_same_setup [of s B eps] by (simp_all add: same_setup_def)

lemma forward_loop_sel [simp]:
  "self_I0 (snd (forward_loop B save_solutions reg stages ux s)) = self_I0 s"
  "self_IN (snd (forward_loop B save_solutions reg stages ux s)) = self_IN s"
  "self_ss (snd (forward_loop B save_solutions reg stages ux s)) = self_ss s"
  "self_Ds (snd (forward_loop B save_solutions reg stages ux s)) = self_Ds s"
  "self_N (snd (forward_loop B save_solutions reg stages ux s)) = self_N s"
  "self_nop (snd (forward_loop B save_solutions reg stages ux s)) = self_nop s"
  "self_constraint_set (snd (forward_loop B save_solutions reg stages ux s)) = self_constraint_set s"
  "self_nm (snd (forward_loop B save_solutions reg stages ux s)) = self_nm s"
  "self_niq (snd (forward_loop B save_solutions reg stages ux s)) = self_niq s"
  "self_neq (snd (forward_loop B save_solutions reg stages ux s)) = self_neq s"
  "self_nv (snd (forward_loop B save_solutions reg stages ux s)) = self_nv s"
  "self_nV (snd (forward_loop B save_solutions reg stages ux s)) = self_nV s"
  "self_nC (snd (forward_loop B save_solutions reg stages ux s)) = self_nC s"
  "self_l (snd (forward_loop B save_solutions reg stages ux s)) = self_l s"
  "self_h (snd (forward_loop B save_solutions reg stages ux s)) = self_h s"
  "self_nWSR_cnst (snd (forward_loop B save_solutions reg stages ux s)) = self_nWSR_cnst s"
  using forward_loop_same_setup [of s B save_solutions reg stages ux] by (simp_all add: same_setup_def)

lemma forward_pass_sel [simp]:
  "self_I0 (snd (forward_pass B save_solutions reg s)) = self_I0 s"
  "self_IN (snd (forward_pass B save_solutions reg s)) = self_IN s"
  "self_ss (snd (forward_pass B save_solutions reg s)) = self_ss s"
  "self_Ds (snd (forward_pass B save_solutions reg s)) = self_Ds s"
  "self_N (snd (forward_pass B save_solutions reg s)) = self_N s"
  "self_nop (snd (forward_pass B save_solutions reg s)) = self_nop s"
  "self_constraint_set (snd (forward_pass B save_solutions reg s)) = self_constraint_set s"
  "self_nm (snd (forward_pass B save_solutions reg s)) = self_nm s"
  "self_niq (snd (forward_pass B save_solutions reg s)) = self_niq s"
  "self_neq (snd (forward_pass B save_solutions reg s)) = self_neq s"
  "self_nv (snd (forward_pass B save_solutions reg s)) = self_nv s"
  "self_nV (snd (forward_pass B save_solutions reg s)) = self_nV s"
  "self_nC (snd (forward_pass B save_solutions reg s)) = self_nC s"
  "self_l (snd (forward_pass B save_solutions reg s)) = self_l s"
  "self_h (snd (forward_pass B save_solutions reg s)) = self_h s"
  "self_nWSR_cnst (snd (forward_pass B save_solutions reg s)) = self_nWSR_cnst s"
  using forward_pass_same_setup [of s B save_solutions reg] by (simp_all add: same_setup_def)

lemma solve_topp_sel [simp]:
  "self_I0 (snd (solve_topp B s save_solutions reg)) = self_I0 s"
  "self_IN (snd (solve_topp B s save_solutions reg)) = self_IN s"
  "self_ss (snd (solve_topp B s save_solutions reg)) = self_ss s"
  "self_Ds (snd (solve_topp B s save_solutions reg)) = self_Ds s"
  "self_N (snd (solve_topp B s save_solutions reg)) = self_N s"
  "self_nop (snd (solve_topp B s save_solutions reg)) = self_nop s"
  "self_constraint_set (snd (solve_topp B s save_solutions reg)) = self_constraint_set s"
  "self_nm (snd (solve_topp B s save_solutions reg)) = self_nm s"
  "self_niq (snd (solve_topp B s save_solutions reg)) = self_niq s"
  "self_neq (snd (solve_topp B s save_solutions reg)) = self_neq s"
  "self_nv (snd (solve_topp B s save_solutions reg)) = self_nv s"
  "self_nV (snd (solve_topp B s save_solutions reg)) = self_nV s"
  "self_nC (snd (solve_topp B s save_solutions reg)) = self_nC s"
  "self_l (snd (solve_topp B s save_solutions reg)) = self_l s"
  "self_h (snd (solve_topp B s save_solutions reg)) = self_h s"
  "self_nWSR_cnst (snd (solve_topp B s save_solutions reg)) = self_nWSR_cnst s"
  using solve_topp_same_setup [of s B save_solutions reg] by (simp_all add: same_setup_def)

subsection \<open>Which errors the forward pass raises\<close>




subsection \<open>The backward sweep and the forward pass, stage by stage\<close>

lemma solve_controllable_sets_trace:
  assumes "solve_controllable_sets B s eps = (Return True, s')"
  shows "\<exists>xmin xmax s0.
     proj_x_admissible B
       ((reset_operational_rows s)
          \<lparr>self_nWSR_up := (\<lambda>k. self_nWSR_cnst s), self_nWSR_down := (\<lambda>k. self_nWSR_cnst s)\<rparr>)
       (self_N s) (fst (self_IN s)) (snd (self_IN s)) True
       = (Return (Some (xmin, xmax)), s0) \<and>
     self_K s' (self_N s) 0 = xmin \<and> self_K s' (self_N s) 1 = xmax \<and>
     (\<forall>i<self_N s. \<exists>\<sigma> lo hi \<sigma>'.
        controllable_loop B eps (rev [Suc i..<self_N s]) True
          (s0\<lparr>self_K := set2 (set2 (self_K s0) (self_N s) 1 xmax) (self_N s) 0 xmin\<rparr>)
          = (Return True, \<sigma>) \<and>
        one_step B \<sigma> i (self_K s' (i + 1) 0) (self_K s' (i + 1) 1) (i = self_N s - 1)
          = (Return (Some (lo, hi)), \<sigma>') \<and>
        self_K s' i 1 = fsub hi eps \<and> self_K s' i 0 = py_max lo (Fl 0))"
proof -
  let ?pre = "(reset_operational_rows s)
          \<lparr>self_nWSR_up := (\<lambda>k. self_nWSR_cnst s), self_nWSR_down := (\<lambda>k. self_nWSR_cnst s)\<rparr>"
  let ?N = "self_N s"
  obtain r0 s0 where proj:
    "proj_x_admissible B ?pre ?N (fst (self_IN s)) (snd (self_IN s)) True = (r0, s0)"
    by (cases "proj_x_admissible B ?pre ?N (fst (self_IN s)) (snd (self_IN s)) True") blast
  have N0: "self_N s0 = ?N"
    using proj_x_admissible_frameD [OF proj] by (simp add: same_frame_def)
  from assms proj obtain xmin xmax where r0: "r0 = Return (Some (xmin, xmax))"
    by (auto simp add: solve_controllable_sets_def Let_def
        split: outcome.splits option.splits)
  let ?s1 = "s0\<lparr>self_K := set2 (set2 (self_K s0) ?N 1 xmax) ?N 0 xmin\<rparr>"
  have loop: "controllable_loop B eps (rev [0..<?N]) True ?s1 = (Return True, s')"
    using assms proj r0 N0 by (simp add: solve_controllable_sets_def Let_def)
  have s': "s' = snd (controllable_loop B eps (rev [0..<?N]) True ?s1)"
    using loop by simp
  have KN: "self_K s' ?N = self_K ?s1 ?N"
    unfolding s' by (rule controllable_loop_K_other) simp
  have stage: "\<exists>\<sigma> lo hi \<sigma>'.
        controllable_loop B eps (rev [Suc i..<?N]) True ?s1 = (Return True, \<sigma>) \<and>
        one_step B \<sigma> i (self_K s' (i + 1) 0) (self_K s' (i + 1) 1) (i = ?N - 1)
          = (Return (Some (lo, hi)), \<sigma>') \<and>
        self_K s' i 1 = fsub hi eps \<and> self_K s' i 0 = py_max lo (Fl 0)"
    if i: "i < ?N" for i
  proof -
    have "controllable_loop B eps (rev [Suc i..<?N] @ i # rev [0..<i]) True ?s1
        = (Return True, s')"
      using loop rev_upt_split [OF i] by simp
    from controllable_loop_stage [OF this]
    obtain \<sigma> lo hi \<sigma>' where
      pre: "controllable_loop B eps (rev [Suc i..<?N]) True ?s1 = (Return True, \<sigma>)" and
      one: "one_step B \<sigma> i (self_K \<sigma> (i + 1) 0) (self_K \<sigma> (i + 1) 1)
              (True \<and> rev [Suc i..<?N] = []) = (Return (Some (lo, hi)), \<sigma>')" and
      post: "controllable_loop B eps (rev [0..<i]) False
              (\<sigma>'\<lparr>self_K := set2 (set2 (self_K \<sigma>') i 1 (fsub hi eps)) i 0
                  (py_max lo (Fl 0))\<rparr>) = (Return True, s')"
      by blast
    let ?s2 = "\<sigma>'\<lparr>self_K := set2 (set2 (self_K \<sigma>') i 1 (fsub hi eps)) i 0
                  (py_max lo (Fl 0))\<rparr>"
    have s2: "s' = snd (controllable_loop B eps (rev [0..<i]) False ?s2)"
      using post by simp
    have Ki: "self_K s' i = self_K ?s2 i"
      unfolding s2 by (rule controllable_loop_K_other) simp
    have Ki1: "self_K s' (i + 1) = self_K ?s2 (i + 1)"
      unfolding s2 by (rule controllable_loop_K_other) simp
    have K\<sigma>: "self_K \<sigma>' = self_K \<sigma>"
      using one_step_frameD [OF one] by (simp add: same_frame_def)
    have Ki1': "self_K s' (i + 1) = self_K \<sigma> (i + 1)"
      using Ki1 K\<sigma> by (simp add: fun_eq_iff)
    have flag: "(True \<and> rev [Suc i..<?N] = []) = (i = ?N - 1)"
      using i by auto
    show ?thesis
      using pre one Ki Ki1' flag by (intro exI [of _ \<sigma>] exI [of _ lo] exI [of _ hi] exI [of _ \<sigma>']) simp
  qed
  show ?thesis
    using proj r0 KN stage by (intro exI [of _ xmin] exI [of _ xmax] exI [of _ s0]) simp
qed

lemma forward_loop_append:
  "forward_loop B save_solutions reg (xs @ ys) ux s =
     (case forward_loop B save_solutions reg xs ux s of
        (Return ux', s1) \<Rightarrow> forward_loop B save_solutions reg ys ux' s1
      | (Raise e, s1) \<Rightarrow> (Raise e, s1))"
proof (induction xs arbitrary: ux s)
  case Nil
  show ?case by (cases ux) simp
next
  case (Cons i xs)
  obtain us xs' where ux: "ux = (us, xs')" by (cases ux)
  show ?case
  proof (cases "greedy_step B s i (xs' i) (self_K s (Suc i) 0) (self_K s (Suc i) 1) False reg")
    case (Pair r s1)
    show ?thesis
    proof (cases r)
      case (Raise e)
      then show ?thesis using Pair ux by simp
    next
      case (Return v)
      then show ?thesis using Pair ux by (simp add: Cons Let_def)
    qed
  qed
qed

lemma forward_loop_K: "self_K (snd (forward_loop B save_solutions reg stages ux s)) = self_K s"
proof (induction stages arbitrary: ux s)
  case Nil
  show ?case by (cases ux) simp
next
  case (Cons i stages)
  obtain us xs where ux: "ux = (us, xs)" by (cases ux)
  show ?case
  proof (cases "greedy_step B s i (xs i) (self_K s (Suc i) 0) (self_K s (Suc i) 1) False reg")
    case (Pair r s1)
    have K1: "self_K s1 = self_K s"
      using greedy_step_frameD [OF Pair] by (simp add: same_frame_def)
    show ?thesis
    proof (cases r)
      case (Raise e)
      then show ?thesis using Pair ux K1 by simp
    next
      case (Return v)
      then show ?thesis using Pair ux K1 by (simp add: Cons Let_def)
    qed
  qed
qed

lemma forward_loop_arrays:
  assumes "forward_loop B save_solutions reg stages (us, xs) s = (Return (us', xs'), s')"
  shows "(\<forall>j. j \<notin> set stages \<longrightarrow> us' j = us j) \<and>
         (\<forall>j. j \<notin> Suc ` set stages \<longrightarrow> xs' j = xs j)"
  using assms
proof (induction stages arbitrary: us xs s)
  case Nil
  then show ?case by simp
next
  case (Cons i stages)
  from Cons.prems obtain r s1 where
    g: "greedy_step B s i (xs i) (self_K s (Suc i) 0) (self_K s (Suc i) 1) False reg
          = (Return r, s1)"
    by (auto simp add: Let_def split: prod.splits outcome.splits if_splits)
  let ?s2 = "if save_solutions
             then s1\<lparr>self_xfulls := (self_xfulls s1)(i \<mapsto> self_xfull s1)\<rparr> else s1"
  have rest: "forward_loop B save_solutions reg stages
      (us(i := store_float (map_option fst r)), xs(Suc i := store_float (map_option snd r))) ?s2
      = (Return (us', xs'), s')"
    using Cons.prems g by (auto simp add: Let_def split: if_splits)
  from Cons.IH [OF rest] show ?case by auto
qed

lemma forward_loop_stage:
  assumes "forward_loop B save_solutions reg (pre @ i # post) ux s = (Return ux', s')"
  shows "\<exists>usi xsi \<sigma> r \<sigma>'.
     forward_loop B save_solutions reg pre ux s = (Return (usi, xsi), \<sigma>) \<and>
     greedy_step B \<sigma> i (xsi i) (self_K \<sigma> (i + 1) 0) (self_K \<sigma> (i + 1) 1) False reg
       = (Return r, \<sigma>') \<and>
     forward_loop B save_solutions reg post
       (usi(i := store_float (map_option fst r)), xsi(i + 1 := store_float (map_option snd r)))
       (if save_solutions
        then \<sigma>'\<lparr>self_xfulls := (self_xfulls \<sigma>')(i \<mapsto> self_xfull \<sigma>')\<rparr> else \<sigma>')
       = (Return ux', s')"
  using assms
  by (auto simp add: forward_loop_append Let_def
      split: prod.splits outcome.splits if_splits)

lemma upt_split: "i < n \<Longrightarrow> [0..<n] = [0..<i] @ i # [Suc i..<n]"
  by (metis upt_conv_Cons upt_add_eq_append le_add_diff_inverse less_imp_le_nat zero_le)

lemma greedy_step_Some:
  assumes "greedy_step B s i x xmin xmax init reg = (Return (Some (u, xn)), s')"
  shows "u \<noteq> NaN \<and>
         fge (fadd (fadd x (fmul (fmul (Fl 2) (self_Ds s i)) u)) SUPERTINY) (Fl 0) \<and>
         xn = (if flt (fadd x (fmul (fmul (Fl 2) (self_Ds s i)) u)) (Fl 0)
               then fadd (fadd x (fmul (fmul (Fl 2) (self_Ds s i)) u)) SUPERTINY
               else fadd x (fmul (fmul (Fl 2) (self_Ds s i)) u))"
  using assms
  by (auto simp add: greedy_step_def Let_def getPrimalSolution_def
      split: prod.splits if_splits)

lemma forward_pass_trace:
  assumes "forward_pass B save_solutions reg s = (Return (us, xs), s')"
  shows "xs 0 = py_min (self_K s 0 1) (snd (self_I0 s)) \<and>
     (\<exists>r0 s0.
        greedy_step B s 0 (xs 0) (self_K s 1 0) (self_K s 1 1) True reg = (Return r0, s0) \<and>
        (\<forall>i<self_N s. \<exists>usi xsi \<sigma> r \<sigma>'.
           forward_loop B save_solutions reg [0..<i] (\<lambda>k. Fl 0, (\<lambda>k. Fl 0)(0 := xs 0)) s0
             = (Return (usi, xsi), \<sigma>) \<and>
           greedy_step B \<sigma> i (xs i) (self_K s (i + 1) 0) (self_K s (i + 1) 1) False reg
             = (Return r, \<sigma>') \<and>
           us i = store_float (map_option fst r) \<and>
           xs (i + 1) = store_float (map_option snd r)))"
proof -
  let ?x0 = "py_min (self_K s 0 1) (snd (self_I0 s))"
  let ?ux = "(\<lambda>k. Fl 0, (\<lambda>k. Fl 0)(0 := ?x0)) :: vec \<times> vec"
  from assms obtain r0 s0 where
    warm: "greedy_step B s 0 ?x0 (self_K s 1 0) (self_K s 1 1) True reg = (Return r0, s0)" and
    loop: "forward_loop B save_solutions reg [0..<self_N s0] ?ux s0 = (Return (us, xs), s')"
    by (auto simp add: forward_pass_def Let_def split: if_splits prod.splits outcome.splits)
  have fr: "same_frame s s0"
    by (rule greedy_step_frameD [OF warm])
  have N0: "self_N s0 = self_N s" and K0: "self_K s0 = self_K s"
    using fr by (simp_all add: same_frame_def)
  have x0: "xs 0 = ?x0"
    using forward_loop_arrays [OF loop] by auto
  have stage: "\<exists>usi xsi \<sigma> r \<sigma>'.
           forward_loop B save_solutions reg [0..<i] ?ux s0 = (Return (usi, xsi), \<sigma>) \<and>
           greedy_step B \<sigma> i (xs i) (self_K s (i + 1) 0) (self_K s (i + 1) 1) False reg
             = (Return r, \<sigma>') \<and>
           us i = store_float (map_option fst r) \<and>
           xs (i + 1) = store_float (map_option snd r)"
    if i: "i < self_N s" for i
  proof -
    have "forward_loop B save_solutions reg ([0..<i] @ i # [Suc i..<self_N s]) ?ux s0
        = (Return (us, xs), s')"
      using loop upt_split [OF i] N0 by simp
    from forward_loop_stage [OF this]
    obtain usi xsi \<sigma> r \<sigma>' where
      pre: "forward_loop B save_solutions reg [0..<i] ?ux s0 = (Return (usi, xsi), \<sigma>)" and
      g: "greedy_step B \<sigma> i (xsi i) (self_K \<sigma> (i + 1) 0) (self_K \<sigma> (i + 1) 1) False reg
            = (Return r, \<sigma>')" and
      post: "forward_loop B save_solutions reg [Suc i..<self_N s]
            (usi(i := store_float (map_option fst r)),
             xsi(i + 1 := store_float (map_option snd r)))
            (if save_solutions
             then \<sigma>'\<lparr>self_xfulls := (self_xfulls \<sigma>')(i \<mapsto> self_xfull \<sigma>')\<rparr> else \<sigma>')
            = (Return (us, xs), s')"
      by blast
    have "\<sigma> = snd (forward_loop B save_solutions reg [0..<i] ?ux s0)"
      using pre by simp
    then have K\<sigma>: "self_K \<sigma> = self_K s"
      using forward_loop_K [of B save_solutions reg "[0..<i]" ?ux s0] K0 by simp
    have arr: "(\<forall>j. j \<notin> set [Suc i..<self_N s] \<longrightarrow>
                  us j = (usi(i := store_float (map_option fst r))) j) \<and>
               (\<forall>j. j \<notin> Suc ` set [Suc i..<self_N s] \<longrightarrow>
                  xs j = (xsi(i + 1 := store_float (map_option snd r))) j)"
      by (rule forward_loop_arrays [OF post])
    have u: "us i = store_float (map_option fst r)"
      using arr by simp
    have x1: "xs (i + 1) = store_float (map_option snd r)"
      using arr by auto
    have xi: "xs i = xsi i"
      using arr by auto
    show ?thesis
      using pre g u x1 xi K\<sigma>
      by (intro exI [of _ usi] exI [of _ xsi] exI [of _ \<sigma>] exI [of _ r] exI [of _ \<sigma>']) simp
  qed
  show ?thesis
    using x0 warm stage by (intro conjI exI [of _ r0] exI [of _ s0]) simp_all
qed

lemma store_float_fst_not_NaN:
  "store_float (map_option fst r) \<noteq> NaN \<Longrightarrow>
     \<exists>u xn. r = Some (u, xn) \<and> store_float (map_option fst r) = u
       \<and> store_float (map_option snd r) = xn"
  by (cases r) auto

lemma forward_pass_step_value:
  assumes fp: "forward_pass B save_solutions reg s = (Return (us, xs), s')"
    and i: "i < self_N s" and u: "us i \<noteq> NaN"
  shows "fge (fadd (fadd (xs i) (fmul (fmul (Fl 2) (self_Ds s i)) (us i))) SUPERTINY) (Fl 0) \<and>
     xs (i + 1) =
       (if flt (fadd (xs i) (fmul (fmul (Fl 2) (self_Ds s i)) (us i))) (Fl 0)
        then fadd (fadd (xs i) (fmul (fmul (Fl 2) (self_Ds s i)) (us i))) SUPERTINY
        else fadd (xs i) (fmul (fmul (Fl 2) (self_Ds s i)) (us i)))"
proof -
  from forward_pass_trace [OF fp] i obtain r0 s0 usi xsi \<sigma> r \<sigma>' where
    warm: "greedy_step B s 0 (xs 0) (self_K s 1 0) (self_K s 1 1) True reg = (Return r0, s0)" and
    pre: "forward_loop B save_solutions reg [0..<i] (\<lambda>k. Fl 0, (\<lambda>k. Fl 0)(0 := xs 0)) s0
             = (Return (usi, xsi), \<sigma>)" and
    g: "greedy_step B \<sigma> i (xs i) (self_K s (i + 1) 0) (self_K s (i + 1) 1) False reg
             = (Return r, \<sigma>')" and
    ui: "us i = store_float (map_option fst r)" and
    xi: "xs (i + 1) = store_float (map_option snd r)"
    by blast
  have "self_Ds s0 = self_Ds s"
    using greedy_step_frameD [OF warm] by (simp add: same_frame_def)
  moreover have "\<sigma> = snd (forward_loop B save_solutions reg [0..<i]
      (\<lambda>k. Fl 0, (\<lambda>k. Fl 0)(0 := xs 0)) s0)"
    using pre by simp
  ultimately have Ds: "self_Ds \<sigma> = self_Ds s"
    by simp
  from u ui store_float_fst_not_NaN [of r] obtain xn where r: "r = Some (us i, xn)"
    and xn: "store_float (map_option snd r) = xn"
    by auto
  from greedy_step_Some [OF g [unfolded r]] Ds xi xn show ?thesis
    by simp
qed

subsection \<open>Concrete runs\<close>

text \<open>A run with two stages in which every solve succeeds.\<close>

lemma two_stage_run:
  "\<exists>s s1 us xs s'.
     qpOASESPPSolver_init (fixed_answers 0 4 1 0) [no_constraint 2] False = Return s \<and>
     solve_controllable_sets (fixed_answers 0 4 1 0) s eps_default = (Return True, s1) \<and>
     forward_pass (fixed_answers 0 4 1 0) False (Fl 0) s1 = (Return (us, xs), s') \<and>
     solve_topp (fixed_answers 0 4 1 0) s False (Fl 0) = (Return (us, xs), s') \<and>
     self_N s = 2 \<and> self_N s1 = 2 \<and> self_I0 s1 = (Fl 0, Fl (1 / 10 ^ 4)) \<and>
     self_K s1 0 1 = Fl (4 - 1 / 10 ^ 14) \<and>
     us 0 = Fl 1 \<and> us 1 = Fl 1 \<and>
     xs 0 = Fl (1 / 10 ^ 4) \<and> xs 1 = Fl (1 + 1 / 10 ^ 4) \<and> xs 2 = Fl (2 + 1 / 10 ^ 4)"
proof -
  let ?B = "fixed_answers 0 4 1 0"
  obtain s where s: "qpOASESPPSolver_init ?B [no_constraint 2] False = Return s"
    using qpOASESPPSolver_init_no_constraint by blast
  note sel = qpOASESPPSolver_init_sel [OF s]
  have N: "self_N s = 2"
    using sel(1) by (simp add: no_constraint_def)
  have Ds: "self_Ds s 0 = Fl (1 / 2)" "self_Ds s 1 = Fl (1 / 2)"
    by (simp_all add: sel(3) no_constraint_def)
  have st: "rev [0..<2] = [1, 0 :: nat]" "[0..<2] = [0, 1 :: nat]"
    by (simp_all add: upt_rec)
  note ev = fixed_answers_def solve_scripted scripted_readouts one_step_outcome
    proj_x_admissible_outcome greedy_step_outcome one_step_problem_def proj_problem_def
    greedy_problem_def SUCCESSFUL_RETURN_def SUPERTINY_def fgt_def fge_def Let_def
    case_prod_beta st
  have run: "fst (solve_controllable_sets ?B s eps_default) = Return True"
    and K0: "self_K (snd (solve_controllable_sets ?B s eps_default)) 0 1
               = Fl (4 - 1 / 10 ^ 14)"
      "self_K (snd (solve_controllable_sets ?B s eps_default)) 0 0 = Fl 0"
      "self_K (snd (solve_controllable_sets ?B s eps_default)) 1 0 = Fl 0"
      "self_K (snd (solve_controllable_sets ?B s eps_default)) 1 1 = Fl (4 - 1 / 10 ^ 14)"
      "self_K (snd (solve_controllable_sets ?B s eps_default)) 2 0 = Fl 0"
      "self_K (snd (solve_controllable_sets ?B s eps_default)) 2 1 = Fl 4"
    by (simp_all add: N ev solve_controllable_sets_def eps_default_def py_max_def)
  obtain s1 where s1: "solve_controllable_sets ?B s eps_default = (Return True, s1)"
    using run by (cases "solve_controllable_sets ?B s eps_default") simp
  have K: "self_K s1 0 1 = Fl (4 - 1 / 10 ^ 14)" "self_K s1 0 0 = Fl 0"
      "self_K s1 1 0 = Fl 0" "self_K s1 1 1 = Fl (4 - 1 / 10 ^ 14)"
      "self_K s1 2 0 = Fl 0" "self_K s1 2 1 = Fl 4"
    using K0 s1 by simp_all
  have "s1 = snd (solve_controllable_sets ?B s eps_default)"
    using s1 by simp
  then have N1: "self_N s1 = 2" "self_Ds s1 0 = Fl (1 / 2)" "self_Ds s1 1 = Fl (1 / 2)"
      "self_I0 s1 = (Fl 0, Fl (1 / 10 ^ 4))"
    using N Ds sel(4) by simp_all
  have top: "solve_topp ?B s False (Fl 0) = forward_pass ?B False (Fl 0) s1"
    using s1 K N1 by (simp add: solve_topp_def Let_def fgt_def)
  have fwd: "\<exists>us xs. fst (forward_pass ?B False (Fl 0) s1) = Return (us, xs) \<and>
      us 0 = Fl 1 \<and> us 1 = Fl 1 \<and>
      xs 0 = Fl (1 / 10 ^ 4) \<and> xs 1 = Fl (1 + 1 / 10 ^ 4) \<and> xs 2 = Fl (2 + 1 / 10 ^ 4)"
    using K N1 by (simp add: forward_pass_def ev py_min_def)
  then obtain us xs where
    r: "fst (forward_pass ?B False (Fl 0) s1) = Return (us, xs)" and
    v: "us 0 = Fl 1" "us 1 = Fl 1"
      "xs 0 = Fl (1 / 10 ^ 4)" "xs 1 = Fl (1 + 1 / 10 ^ 4)" "xs 2 = Fl (2 + 1 / 10 ^ 4)"
    by blast
  obtain s' where "forward_pass ?B False (Fl 0) s1 = (Return (us, xs), s')"
    using r by (cases "forward_pass ?B False (Fl 0) s1") simp
  then show ?thesis
    using s s1 top N N1 K v
    by (intro exI [of _ s] exI [of _ s1] exI [of _ us] exI [of _ xs] exI [of _ s']) simp
qed

text \<open>
  A run with one stage in which the solver leaves the next state at \<open>-5e-11\<close>, inside
  the tolerance of the assertion of \<open>greedy_step\<close>.
\<close>

lemma snap_run:
  "\<exists>s us xs s'.
     qpOASESPPSolver_init (fixed_answers 0 4 (- (1 / 10 ^ 4 + 5 / 10 ^ 11) / 2) 0)
       [no_constraint 1] False = Return s \<and>
     solve_topp (fixed_answers 0 4 (- (1 / 10 ^ 4 + 5 / 10 ^ 11) / 2) 0) s False (Fl 0)
       = (Return (us, xs), s') \<and>
     self_N s = 1 \<and> self_Ds s 0 = Fl 1 \<and>
     us 0 = Fl (- (1 / 10 ^ 4 + 5 / 10 ^ 11) / 2) \<and>
     xs 0 = Fl (1 / 10 ^ 4) \<and>
     xs 1 = Fl (5 / 10 ^ 11)"
proof -
  let ?B = "fixed_answers 0 4 (- (1 / 10 ^ 4 + 5 / 10 ^ 11) / 2) 0"
  obtain s where s: "qpOASESPPSolver_init ?B [no_constraint 1] False = Return s"
    using qpOASESPPSolver_init_no_constraint by blast
  note sel = qpOASESPPSolver_init_sel [OF s]
  have N: "self_N s = 1"
    using sel(1) by (simp add: no_constraint_def)
  have Ds: "self_Ds s 0 = Fl 1"
    by (simp add: sel(3) no_constraint_def)
  note ev = fixed_answers_def solve_scripted scripted_readouts one_step_outcome
    proj_x_admissible_outcome greedy_step_outcome one_step_problem_def proj_problem_def
    greedy_problem_def SUCCESSFUL_RETURN_def SUPERTINY_def fgt_def fge_def Let_def
    case_prod_beta
  have run: "fst (solve_controllable_sets ?B s eps_default) = Return True"
    and K0: "self_K (snd (solve_controllable_sets ?B s eps_default)) 0 1
               = Fl (4 - 1 / 10 ^ 14)"
      "self_K (snd (solve_controllable_sets ?B s eps_default)) 0 0 = Fl 0"
      "self_K (snd (solve_controllable_sets ?B s eps_default)) 1 0 = Fl 0"
      "self_K (snd (solve_controllable_sets ?B s eps_default)) 1 1 = Fl 4"
    by (simp_all add: N ev solve_controllable_sets_def eps_default_def py_max_def)
  obtain s1 where s1: "solve_controllable_sets ?B s eps_default = (Return True, s1)"
    using run by (cases "solve_controllable_sets ?B s eps_default") simp
  have K: "self_K s1 0 1 = Fl (4 - 1 / 10 ^ 14)" "self_K s1 0 0 = Fl 0"
      "self_K s1 1 0 = Fl 0" "self_K s1 1 1 = Fl 4"
    using K0 s1 by simp_all
  have "s1 = snd (solve_controllable_sets ?B s eps_default)"
    using s1 by simp
  then have N1: "self_N s1 = 1" "self_Ds s1 0 = Fl 1" "self_I0 s1 = (Fl 0, Fl (1 / 10 ^ 4))"
    using N Ds sel(4) by simp_all
  have top: "solve_topp ?B s False (Fl 0) = forward_pass ?B False (Fl 0) s1"
    using s1 K N1 by (simp add: solve_topp_def Let_def fgt_def)
  have fwd: "\<exists>us xs. fst (forward_pass ?B False (Fl 0) s1) = Return (us, xs) \<and>
      us 0 = Fl (- (1 / 10 ^ 4 + 5 / 10 ^ 11) / 2) \<and> xs 0 = Fl (1 / 10 ^ 4) \<and>
      xs 1 = Fl (5 / 10 ^ 11)"
    using K N1 by (simp add: forward_pass_def ev py_min_def)
  then obtain us xs where
    r: "fst (forward_pass ?B False (Fl 0) s1) = Return (us, xs)" and
    v: "us 0 = Fl (- (1 / 10 ^ 4 + 5 / 10 ^ 11) / 2)" "xs 0 = Fl (1 / 10 ^ 4)"
      "xs 1 = Fl (5 / 10 ^ 11)"
    by blast
  obtain s' where "forward_pass ?B False (Fl 0) s1 = (Return (us, xs), s')"
    using r by (cases "forward_pass ?B False (Fl 0) s1") simp
  then show ?thesis
    using s top N Ds v by (intro exI [of _ s] exI [of _ us] exI [of _ xs] exI [of _ s']) simp
qed


section \<open>Rows of the controllable and reachable sets\<close>

subsection \<open>Lists of stages\<close>

lemma upt_split_unique:
  assumes "[0..<n] = xs @ m # ys"
  shows "m < n \<and> xs = [0..<m] \<and> ys = [Suc m..<n]"
proof -
  have "length [0..<n] = length (xs @ m # ys)"
    using assms by simp
  then have len: "length xs < n"
    by simp
  have "[0..<n] ! length xs = m"
    unfolding assms by simp
  then have m: "length xs = m"
    using len by simp
  have mn: "m < n"
    using len m by simp
  have "take (length xs) (xs @ m # ys) = xs" "drop (Suc (length xs)) (xs @ m # ys) = ys"
    by simp_all
  then have td: "take m [0..<n] = xs" "drop (Suc m) [0..<n] = ys"
    unfolding m assms [symmetric] by simp_all
  have "take m [0..<n] = [0..<m]"
    using mn by simp
  moreover have "drop (Suc m) [0..<n] = [Suc m..<n]"
    by simp
  ultimately show ?thesis
    using mn td by simp
qed

lemma rev_upt_split_unique:
  assumes "rev [0..<n] = xs @ m # ys"
  shows "m < n \<and> xs = rev [Suc m..<n] \<and> ys = rev [0..<m]"
proof -
  have "[0..<n] = rev (xs @ m # ys)"
    using assms by (simp add: rev_swap)
  then have "[0..<n] = rev ys @ m # rev xs"
    by simp
  from upt_split_unique [OF this] show ?thesis
    by (auto simp add: rev_swap)
qed

lemma filter_upt_below:
  assumes "m < n" and "\<forall>j\<le>m. \<not> P j"
  shows "filter P [0..<n] = filter P [Suc m..<n]"
proof -
  have "[0..<n] = [0..<Suc m] @ [Suc m..<n]"
    using assms(1) upt_add_eq_append [of 0 "Suc m" "n - Suc m"] by simp
  moreover have "filter P [0..<Suc m] = []"
    using assms(2) by (auto simp add: filter_empty_conv simp del: upt_Suc)
  ultimately show ?thesis
    by (metis append_Nil filter_append)
qed

lemma filter_upt_above:
  assumes "m \<le> n" and "\<forall>j>m. \<not> P j"
  shows "filter P [0..<n + 1] = filter P [0..<m + 1]"
proof -
  have "[0..<n + 1] = [0..<m + 1] @ [m + 1..<n + 1]"
    using assms(1) upt_add_eq_append [of 0 "m + 1" "n - m"] by simp
  moreover have "filter P [m + 1..<n + 1] = []"
    using assms(2) by (auto simp add: filter_empty_conv simp del: upt_Suc)
  ultimately show ?thesis
    by (metis append_Nil2 filter_append)
qed

lemma filter_upt_exposed:
  assumes "\<forall>i<n. P i"
  shows "filter P [0..<n + 1] = (if P n then [0..<n + 1] else [0..<n])"
proof -
  have "filter P [0..<n] = [0..<n]"
    using assms by (simp add: filter_id_conv)
  then show ?thesis by simp
qed

lemma filter_upt_from_exposed:
  assumes "m \<le> n" and "\<forall>i. m \<le> i \<and> i < n \<longrightarrow> P i"
  shows "filter P [m..<n + 1] = (if P n then [m..<n + 1] else [m..<n])"
proof -
  have "filter P [m..<n] = [m..<n]"
    using assms by (simp add: filter_id_conv)
  then show ?thesis using assms(1) by simp
qed

lemma hidden_minus_one: "\<not> fgt (Fl (- 1)) (fneg TINY)"
  by (simp add: fgt_def TINY_def)

subsection \<open>What the primitives return\<close>

lemma one_step_Some_Fl:
  "one_step B s i xmin xmax init = (Return (Some (lo, hi)), s') \<Longrightarrow> \<exists>a b. lo = Fl a \<and> hi = Fl b"
  by (auto simp add: one_step_def Let_def getPrimalSolution_def split: prod.splits if_splits)

lemma py_max_Fl_0: "fge (py_max (Fl a) (Fl 0)) (Fl 0) \<and> fgt (py_max (Fl a) (Fl 0)) (fneg TINY)"
  by (simp add: py_max_def fge_def fgt_def TINY_def)

lemma proj_x_admissible_Some_lower:
  "proj_x_admissible B s i xmin xmax init = (Return (Some (lo, hi)), s') \<Longrightarrow>
     lo = Fl (sq_getPrimalSolution B (self_solver_down s') 1)"
  by (auto simp add: proj_x_admissible_def Let_def getPrimalSolution_def
      split: prod.splits if_splits option.splits)

subsection \<open>The backward loop, up to a stage that fails\<close>

lemma controllable_loop_False_split:
  "controllable_loop B eps stages init s = (Return False, s') \<Longrightarrow>
     \<exists>pre i post \<sigma>. stages = pre @ i # post \<and>
        controllable_loop B eps pre init s = (Return True, \<sigma>) \<and>
        one_step B \<sigma> i (self_K \<sigma> (i + 1) 0) (self_K \<sigma> (i + 1) 1) (init \<and> pre = [])
          = (Return None, s')"
proof (induction stages arbitrary: init s)
  case Nil
  then show ?case by simp
next
  case (Cons i stages)
  obtain r s1 where one: "one_step B s i (self_K s (Suc i) 0) (self_K s (Suc i) 1) init = (r, s1)"
    by (cases "one_step B s i (self_K s (Suc i) 0) (self_K s (Suc i) 1) init") blast
  show ?case
  proof (cases r)
    case (Raise e)
    then show ?thesis using Cons.prems one by (simp split: if_splits)
  next
    case (Return v)
    show ?thesis
    proof (cases v)
      case None
      then have "s' = s1" using Cons.prems one Return by (simp split: if_splits)
      then have "i # stages = [] @ i # stages \<and>
          controllable_loop B eps [] init s = (Return True, s) \<and>
          one_step B s i (self_K s (i + 1) 0) (self_K s (i + 1) 1) (init \<and> ([] :: nat list) = [])
            = (Return None, s')"
        using one Return None by simp
      then show ?thesis by blast
    next
      case (Some p)
      obtain lo hi where p: "p = (lo, hi)" by (cases p)
      let ?s2 = "s1\<lparr>self_K := set2 (set2 (self_K s1) i 1 (fsub hi eps)) i 0 (py_max lo (Fl 0))\<rparr>"
      have guard: "\<not> self_N s < i + 1"
        using Cons.prems by (auto split: if_splits)
      have "controllable_loop B eps stages False ?s2 = (Return False, s')"
        using Cons.prems one Return Some p by (simp add: Let_def split: if_splits)
      from Cons.IH [OF this] obtain pre k post \<sigma> where
        st: "stages = pre @ k # post" and
        lp: "controllable_loop B eps pre False ?s2 = (Return True, \<sigma>)" and
        os: "one_step B \<sigma> k (self_K \<sigma> (k + 1) 0) (self_K \<sigma> (k + 1) 1) (False \<and> pre = [])
               = (Return None, s')"
        by blast
      have "controllable_loop B eps (i # pre) init s = (Return True, \<sigma>)"
        using one Return Some p lp guard by (simp add: Let_def)
      moreover have "i # stages = (i # pre) @ k # post"
        using st by simp
      moreover have "one_step B \<sigma> k (self_K \<sigma> (k + 1) 0) (self_K \<sigma> (k + 1) 1)
          (init \<and> i # pre = []) = (Return None, s')"
        using os by simp
      ultimately show ?thesis by blast
    qed
  qed
qed

lemma controllable_loop_True_rows:
  "controllable_loop B eps stages init s = (Return True, \<sigma>) \<Longrightarrow> j \<in> set stages \<Longrightarrow>
     fge (self_K \<sigma> j 0) (Fl 0) \<and> fgt (self_K \<sigma> j 0) (fneg TINY)"
proof (induction stages arbitrary: init s)
  case Nil
  then show ?case by simp
next
  case (Cons i stages)
  obtain r s1 where one: "one_step B s i (self_K s (Suc i) 0) (self_K s (Suc i) 1) init = (r, s1)"
    by (cases "one_step B s i (self_K s (Suc i) 0) (self_K s (Suc i) 1) init") blast
  from Cons.prems(1) one obtain lo hi where r: "r = Return (Some (lo, hi))"
    by (cases r) (auto split: if_splits option.splits)
  let ?s2 = "s1\<lparr>self_K := set2 (set2 (self_K s1) i 1 (fsub hi eps)) i 0 (py_max lo (Fl 0))\<rparr>"
  have rest: "controllable_loop B eps stages False ?s2 = (Return True, \<sigma>)"
    using Cons.prems(1) one r by (simp add: Let_def split: if_splits)
  show ?case
  proof (cases "j \<in> set stages")
    case True
    then show ?thesis using Cons.IH [OF rest] by blast
  next
    case False
    then have j: "j = i" using Cons.prems(2) by simp
    have \<sigma>: "\<sigma> = snd (controllable_loop B eps stages False ?s2)"
      using rest by simp
    have "self_K \<sigma> j = self_K ?s2 j"
      unfolding \<sigma> by (rule controllable_loop_K_other) (rule False)
    then have "self_K \<sigma> j 0 = py_max lo (Fl 0)"
      using j by simp
    moreover obtain a where "lo = Fl a"
      using one_step_Some_Fl one r by blast
    ultimately show ?thesis
      using py_max_Fl_0 [of a] by simp
  qed
qed

lemma solve_controllable_sets_False_stage:
  assumes "solve_controllable_sets B s eps = (Return False, s1)"
  shows "(proj_x_admissible B
            ((reset_operational_rows s)
               \<lparr>self_nWSR_up := (\<lambda>k. self_nWSR_cnst s),
                self_nWSR_down := (\<lambda>k. self_nWSR_cnst s)\<rparr>)
            (self_N s) (fst (self_IN s)) (snd (self_IN s)) True = (Return None, s1) \<and>
          self_K s1 = self_K s) \<or>
         (\<exists>m<self_N s. \<exists>xmin xmax s0 \<sigma>.
            proj_x_admissible B
              ((reset_operational_rows s)
                 \<lparr>self_nWSR_up := (\<lambda>k. self_nWSR_cnst s),
                  self_nWSR_down := (\<lambda>k. self_nWSR_cnst s)\<rparr>)
              (self_N s) (fst (self_IN s)) (snd (self_IN s)) True
              = (Return (Some (xmin, xmax)), s0) \<and>
            controllable_loop B eps (rev [Suc m..<self_N s]) True
              (s0\<lparr>self_K := set2 (set2 (self_K s0) (self_N s) 1 xmax) (self_N s) 0 xmin\<rparr>)
              = (Return True, \<sigma>) \<and>
            one_step B \<sigma> m (self_K \<sigma> (m + 1) 0) (self_K \<sigma> (m + 1) 1) (m = self_N s - 1)
              = (Return None, s1) \<and>
            (\<forall>j\<le>m. self_K s1 j = self_K s j) \<and>
            (\<forall>j. m < j \<and> j < self_N s \<longrightarrow>
               fge (self_K s1 j 0) (Fl 0) \<and> fgt (self_K s1 j 0) (fneg TINY)) \<and>
            self_K s1 (self_N s) 0 = xmin \<and> self_K s1 (self_N s) 1 = xmax)"
proof -
  let ?pre = "(reset_operational_rows s)
          \<lparr>self_nWSR_up := (\<lambda>k. self_nWSR_cnst s), self_nWSR_down := (\<lambda>k. self_nWSR_cnst s)\<rparr>"
  let ?N = "self_N s"
  obtain r0 s0 where proj:
    "proj_x_admissible B ?pre ?N (fst (self_IN s)) (snd (self_IN s)) True = (r0, s0)"
    by (cases "proj_x_admissible B ?pre ?N (fst (self_IN s)) (snd (self_IN s)) True") blast
  have fr: "self_K s0 = self_K s" "self_N s0 = ?N"
    using proj_x_admissible_frameD [OF proj] by (simp_all add: same_frame_def)
  show ?thesis
  proof (cases r0)
    case (Raise e)
    then show ?thesis using assms proj by (simp add: solve_controllable_sets_def Let_def)
  next
    case (Return v)
    show ?thesis
    proof (cases v)
      case None
      then have "s1 = s0"
        using assms proj Return by (simp add: solve_controllable_sets_def Let_def)
      then show ?thesis using fr proj Return None by simp
    next
      case (Some p)
      obtain xmin xmax where p: "p = (xmin, xmax)" by (cases p)
      let ?s1 = "s0\<lparr>self_K := set2 (set2 (self_K s0) ?N 1 xmax) ?N 0 xmin\<rparr>"
      have "controllable_loop B eps (rev [0..<?N]) True ?s1 = (Return False, s1)"
        using assms proj Return Some p fr by (simp add: solve_controllable_sets_def Let_def)
      from controllable_loop_False_split [OF this] obtain pre m post \<sigma> where
        st: "rev [0..<?N] = pre @ m # post" and
        lp: "controllable_loop B eps pre True ?s1 = (Return True, \<sigma>)" and
        os: "one_step B \<sigma> m (self_K \<sigma> (m + 1) 0) (self_K \<sigma> (m + 1) 1) (True \<and> pre = [])
               = (Return None, s1)"
        by blast
      from rev_upt_split_unique [OF st] have m: "m < ?N" and pre: "pre = rev [Suc m..<?N]"
        by simp_all
      have flag: "(True \<and> pre = []) = (m = ?N - 1)"
        using m pre by auto
      have K1: "self_K s1 = self_K \<sigma>"
        using one_step_frameD [OF os] by (simp add: same_frame_def)
      have \<sigma>: "\<sigma> = snd (controllable_loop B eps pre True ?s1)"
        using lp by simp
      have low: "self_K s1 j = self_K s j" if "j \<le> m" for j
      proof -
        have "j \<notin> set pre" using that pre by simp
        then have "self_K \<sigma> j = self_K ?s1 j"
          unfolding \<sigma> by (rule controllable_loop_K_other)
        then show ?thesis
          using K1 fr m that by (auto simp add: fun_eq_iff)
      qed
      have mid: "fge (self_K s1 j 0) (Fl 0) \<and> fgt (self_K s1 j 0) (fneg TINY)"
        if "m < j" "j < ?N" for j
      proof -
        have "j \<in> set pre" using that pre by simp
        from controllable_loop_True_rows [OF lp this] show ?thesis
          using K1 by simp
      qed
      have "?N \<notin> set pre" using pre by simp
      then have "self_K \<sigma> ?N = self_K ?s1 ?N"
        unfolding \<sigma> by (rule controllable_loop_K_other)
      then have top: "self_K s1 ?N 0 = xmin" "self_K s1 ?N 1 = xmax"
        using K1 by simp_all
      have "\<exists>m<?N. \<exists>xmin xmax s0 \<sigma>.
            proj_x_admissible B ?pre ?N (fst (self_IN s)) (snd (self_IN s)) True
              = (Return (Some (xmin, xmax)), s0) \<and>
            controllable_loop B eps (rev [Suc m..<?N]) True
              (s0\<lparr>self_K := set2 (set2 (self_K s0) ?N 1 xmax) ?N 0 xmin\<rparr>)
              = (Return True, \<sigma>) \<and>
            one_step B \<sigma> m (self_K \<sigma> (m + 1) 0) (self_K \<sigma> (m + 1) 1) (m = ?N - 1)
              = (Return None, s1) \<and>
            (\<forall>j\<le>m. self_K s1 j = self_K s j) \<and>
            (\<forall>j. m < j \<and> j < ?N \<longrightarrow>
               fge (self_K s1 j 0) (Fl 0) \<and> fgt (self_K s1 j 0) (fneg TINY)) \<and>
            self_K s1 ?N 0 = xmin \<and> self_K s1 ?N 1 = xmax"
        using m proj Return Some p lp [unfolded pre] os [unfolded flag] low mid top
        by (intro exI [of _ m] conjI exI [of _ xmin] exI [of _ xmax] exI [of _ s0]
            exI [of _ \<sigma>]) simp_all
      then show ?thesis by blast
    qed
  qed
qed

subsection \<open>The loop of the reachable sets\<close>

lemma reachable_loop_Cons:
  "reachable_loop B (i # stages) s =
     (if i > self_N s then (Raise IndexError, s)
      else
        case reach B s i (self_L s i 0) (self_L s i 1) (i \<le> 1) of
          (Raise e, s) \<Rightarrow> (Raise e, s)
        | (Return None, s) \<Rightarrow> (Return False, s)
        | (Return (Some (a, b)), s) \<Rightarrow>
            (case proj_x_admissible B s (i + 1) a b (i \<le> 1) of
               (Raise e, s) \<Rightarrow> (Raise e, s)
             | (Return None, s) \<Rightarrow> (Return False, s)
             | (Return (Some (lo, hi)), s) \<Rightarrow>
                 reachable_loop B stages
                   (s\<lparr>self_L := set2 (set2 (self_L s) (i + 1) 1 hi) (i + 1) 0 lo\<rparr>)))"
  by (cases "i \<le> 1")
    (auto simp add: Let_def split: prod.splits outcome.splits option.splits)

declare reachable_loop.simps(2) [simp del]
declare reachable_loop_Cons [simp]

lemma reachable_loop_same_setup:
  "same_setup s (snd (reachable_loop B stages s))"
proof (induction stages arbitrary: s)
  case Nil
  show ?case by simp
next
  case (Cons i stages)
  let ?init = "i \<le> 1"
  obtain r s1 where rc: "reach B s i (self_L s i 0) (self_L s i 1) ?init = (r, s1)"
    by (cases "reach B s i (self_L s i 0) (self_L s i 1) ?init") blast
  have s1: "same_setup s s1"
    using reach_frameD [OF rc] by (rule same_frame_setup)
  show ?case
  proof (cases r)
    case (Raise e)
    then show ?thesis using rc s1 by simp
  next
    case (Return v)
    show ?thesis
    proof (cases v)
      case None
      then show ?thesis using rc s1 Return by simp
    next
      case (Some p)
      obtain a b where p: "p = (a, b)" by (cases p)
      obtain r2 s2 where pr: "proj_x_admissible B s1 (Suc i) a b ?init = (r2, s2)"
        by (cases "proj_x_admissible B s1 (Suc i) a b ?init") blast
      have s2: "same_setup s s2"
        using proj_x_admissible_frameD [OF pr] s1 same_frame_setup same_setup_trans by blast
      show ?thesis
      proof (cases r2)
        case (Raise e)
        then show ?thesis using rc Return Some p pr s2 by simp
      next
        case r2: (Return v2)
        show ?thesis
        proof (cases v2)
          case None
          then show ?thesis using rc Return Some p pr r2 s2 by simp
        next
          case (Some q)
          obtain lo hi where q: "q = (lo, hi)" by (cases q)
          let ?s3 = "s2\<lparr>self_L := set2 (set2 (self_L s2) (Suc i) 1 hi) (Suc i) 0 lo\<rparr>"
          have "same_setup s ?s3" using s2 by simp
          moreover have "same_setup ?s3 (snd (reachable_loop B stages ?s3))"
            by (rule Cons.IH)
          ultimately have "same_setup s (snd (reachable_loop B stages ?s3))"
            by (rule same_setup_trans)
          then show ?thesis
            using rc Return \<open>v = Some p\<close> p pr r2 Some q by (simp add: Let_def)
        qed
      qed
    qed
  qed
qed

lemma reachable_loop_N [simp]:
  "self_N (snd (reachable_loop B stages s)) = self_N s"
  using reachable_loop_same_setup [of s B stages] by (simp add: same_setup_def)

lemma solve_reachable_sets_N [simp]:
  "self_N (snd (solve_reachable_sets B s)) = self_N s"
proof -
  obtain r0 s0 where proj:
    "proj_x_admissible B (reset_operational_rows s) 0 (fst (self_I0 s)) (snd (self_I0 s)) True
       = (r0, s0)"
    by (cases "proj_x_admissible B (reset_operational_rows s) 0 (fst (self_I0 s))
      (snd (self_I0 s)) True") blast
  have "self_N s0 = self_N s"
    using proj_x_admissible_frameD [OF proj] by (simp add: same_frame_def)
  then show ?thesis
    using proj
    by (simp add: solve_reachable_sets_def Let_def split: outcome.splits option.splits)
qed

lemma reachable_loop_append:
  "reachable_loop B (xs @ ys) s =
     (case reachable_loop B xs s of
        (Return True, s1) \<Rightarrow> reachable_loop B ys s1
      | (Return False, s1) \<Rightarrow> (Return False, s1)
      | (Raise e, s1) \<Rightarrow> (Raise e, s1))"
proof (induction xs arbitrary: s)
  case Nil
  show ?case by simp
next
  case (Cons i xs)
  show ?case
    by (simp add: Cons Let_def split: prod.splits outcome.splits option.splits bool.splits)
qed

lemma reachable_loop_L_other:
  "j \<notin> Suc ` set stages \<Longrightarrow> self_L (snd (reachable_loop B stages s)) j = self_L s j"
proof (induction stages arbitrary: s)
  case Nil
  show ?case by simp
next
  case (Cons i stages)
  show ?case
    using Cons.prems
    by (auto simp add: Cons.IH Let_def fun_eq_iff same_frame_def
        dest!: reach_frameD proj_x_admissible_frameD
        split: prod.splits outcome.splits option.splits)
qed

lemma reachable_loop_stage:
  assumes "reachable_loop B (pre @ i # post) s = (Return True, s')"
  shows "\<exists>\<sigma> a b \<sigma>1 lo hi \<sigma>2.
     reachable_loop B pre s = (Return True, \<sigma>) \<and>
     reach B \<sigma> i (self_L \<sigma> i 0) (self_L \<sigma> i 1) (i \<le> 1) = (Return (Some (a, b)), \<sigma>1) \<and>
     proj_x_admissible B \<sigma>1 (i + 1) a b (i \<le> 1) = (Return (Some (lo, hi)), \<sigma>2) \<and>
     reachable_loop B post
       (\<sigma>2\<lparr>self_L := set2 (set2 (self_L \<sigma>2) (i + 1) 1 hi) (i + 1) 0 lo\<rparr>)
       = (Return True, s')"
  using assms
  by (auto simp add: reachable_loop_append Let_def
      split: prod.splits outcome.splits option.splits bool.splits if_splits)

lemma reachable_loop_False_split:
  "reachable_loop B stages s = (Return False, s') \<Longrightarrow>
     \<exists>pre i post \<sigma>. stages = pre @ i # post \<and>
        reachable_loop B pre s = (Return True, \<sigma>) \<and>
        (reach B \<sigma> i (self_L \<sigma> i 0) (self_L \<sigma> i 1) (i \<le> 1) = (Return None, s') \<or>
         (\<exists>a b \<sigma>1.
            reach B \<sigma> i (self_L \<sigma> i 0) (self_L \<sigma> i 1) (i \<le> 1)
              = (Return (Some (a, b)), \<sigma>1) \<and>
            proj_x_admissible B \<sigma>1 (i + 1) a b (i \<le> 1) = (Return None, s')))"
proof (induction stages arbitrary: s)
  case Nil
  then show ?case by simp
next
  case (Cons i stages)
  let ?init = "i \<le> 1"
  have guard: "\<not> self_N s < i"
    using Cons.prems by (auto simp add: Let_def split: if_splits)
  obtain r s1 where rc: "reach B s i (self_L s i 0) (self_L s i 1) ?init = (r, s1)"
    by (cases "reach B s i (self_L s i 0) (self_L s i 1) ?init") blast
  have here: ?case
    if "reach B s i (self_L s i 0) (self_L s i 1) (i \<le> 1) = (Return None, s') \<or>
         (\<exists>a b \<sigma>1.
            reach B s i (self_L s i 0) (self_L s i 1) (i \<le> 1)
              = (Return (Some (a, b)), \<sigma>1) \<and>
            proj_x_admissible B \<sigma>1 (i + 1) a b (i \<le> 1) = (Return None, s'))"
  proof -
    have "i # stages = [] @ i # stages \<and> reachable_loop B [] s = (Return True, s)"
      by simp
    then show ?thesis using that by blast
  qed
  show ?case
  proof (cases r)
    case (Raise e)
    then show ?thesis using Cons.prems rc by (simp add: Let_def split: if_splits)
  next
    case (Return v)
    show ?thesis
    proof (cases v)
      case None
      then have "s' = s1" using Cons.prems rc Return by (simp add: Let_def split: if_splits)
      then show ?thesis using here rc Return None by simp
    next
      case (Some p)
      obtain a b where p: "p = (a, b)" by (cases p)
      obtain r2 s2 where pr: "proj_x_admissible B s1 (Suc i) a b ?init = (r2, s2)"
        by (cases "proj_x_admissible B s1 (Suc i) a b ?init") blast
      show ?thesis
      proof (cases r2)
        case (Raise e)
        then show ?thesis
          using Cons.prems rc Return Some p pr by (simp add: Let_def split: if_splits)
      next
        case r2: (Return v2)
        show ?thesis
        proof (cases v2)
          case None
          then have "s' = s2"
            using Cons.prems rc Return Some p pr r2 by (simp add: Let_def split: if_splits)
          then show ?thesis
            using here rc Return Some p pr r2 None by simp
        next
          case q: (Some q)
          obtain lo hi where lh: "q = (lo, hi)" by (cases q)
          let ?s3 = "s2\<lparr>self_L := set2 (set2 (self_L s2) (Suc i) 1 hi) (Suc i) 0 lo\<rparr>"
          have "reachable_loop B stages ?s3 = (Return False, s')"
            using Cons.prems rc Return Some p pr r2 q lh
            by (simp add: Let_def split: if_splits)
          from Cons.IH [OF this] obtain pre k post \<sigma> where
            st: "stages = pre @ k # post" and
            lp: "reachable_loop B pre ?s3 = (Return True, \<sigma>)" and
            fl: "reach B \<sigma> k (self_L \<sigma> k 0) (self_L \<sigma> k 1) (k \<le> 1) = (Return None, s') \<or>
               (\<exists>a b \<sigma>1.
                  reach B \<sigma> k (self_L \<sigma> k 0) (self_L \<sigma> k 1) (k \<le> 1)
                    = (Return (Some (a, b)), \<sigma>1) \<and>
                  proj_x_admissible B \<sigma>1 (k + 1) a b (k \<le> 1) = (Return None, s'))"
            by blast
          have "reachable_loop B (i # pre) s = (Return True, \<sigma>)"
            using rc Return Some p pr r2 q lh lp guard by (simp add: Let_def)
          moreover have "i # stages = (i # pre) @ k # post"
            using st by simp
          ultimately show ?thesis using fl by blast
        qed
      qed
    qed
  qed
qed

lemma solve_reachable_sets_trace:
  assumes "solve_reachable_sets B s = (Return True, s')"
  shows "\<exists>xmin xmax s0.
     proj_x_admissible B (reset_operational_rows s) 0 (fst (self_I0 s)) (snd (self_I0 s)) True
       = (Return (Some (xmin, xmax)), s0) \<and>
     self_L s' 0 0 = xmin \<and> self_L s' 0 1 = xmax \<and>
     (\<forall>i<self_N s. \<exists>\<sigma> a b \<sigma>1 lo hi \<sigma>2.
        reachable_loop B [0..<i]
          (s0\<lparr>self_L := set2 (set2 (self_L s0) 0 1 xmax) 0 0 xmin\<rparr>) = (Return True, \<sigma>) \<and>
        reach B \<sigma> i (self_L s' i 0) (self_L s' i 1) (i \<le> 1) = (Return (Some (a, b)), \<sigma>1) \<and>
        proj_x_admissible B \<sigma>1 (i + 1) a b (i \<le> 1) = (Return (Some (lo, hi)), \<sigma>2) \<and>
        self_L s' (i + 1) 0 = lo \<and> self_L s' (i + 1) 1 = hi)"
proof -
  let ?pre = "reset_operational_rows s"
  let ?N = "self_N s"
  obtain r0 s0 where proj:
    "proj_x_admissible B ?pre 0 (fst (self_I0 s)) (snd (self_I0 s)) True = (r0, s0)"
    by (cases "proj_x_admissible B ?pre 0 (fst (self_I0 s)) (snd (self_I0 s)) True") blast
  have N0: "self_N s0 = ?N"
    using proj_x_admissible_frameD [OF proj] by (simp add: same_frame_def)
  from assms proj obtain xmin xmax where r0: "r0 = Return (Some (xmin, xmax))"
    by (auto simp add: solve_reachable_sets_def Let_def
        split: outcome.splits option.splits)
  let ?s1 = "s0\<lparr>self_L := set2 (set2 (self_L s0) 0 1 xmax) 0 0 xmin\<rparr>"
  have loop: "reachable_loop B [0..<?N] ?s1 = (Return True, s')"
    using assms proj r0 N0 by (simp add: solve_reachable_sets_def Let_def)
  have s': "s' = snd (reachable_loop B [0..<?N] ?s1)"
    using loop by simp
  have L0: "self_L s' 0 = self_L ?s1 0"
    unfolding s' by (rule reachable_loop_L_other) simp
  have stage: "\<exists>\<sigma> a b \<sigma>1 lo hi \<sigma>2.
        reachable_loop B [0..<i] ?s1 = (Return True, \<sigma>) \<and>
        reach B \<sigma> i (self_L s' i 0) (self_L s' i 1) (i \<le> 1) = (Return (Some (a, b)), \<sigma>1) \<and>
        proj_x_admissible B \<sigma>1 (i + 1) a b (i \<le> 1) = (Return (Some (lo, hi)), \<sigma>2) \<and>
        self_L s' (i + 1) 0 = lo \<and> self_L s' (i + 1) 1 = hi"
    if i: "i < ?N" for i
  proof -
    have "reachable_loop B ([0..<i] @ i # [Suc i..<?N]) ?s1 = (Return True, s')"
      using loop upt_split [OF i] by simp
    from reachable_loop_stage [OF this]
    obtain \<sigma> a b \<sigma>1 lo hi \<sigma>2 where
      pre: "reachable_loop B [0..<i] ?s1 = (Return True, \<sigma>)" and
      rc: "reach B \<sigma> i (self_L \<sigma> i 0) (self_L \<sigma> i 1) (i \<le> 1) = (Return (Some (a, b)), \<sigma>1)" and
      pr: "proj_x_admissible B \<sigma>1 (i + 1) a b (i \<le> 1) = (Return (Some (lo, hi)), \<sigma>2)" and
      post: "reachable_loop B [Suc i..<?N]
              (\<sigma>2\<lparr>self_L := set2 (set2 (self_L \<sigma>2) (i + 1) 1 hi) (i + 1) 0 lo\<rparr>)
              = (Return True, s')"
      by blast
    let ?s3 = "\<sigma>2\<lparr>self_L := set2 (set2 (self_L \<sigma>2) (i + 1) 1 hi) (i + 1) 0 lo\<rparr>"
    have s3: "s' = snd (reachable_loop B [Suc i..<?N] ?s3)"
      using post by simp
    have Li: "self_L s' i = self_L ?s3 i"
      unfolding s3 by (rule reachable_loop_L_other) auto
    have Li1: "self_L s' (i + 1) = self_L ?s3 (i + 1)"
      unfolding s3 by (rule reachable_loop_L_other) auto
    have "self_L \<sigma>1 = self_L \<sigma>" "self_L \<sigma>2 = self_L \<sigma>1"
      using reach_frameD [OF rc] proj_x_admissible_frameD [OF pr]
      by (simp_all add: same_frame_def)
    then have L\<sigma>: "self_L \<sigma>2 = self_L \<sigma>"
      by simp
    have Li': "self_L s' i = self_L \<sigma> i"
      using Li L\<sigma> by (simp add: fun_eq_iff)
    show ?thesis
      using pre rc pr Li' Li1
      by (intro exI [of _ \<sigma>] exI [of _ a] exI [of _ b] exI [of _ \<sigma>1] exI [of _ lo]
          exI [of _ hi] exI [of _ \<sigma>2]) simp
  qed
  show ?thesis
    using proj r0 L0 stage by (intro exI [of _ xmin] exI [of _ xmax] exI [of _ s0]) simp
qed

lemma solve_reachable_sets_False_stage:
  assumes "solve_reachable_sets B s = (Return False, s2)"
  shows "(proj_x_admissible B (reset_operational_rows s) 0 (fst (self_I0 s)) (snd (self_I0 s))
            True = (Return None, s2) \<and>
          self_L s2 = self_L s) \<or>
         (\<exists>m<self_N s. \<exists>xmin xmax s0 \<sigma>.
            proj_x_admissible B (reset_operational_rows s) 0 (fst (self_I0 s))
              (snd (self_I0 s)) True = (Return (Some (xmin, xmax)), s0) \<and>
            reachable_loop B [0..<m]
              (s0\<lparr>self_L := set2 (set2 (self_L s0) 0 1 xmax) 0 0 xmin\<rparr>) = (Return True, \<sigma>) \<and>
            (reach B \<sigma> m (self_L \<sigma> m 0) (self_L \<sigma> m 1) (m \<le> 1) = (Return None, s2) \<or>
             (\<exists>a b \<sigma>1.
                reach B \<sigma> m (self_L \<sigma> m 0) (self_L \<sigma> m 1) (m \<le> 1)
                  = (Return (Some (a, b)), \<sigma>1) \<and>
                proj_x_admissible B \<sigma>1 (m + 1) a b (m \<le> 1) = (Return None, s2))) \<and>
            self_L s2 = self_L \<sigma> \<and>
            (\<forall>j>m. self_L s2 j = self_L s j))"
proof -
  let ?pre = "reset_operational_rows s"
  let ?N = "self_N s"
  obtain r0 s0 where proj:
    "proj_x_admissible B ?pre 0 (fst (self_I0 s)) (snd (self_I0 s)) True = (r0, s0)"
    by (cases "proj_x_admissible B ?pre 0 (fst (self_I0 s)) (snd (self_I0 s)) True") blast
  have fr: "self_L s0 = self_L s" "self_N s0 = ?N"
    using proj_x_admissible_frameD [OF proj] by (simp_all add: same_frame_def)
  show ?thesis
  proof (cases r0)
    case (Raise e)
    then show ?thesis using assms proj by (simp add: solve_reachable_sets_def Let_def)
  next
    case (Return v)
    show ?thesis
    proof (cases v)
      case None
      then have "s2 = s0"
        using assms proj Return by (simp add: solve_reachable_sets_def Let_def)
      then show ?thesis using fr proj Return None by simp
    next
      case (Some p)
      obtain xmin xmax where p: "p = (xmin, xmax)" by (cases p)
      let ?s1 = "s0\<lparr>self_L := set2 (set2 (self_L s0) 0 1 xmax) 0 0 xmin\<rparr>"
      have "reachable_loop B [0..<?N] ?s1 = (Return False, s2)"
        using assms proj Return Some p fr by (simp add: solve_reachable_sets_def Let_def)
      from reachable_loop_False_split [OF this] obtain pre m post \<sigma> where
        st: "[0..<?N] = pre @ m # post" and
        lp: "reachable_loop B pre ?s1 = (Return True, \<sigma>)" and
        fl: "reach B \<sigma> m (self_L \<sigma> m 0) (self_L \<sigma> m 1) (m \<le> 1) = (Return None, s2) \<or>
             (\<exists>a b \<sigma>1.
                reach B \<sigma> m (self_L \<sigma> m 0) (self_L \<sigma> m 1) (m \<le> 1)
                  = (Return (Some (a, b)), \<sigma>1) \<and>
                proj_x_admissible B \<sigma>1 (m + 1) a b (m \<le> 1) = (Return None, s2))"
        by blast
      from upt_split_unique [OF st] have m: "m < ?N" and pre: "pre = [0..<m]"
        by simp_all
      have L2: "self_L s2 = self_L \<sigma>"
        using fl
        by (auto simp add: same_frame_def dest!: reach_frameD proj_x_admissible_frameD)
      have \<sigma>: "\<sigma> = snd (reachable_loop B pre ?s1)"
        using lp by simp
      have high: "self_L s2 j = self_L s j" if "m < j" for j
      proof -
        have "j \<notin> Suc ` set pre" using that pre by auto
        then have "self_L \<sigma> j = self_L ?s1 j"
          unfolding \<sigma> by (rule reachable_loop_L_other)
        then show ?thesis
          using L2 fr that by (auto simp add: fun_eq_iff)
      qed
      have "\<exists>m<?N. \<exists>xmin xmax s0 \<sigma>.
            proj_x_admissible B ?pre 0 (fst (self_I0 s)) (snd (self_I0 s)) True
              = (Return (Some (xmin, xmax)), s0) \<and>
            reachable_loop B [0..<m]
              (s0\<lparr>self_L := set2 (set2 (self_L s0) 0 1 xmax) 0 0 xmin\<rparr>) = (Return True, \<sigma>) \<and>
            (reach B \<sigma> m (self_L \<sigma> m 0) (self_L \<sigma> m 1) (m \<le> 1) = (Return None, s2) \<or>
             (\<exists>a b \<sigma>1.
                reach B \<sigma> m (self_L \<sigma> m 0) (self_L \<sigma> m 1) (m \<le> 1)
                  = (Return (Some (a, b)), \<sigma>1) \<and>
                proj_x_admissible B \<sigma>1 (m + 1) a b (m \<le> 1) = (Return None, s2))) \<and>
            self_L s2 = self_L \<sigma> \<and>
            (\<forall>j>m. self_L s2 j = self_L s j)"
        using m proj Return Some p lp [unfolded pre] fl L2 high
        by (intro exI [of _ m] conjI exI [of _ xmin] exI [of _ xmax] exI [of _ s0]
            exI [of _ \<sigma>]) simp_all
      then show ?thesis by blast
    qed
  qed
qed

subsection \<open>Runs of the two sweeps\<close>

lemma reach_outcome:
  assumes "i < self_N s"
  shows "fst (reach B s i xmin xmax init) =
     (if fst (solve B init (self_solver_up s) (reach_problem s i xmin xmax (- 1)))
           \<noteq> SUCCESSFUL_RETURN
         \<or> fst (solve B init (self_solver_down s) (reach_problem s i xmin xmax 1))
           \<noteq> SUCCESSFUL_RETURN
      then Return None
      else Return (Some
        (Fl (sq_getObjVal B
               (snd (solve B init (self_solver_down s) (reach_problem s i xmin xmax 1)))),
         fneg (Fl (sq_getObjVal B
               (snd (solve B init (self_solver_up s) (reach_problem s i xmin xmax (- 1)))))))))"
  using assms
  by (auto simp add: reach_def Let_def problem_def reach_problem_def fun_upd_four
      split: prod.splits)

text \<open>
  One stage, every solve succeeds, and the down solver reports \<open>x = lo\<close> with
  \<open>-1e-10 \<le> lo \<le> 4\<close>.
\<close>

lemma backward_run:
  assumes "- (1 / 10 ^ 10) \<le> lo" and "lo \<le> 4"
  shows "\<exists>s s'.
     qpOASESPPSolver_init (fixed_answers lo 4 1 0) [no_constraint 1] False = Return s \<and>
     solve_controllable_sets (fixed_answers lo 4 1 0) s eps_default = (Return True, s') \<and>
     self_N s = 1 \<and> self_K s' 1 0 = Fl lo \<and> self_K s' 1 1 = Fl 4 \<and>
     self_K s' 0 0 = py_max (Fl lo) (Fl 0) \<and> self_K s' 0 1 = Fl (4 - 1 / 10 ^ 14)"
proof -
  let ?B = "fixed_answers lo 4 1 0"
  obtain s where s: "qpOASESPPSolver_init ?B [no_constraint 1] False = Return s"
    using qpOASESPPSolver_init_no_constraint by blast
  note sel = qpOASESPPSolver_init_sel [OF s]
  have N: "self_N s = 1"
    using sel(1) by (simp add: no_constraint_def)
  note ev = fixed_answers_def solve_scripted scripted_readouts one_step_outcome
    proj_x_admissible_outcome one_step_problem_def proj_problem_def
    SUCCESSFUL_RETURN_def SUPERTINY_def fgt_def fge_def Let_def case_prod_beta
  have run: "fst (solve_controllable_sets ?B s eps_default) = Return True"
    and K0: "self_K (snd (solve_controllable_sets ?B s eps_default)) 1 0 = Fl lo"
      "self_K (snd (solve_controllable_sets ?B s eps_default)) 1 1 = Fl 4"
      "self_K (snd (solve_controllable_sets ?B s eps_default)) 0 0 = py_max (Fl lo) (Fl 0)"
      "self_K (snd (solve_controllable_sets ?B s eps_default)) 0 1 = Fl (4 - 1 / 10 ^ 14)"
    using assms
    by (simp_all add: N ev solve_controllable_sets_def eps_default_def)
  obtain s' where s': "solve_controllable_sets ?B s eps_default = (Return True, s')"
    using run by (cases "solve_controllable_sets ?B s eps_default") simp
  show ?thesis
    using s s' N K0 by (intro exI [of _ s] exI [of _ s']) simp
qed

lemma forward_run:
  assumes "- (1 / 10 ^ 10) \<le> lo" and "lo \<le> 4"
  shows "\<exists>s s'.
     qpOASESPPSolver_init (fixed_answers lo 4 1 0) [no_constraint 1] False = Return s \<and>
     solve_reachable_sets (fixed_answers lo 4 1 0) s = (Return True, s') \<and>
     self_N s = 1 \<and> self_L s' 0 0 = Fl lo \<and> self_L s' 0 1 = Fl 4 \<and>
     self_L s' 1 0 = Fl lo \<and> self_L s' 1 1 = Fl 4"
proof -
  let ?B = "fixed_answers lo 4 1 0"
  obtain s where s: "qpOASESPPSolver_init ?B [no_constraint 1] False = Return s"
    using qpOASESPPSolver_init_no_constraint by blast
  note sel = qpOASESPPSolver_init_sel [OF s]
  have N: "self_N s = 1"
    using sel(1) by (simp add: no_constraint_def)
  note ev = fixed_answers_def solve_scripted scripted_readouts reach_outcome
    proj_x_admissible_outcome reach_problem_def proj_problem_def
    SUCCESSFUL_RETURN_def SUPERTINY_def fgt_def fge_def Let_def case_prod_beta
  have run: "fst (solve_reachable_sets ?B s) = Return True"
    and L0: "self_L (snd (solve_reachable_sets ?B s)) 0 0 = Fl lo"
      "self_L (snd (solve_reachable_sets ?B s)) 0 1 = Fl 4"
      "self_L (snd (solve_reachable_sets ?B s)) 1 0 = Fl lo"
      "self_L (snd (solve_reachable_sets ?B s)) 1 1 = Fl 4"
    using assms
    by (simp_all add: N ev solve_reachable_sets_def)
  obtain s' where s': "solve_reachable_sets ?B s = (Return True, s')"
    using run by (cases "solve_reachable_sets ?B s") simp
  show ?thesis
    using s s' N L0 by (intro exI [of _ s] exI [of _ s']) simp
qed

text \<open>
  Two stages; the cold starts succeed and every hot start stops with status 61, so the
  backward sweep fails in \<open>one_step\<close> at stage 0.
\<close>

lemma backward_stage_failure_run:
  "\<exists>u u1.
     qpOASESPPSolver_init (fixed_answers 0 4 1 61) [no_constraint 2] False = Return u \<and>
     solve_controllable_sets (fixed_answers 0 4 1 61) u eps_default = (Return False, u1) \<and>
     self_N u = 2 \<and> self_K u = (\<lambda>i j. Fl (- 1)) \<and>
     fst (proj_x_admissible (fixed_answers 0 4 1 61)
            ((reset_operational_rows u)
               \<lparr>self_nWSR_up := (\<lambda>k. self_nWSR_cnst u),
                self_nWSR_down := (\<lambda>k. self_nWSR_cnst u)\<rparr>)
            (self_N u) (fst (self_IN u)) (snd (self_IN u)) True) = Return (Some (Fl 0, Fl 4)) \<and>
     self_K u1 0 0 = Fl (- 1) \<and>
     self_K u1 1 0 = Fl 0 \<and> self_K u1 1 1 = Fl (4 - 1 / 10 ^ 14) \<and>
     self_K u1 2 0 = Fl 0 \<and> self_K u1 2 1 = Fl 4"
proof -
  let ?B = "fixed_answers 0 4 1 61"
  obtain u where u: "qpOASESPPSolver_init ?B [no_constraint 2] False = Return u"
    using qpOASESPPSolver_init_no_constraint by blast
  note sel = qpOASESPPSolver_init_sel [OF u]
  have N: "self_N u = 2"
    using sel(1) by (simp add: no_constraint_def)
  have st: "rev [0..<2] = [1, 0 :: nat]"
    by (simp add: upt_rec)
  note ev = fixed_answers_def solve_scripted scripted_readouts one_step_outcome
    proj_x_admissible_outcome one_step_problem_def proj_problem_def
    SUCCESSFUL_RETURN_def SUPERTINY_def fgt_def fge_def Let_def case_prod_beta st
  have pr: "fst (proj_x_admissible ?B
            ((reset_operational_rows u)
               \<lparr>self_nWSR_up := (\<lambda>k. self_nWSR_cnst u),
                self_nWSR_down := (\<lambda>k. self_nWSR_cnst u)\<rparr>)
            (self_N u) (fst (self_IN u)) (snd (self_IN u)) True) = Return (Some (Fl 0, Fl 4))"
    by (simp add: N ev)
  have run: "fst (solve_controllable_sets ?B u eps_default) = Return False"
    and K0: "self_K (snd (solve_controllable_sets ?B u eps_default)) 0 0 = Fl (- 1)"
      "self_K (snd (solve_controllable_sets ?B u eps_default)) 1 0 = Fl 0"
      "self_K (snd (solve_controllable_sets ?B u eps_default)) 1 1 = Fl (4 - 1 / 10 ^ 14)"
      "self_K (snd (solve_controllable_sets ?B u eps_default)) 2 0 = Fl 0"
      "self_K (snd (solve_controllable_sets ?B u eps_default)) 2 1 = Fl 4"
    by (simp_all add: N ev sel(6) solve_controllable_sets_def eps_default_def py_max_def)
  obtain u1 where u1: "solve_controllable_sets ?B u eps_default = (Return False, u1)"
    using run by (cases "solve_controllable_sets ?B u eps_default") simp
  show ?thesis
    using u u1 N sel(6) pr K0 by (intro exI [of _ u] exI [of _ u1]) simp
qed

text \<open>
  Three stages and the same backend: the forward sweep fails in \<open>reach\<close> at stage 2,
  the first one that starts hot.
\<close>

lemma forward_stage_failure_run:
  "\<exists>v v2.
     qpOASESPPSolver_init (fixed_answers 0 4 1 61) [no_constraint 3] False = Return v \<and>
     solve_reachable_sets (fixed_answers 0 4 1 61) v = (Return False, v2) \<and>
     self_N v = 3 \<and> self_L v = (\<lambda>i j. Fl (- 1)) \<and>
     fst (proj_x_admissible (fixed_answers 0 4 1 61) (reset_operational_rows v) 0
            (fst (self_I0 v)) (snd (self_I0 v)) True) = Return (Some (Fl 0, Fl 4)) \<and>
     self_L v2 0 0 = Fl 0 \<and> self_L v2 0 1 = Fl 4 \<and>
     self_L v2 1 0 = Fl 0 \<and> self_L v2 1 1 = Fl 4 \<and>
     self_L v2 2 0 = Fl 0 \<and> self_L v2 2 1 = Fl 4 \<and>
     self_L v2 3 0 = Fl (- 1)"
proof -
  let ?B = "fixed_answers 0 4 1 61"
  obtain v where v: "qpOASESPPSolver_init ?B [no_constraint 3] False = Return v"
    using qpOASESPPSolver_init_no_constraint by blast
  note sel = qpOASESPPSolver_init_sel [OF v]
  have N: "self_N v = 3"
    using sel(1) by (simp add: no_constraint_def)
  have st: "[0..<3] = [0, 1, 2 :: nat]"
    by (simp add: upt_rec)
  note ev = fixed_answers_def solve_scripted scripted_readouts reach_outcome
    proj_x_admissible_outcome reach_problem_def proj_problem_def
    SUCCESSFUL_RETURN_def SUPERTINY_def fgt_def fge_def Let_def case_prod_beta st
  have pr: "fst (proj_x_admissible ?B (reset_operational_rows v) 0
            (fst (self_I0 v)) (snd (self_I0 v)) True) = Return (Some (Fl 0, Fl 4))"
    by (simp add: N ev)
  have run: "fst (solve_reachable_sets ?B v) = Return False"
    and L0: "self_L (snd (solve_reachable_sets ?B v)) 0 0 = Fl 0"
      "self_L (snd (solve_reachable_sets ?B v)) 0 1 = Fl 4"
      "self_L (snd (solve_reachable_sets ?B v)) 1 0 = Fl 0"
      "self_L (snd (solve_reachable_sets ?B v)) 1 1 = Fl 4"
      "self_L (snd (solve_reachable_sets ?B v)) 2 0 = Fl 0"
      "self_L (snd (solve_reachable_sets ?B v)) 2 1 = Fl 4"
      "self_L (snd (solve_reachable_sets ?B v)) 3 0 = Fl (- 1)"
    by (simp_all add: N ev sel(7) solve_reachable_sets_def)
  obtain v2 where v2: "solve_reachable_sets ?B v = (Return False, v2)"
    using run by (cases "solve_reachable_sets ?B v") simp
  show ?thesis
    using v v2 N sel(7) pr L0 by (intro exI [of _ v] exI [of _ v2]) simp
qed

text \<open>One stage and a backend whose every solve fails with status 37.\<close>

lemma projection_failure_run:
  "\<exists>w w1 w2.
     qpOASESPPSolver_init (scripted (\<lambda>p. (37, 0, 0, 0)) (\<lambda>p. (37, 0, 0, 0)))
       [no_constraint 1] False = Return w \<and>
     solve_controllable_sets (scripted (\<lambda>p. (37, 0, 0, 0)) (\<lambda>p. (37, 0, 0, 0))) w eps_default
       = (Return False, w1) \<and>
     solve_reachable_sets (scripted (\<lambda>p. (37, 0, 0, 0)) (\<lambda>p. (37, 0, 0, 0))) w
       = (Return False, w2) \<and>
     self_N w = 1 \<and> self_K w = (\<lambda>i j. Fl (- 1)) \<and> self_L w = (\<lambda>i j. Fl (- 1)) \<and>
     fst (proj_x_admissible (scripted (\<lambda>p. (37, 0, 0, 0)) (\<lambda>p. (37, 0, 0, 0)))
            ((reset_operational_rows w)
               \<lparr>self_nWSR_up := (\<lambda>k. self_nWSR_cnst w),
                self_nWSR_down := (\<lambda>k. self_nWSR_cnst w)\<rparr>)
            (self_N w) (fst (self_IN w)) (snd (self_IN w)) True) = Return None \<and>
     fst (proj_x_admissible (scripted (\<lambda>p. (37, 0, 0, 0)) (\<lambda>p. (37, 0, 0, 0)))
            (reset_operational_rows w) 0 (fst (self_I0 w)) (snd (self_I0 w)) True)
       = Return None"
proof -
  let ?C = "scripted (\<lambda>p :: qp. (37 :: int, 0 :: real, 0 :: real, 0 :: real))
              (\<lambda>p. (37, 0, 0, 0))"
  obtain w where w: "qpOASESPPSolver_init ?C [no_constraint 1] False = Return w"
    using qpOASESPPSolver_init_no_constraint by blast
  note sel = qpOASESPPSolver_init_sel [OF w]
  have N: "self_N w = 1"
    using sel(1) by (simp add: no_constraint_def)
  note ev = solve_scripted scripted_readouts proj_x_admissible_outcome proj_problem_def
    SUCCESSFUL_RETURN_def Let_def case_prod_beta qpOASESReturnValueDict_def
  have a: "fst (solve_controllable_sets ?C w eps_default) = Return False"
    by (simp add: N ev solve_controllable_sets_def)
  have b: "fst (solve_reachable_sets ?C w) = Return False"
    by (simp add: N ev solve_reachable_sets_def)
  have c: "fst (proj_x_admissible ?C
            ((reset_operational_rows w)
               \<lparr>self_nWSR_up := (\<lambda>k. self_nWSR_cnst w),
                self_nWSR_down := (\<lambda>k. self_nWSR_cnst w)\<rparr>)
            (self_N w) (fst (self_IN w)) (snd (self_IN w)) True) = Return None"
    "fst (proj_x_admissible ?C (reset_operational_rows w) 0 (fst (self_I0 w))
            (snd (self_I0 w)) True) = Return None"
    by (simp_all add: N ev)
  obtain w1 where w1: "solve_controllable_sets ?C w eps_default = (Return False, w1)"
    using a by (cases "solve_controllable_sets ?C w eps_default") simp
  obtain w2 where w2: "solve_reachable_sets ?C w = (Return False, w2)"
    using b by (cases "solve_reachable_sets ?C w") simp
  show ?thesis
    using w w1 w2 N sel(6,7) c by blast
qed
section \<open>Endpoint intervals are validated when they are set\<close>

lemma fgt_imp_not_fge: "fgt a b \<Longrightarrow> \<not> fge b a"
  by (cases a; cases b) (simp_all add: fgt_def fge_def)

lemma flt_imp_not_fge: "flt a b \<Longrightarrow> \<not> fge a b"
  by (cases a; cases b) (simp_all add: fge_def)

text \<open>
  Claim C8. \<open>set_start_interval\<close> and \<open>set_goal_interval\<close> take a float or an array.
  A float \<open>v\<close> with \<open>v \<ge> 0\<close> is stored as \<open>[v, v]\<close>, an array \<open>[a, b]\<close> with
  \<open>b \<ge> a\<close> and \<open>a \<ge> 0\<close> is stored as it is. A negative lower end point and
  inverted end points raise \<open>AssertionError\<close>, and an array of more than two cells
  raises \<open>ValueError\<close>. Every rejection happens in the setter itself, which does not
  touch the backend, and leaves the object as it was.
\<close>

theorem set_interval_checks:
  "(fge v (Fl 0) \<longrightarrow>
      set_start_interval s (Scalar v) = (Return (), s\<lparr>self_I0 := (v, v)\<rparr>) \<and>
      set_goal_interval s (Scalar v) = (Return (), s\<lparr>self_IN := (v, v)\<rparr>)) \<and>
   (fge b a \<and> fge a (Fl 0) \<longrightarrow>
      set_start_interval s (Array [a, b]) = (Return (), s\<lparr>self_I0 := (a, b)\<rparr>) \<and>
      set_goal_interval s (Array [a, b]) = (Return (), s\<lparr>self_IN := (a, b)\<rparr>)) \<and>
   (flt v (Fl 0) \<longrightarrow>
      (\<exists>m. set_start_interval s (Scalar v) = (Raise (AssertionError m), s)) \<and>
      (\<exists>m. set_goal_interval s (Scalar v) = (Raise (AssertionError m), s))) \<and>
   (flt a (Fl 0) \<or> fgt a b \<longrightarrow>
      (\<exists>m. set_start_interval s (Array [a, b]) = (Raise (AssertionError m), s)) \<and>
      (\<exists>m. set_goal_interval s (Array [a, b]) = (Raise (AssertionError m), s))) \<and>
   (length xs > 2 \<longrightarrow>
      set_start_interval s (Array xs) = (Raise (ValueError_dimension (length xs)), s) \<and>
      set_goal_interval s (Array xs) = (Raise (ValueError_dimension (length xs)), s))"
proof -
  have scalar_ok: "fge v (Fl 0) \<Longrightarrow> fge v v"
    by (cases v) (simp_all add: fge_def)
  have neg: "flt v (Fl 0) \<Longrightarrow> \<not> fge v (Fl 0)" for v
    by (rule flt_imp_not_fge)
  have inv: "fgt a b \<Longrightarrow> \<not> fge b a"
    by (rule fgt_imp_not_fge)
  show ?thesis
    using scalar_ok neg [of v] neg [of a] inv
    by (auto simp add: set_start_interval_def set_goal_interval_def Let_def)
qed

theorem set_interval_checks_witness:
  "\<exists>s. qpOASESPPSolver_init (scripted (\<lambda>p. (0, 0, 0, 0)) (\<lambda>p. (0, 0, 0, 0)))
          [no_constraint 1] False = Return s \<and>
     fge (Fl 2) (Fl 0) \<and>
     set_start_interval s (Scalar (Fl 2)) = (Return (), s\<lparr>self_I0 := (Fl 2, Fl 2)\<rparr>) \<and>
     fge (Fl 3) (Fl 1) \<and> fge (Fl 1) (Fl 0) \<and>
     set_goal_interval s (Array [Fl 1, Fl 3]) = (Return (), s\<lparr>self_IN := (Fl 1, Fl 3)\<rparr>) \<and>
     flt (Fl (- 1)) (Fl 0) \<and>
     (\<exists>m. set_start_interval s (Scalar (Fl (- 1))) = (Raise (AssertionError m), s)) \<and>
     fgt (Fl 3) (Fl 1) \<and>
     (\<exists>m. set_goal_interval s (Array [Fl 3, Fl 1]) = (Raise (AssertionError m), s)) \<and>
     length [Fl 0, Fl 1, Fl 2] > 2 \<and>
     set_start_interval s (Array [Fl 0, Fl 1, Fl 2]) = (Raise (ValueError_dimension 3), s)"
proof -
  obtain s where s: "qpOASESPPSolver_init (scripted (\<lambda>p. (0, 0, 0, 0)) (\<lambda>p. (0, 0, 0, 0)))
      [no_constraint 1] False = Return s"
    by (simp add: qpOASESPPSolver_init_def no_constraint_def allclose_def Let_def)
  have h: "fge (Fl 2) (Fl 0)" "fge (Fl 3) (Fl 1)" "fge (Fl 1) (Fl 0)" "flt (Fl (- 1)) (Fl 0)"
      "fgt (Fl 3) (Fl 1)" "length [Fl 0, Fl 1, Fl 2] > 2"
    by (simp_all add: fge_def fgt_def)
  show ?thesis
    using s h
      set_interval_checks [of "Fl 2" s "Fl 3" "Fl 1" "[]"]
      set_interval_checks [of "Fl (- 1)" s "Fl 1" "Fl 3" "[Fl 0, Fl 1, Fl 2]"]
    by (intro exI [of _ s]) simp
qed

section \<open>The projection returns an ordered pair\<close>

text \<open>
  Claim C6. When \<open>proj_x_admissible\<close> returns a pair, its lower end point is the
  \<open>x\<close> component the down solver reported, it is at most the \<open>x\<close> component of the up
  solver plus \<open>SUPERTINY\<close>, the upper end point is that component unless the lower one
  exceeds it, in which case it is the lower one, and so the pair is ordered. An
  \<open>AssertionError\<close> is raised only when the lower value exceeds the upper one by more
  than \<open>SUPERTINY\<close>.
\<close>

theorem proj_x_admissible_ordered:
  assumes "proj_x_admissible B s i xmin xmax init = (r, s')"
  shows "(\<forall>xmin_i xmax_i. r = Return (Some (xmin_i, xmax_i)) \<longrightarrow>
            xmin_i = Fl (sq_getPrimalSolution B (self_solver_down s') 1) \<and>
            fle xmin_i (fadd (Fl (sq_getPrimalSolution B (self_solver_up s') 1)) SUPERTINY) \<and>
            xmax_i = (if fgt xmin_i (Fl (sq_getPrimalSolution B (self_solver_up s') 1))
                      then xmin_i else Fl (sq_getPrimalSolution B (self_solver_up s') 1)) \<and>
            fle xmin_i xmax_i) \<and>
         (\<forall>m. r = Raise (AssertionError m) \<longrightarrow>
            \<not> fle (Fl (sq_getPrimalSolution B (self_solver_down s') 1))
                  (fadd (Fl (sq_getPrimalSolution B (self_solver_up s') 1)) SUPERTINY))"
  using assms
  by (auto simp add: proj_x_admissible_def Let_def getPrimalSolution_def fgt_def SUPERTINY_def
      split: prod.splits if_splits option.splits)

theorem proj_x_admissible_ordered_witness:
  "\<exists>s s' t t'.
     qpOASESPPSolver_init
       (scripted (\<lambda>p. (0, 0, if qp_g p 1 = Fl (- 1) then 1 else 1 + 5 / 10 ^ 11, 0))
          (\<lambda>p. (61, 0, 0, 0)))
       [no_constraint 1] False = Return s \<and>
     proj_x_admissible
       (scripted (\<lambda>p. (0, 0, if qp_g p 1 = Fl (- 1) then 1 else 1 + 5 / 10 ^ 11, 0))
          (\<lambda>p. (61, 0, 0, 0)))
       s 1 (Fl 0) (Fl 1) True
       = (Return (Some (Fl (1 + 5 / 10 ^ 11), Fl (1 + 5 / 10 ^ 11))), s') \<and>
     fle (Fl (1 + 5 / 10 ^ 11)) (Fl (1 + 5 / 10 ^ 11)) \<and>
     qpOASESPPSolver_init
       (scripted (\<lambda>p. (0, 0, if qp_g p 1 = Fl (- 1) then 1 else 2, 0)) (\<lambda>p. (61, 0, 0, 0)))
       [no_constraint 1] False = Return t \<and>
     (\<exists>m. proj_x_admissible
       (scripted (\<lambda>p. (0, 0, if qp_g p 1 = Fl (- 1) then 1 else 2, 0)) (\<lambda>p. (61, 0, 0, 0)))
       t 1 (Fl 0) (Fl 1) True = (Raise (AssertionError m), t')) \<and>
     \<not> fle (Fl 2) (fadd (Fl 1) SUPERTINY)"
proof -
  let ?B1 = "scripted (\<lambda>p. (0, 0, if qp_g p 1 = Fl (- 1) then 1 else 1 + 5 / 10 ^ 11, 0))
          (\<lambda>p. (61, 0, 0, 0))"
  let ?B2 = "scripted (\<lambda>p. (0, 0, if qp_g p 1 = Fl (- 1) then 1 else 2, 0)) (\<lambda>p. (61, 0, 0, 0))"
  obtain s where s: "qpOASESPPSolver_init ?B1 [no_constraint 1] False = Return s"
    using qpOASESPPSolver_init_no_constraint by blast
  obtain t where t: "qpOASESPPSolver_init ?B2 [no_constraint 1] False = Return t"
    using qpOASESPPSolver_init_no_constraint by blast
  have N: "self_N s = 1" "self_N t = 1"
    using qpOASESPPSolver_init_sel(1) [OF s] qpOASESPPSolver_init_sel(1) [OF t]
    by (simp_all add: no_constraint_def)
  obtain r1 s1 where p1: "proj_x_admissible ?B1 s 1 (Fl 0) (Fl 1) True = (r1, s1)"
    by (cases "proj_x_admissible ?B1 s 1 (Fl 0) (Fl 1) True") blast
  have r1: "r1 = Return (Some (Fl (1 + 5 / 10 ^ 11), Fl (1 + 5 / 10 ^ 11)))"
    using p1
    by (simp add: proj_x_admissible_def Let_def N scripted_def problem_def solve_def
        getPrimalSolution_def SUCCESSFUL_RETURN_def SUPERTINY_def fgt_def)
  obtain r2 s2 where p2: "proj_x_admissible ?B2 t 1 (Fl 0) (Fl 1) True = (r2, s2)"
    by (cases "proj_x_admissible ?B2 t 1 (Fl 0) (Fl 1) True") blast
  have r2: "\<exists>m. r2 = Raise (AssertionError m)"
    using p2
    by (auto simp add: proj_x_admissible_def Let_def N scripted_def problem_def solve_def
        getPrimalSolution_def SUCCESSFUL_RETURN_def SUPERTINY_def fgt_def)
  have d2: "sq_getPrimalSolution ?B2 (self_solver_down s2) 1 = 2"
      "sq_getPrimalSolution ?B2 (self_solver_up s2) 1 = 1"
    using p2
    by (auto simp add: proj_x_admissible_def Let_def N scripted_def problem_def solve_def
        getPrimalSolution_def SUCCESSFUL_RETURN_def SUPERTINY_def fgt_def)
  show ?thesis
    using s t p1 r1 p2 r2 d2 proj_x_admissible_ordered [OF p1] proj_x_admissible_ordered [OF p2]
    by auto
qed

section \<open>Which read-out each primitive returns\<close>

text \<open>
  Claim C7. At a stage \<open>i < N\<close> of an object whose \<open>Ds[i]\<close> is \<open>ss[i+1] - ss[i]\<close>,
  \<open>reach\<close> poses to the up solver the objective \<open>g[0] = -2 * Ds[i]\<close>, \<open>g[1] = -1\<close> and
  to the down solver \<open>g[0] = 2 * Ds[i]\<close>, \<open>g[1] = 1\<close>, and when both succeed it returns
  the objective value of the down solver and the negated objective value of the up
  solver. \<open>one_step\<close> and \<open>proj_x_admissible\<close> return the \<open>x\<close> component (index 1) of
  the primal solutions instead.
\<close>

theorem reach_reads_objective_values:
  assumes "i < self_N s"
    and "self_Ds s i = fsub (self_ss s (i + 1)) (self_ss s i)"
    and "reach B s i xmin xmax init = (r, s')"
  shows "qp_g (reach_problem s i xmin xmax (- 1)) 0 = fneg (fmul (Fl 2) (self_Ds s i)) \<and>
         qp_g (reach_problem s i xmin xmax (- 1)) 1 = Fl (- 1) \<and>
         qp_g (reach_problem s i xmin xmax 1) 0 = fmul (Fl 2) (self_Ds s i) \<and>
         qp_g (reach_problem s i xmin xmax 1) 1 = Fl 1 \<and>
         self_solver_up s' =
           snd (solve B init (self_solver_up s) (reach_problem s i xmin xmax (- 1))) \<and>
         self_solver_down s' =
           snd (solve B init (self_solver_down s) (reach_problem s i xmin xmax 1)) \<and>
         r = (if fst (solve B init (self_solver_up s) (reach_problem s i xmin xmax (- 1)))
                   \<noteq> SUCCESSFUL_RETURN
                 \<or> fst (solve B init (self_solver_down s) (reach_problem s i xmin xmax 1))
                   \<noteq> SUCCESSFUL_RETURN
              then Return None
              else Return (Some (Fl (sq_getObjVal B (self_solver_down s')),
                                 fneg (Fl (sq_getObjVal B (self_solver_up s')))))) \<and>
         (\<forall>j a b ini lo hi s1.
            one_step B s j a b ini = (Return (Some (lo, hi)), s1) \<longrightarrow>
              lo = Fl (sq_getPrimalSolution B (self_solver_down s1) 1) \<and>
              hi = Fl (sq_getPrimalSolution B (self_solver_up s1) 1)) \<and>
         (\<forall>j a b ini lo hi s1.
            proj_x_admissible B s j a b ini = (Return (Some (lo, hi)), s1) \<longrightarrow>
              lo = Fl (sq_getPrimalSolution B (self_solver_down s1) 1) \<and>
              hi = (if fgt lo (Fl (sq_getPrimalSolution B (self_solver_up s1) 1)) then lo
                    else Fl (sq_getPrimalSolution B (self_solver_up s1) 1)))"
proof -
  have g: "fmul (Fl (- 1 * 2)) d = fneg (fmul (Fl 2) d)" for d
    by (cases d) simp_all
  have upd: "f(x := a, y := b, x := c, y := d) = f(x := c, y := d)"
    for f :: vec and x y a b c d
    by (auto simp add: fun_eq_iff)
  have one: "one_step B s j a b ini = (Return (Some (lo, hi)), s1) \<Longrightarrow>
      lo = Fl (sq_getPrimalSolution B (self_solver_down s1) 1) \<and>
      hi = Fl (sq_getPrimalSolution B (self_solver_up s1) 1)" for j a b ini lo hi s1
    by (auto simp add: one_step_def Let_def getPrimalSolution_def
        split: prod.splits if_splits)
  have proj: "proj_x_admissible B s j a b ini = (Return (Some (lo, hi)), s1) \<Longrightarrow>
      lo = Fl (sq_getPrimalSolution B (self_solver_down s1) 1) \<and>
      hi = (if fgt lo (Fl (sq_getPrimalSolution B (self_solver_up s1) 1)) then lo
            else Fl (sq_getPrimalSolution B (self_solver_up s1) 1))" for j a b ini lo hi s1
    by (auto simp add: proj_x_admissible_def Let_def getPrimalSolution_def
        split: prod.splits if_splits option.splits)
  have r: "self_solver_up s' =
           snd (solve B init (self_solver_up s) (reach_problem s i xmin xmax (- 1))) \<and>
         self_solver_down s' =
           snd (solve B init (self_solver_down s) (reach_problem s i xmin xmax 1)) \<and>
         r = (if fst (solve B init (self_solver_up s) (reach_problem s i xmin xmax (- 1)))
                   \<noteq> SUCCESSFUL_RETURN
                 \<or> fst (solve B init (self_solver_down s) (reach_problem s i xmin xmax 1))
                   \<noteq> SUCCESSFUL_RETURN
              then Return None
              else Return (Some (Fl (sq_getObjVal B (self_solver_down s')),
                                 fneg (Fl (sq_getObjVal B (self_solver_up s'))))))"
    using assms(1,3)
    by (auto simp add: reach_def Let_def problem_def reach_problem_def upd
        split: prod.splits if_splits)
  show ?thesis
    using r one proj assms(2) g [of "self_Ds s i"]
    by (simp add: reach_problem_def)
qed

theorem reach_reads_objective_values_witness:
  "\<exists>s s1 s2 s3.
     qpOASESPPSolver_init
       (scripted (\<lambda>p. (0, 0, if qp_g p 1 = Fl (- 1) then 2 else 1,
                        if qp_g p 1 = Fl (- 1) then - 3 else 1 / 2))
          (\<lambda>p. (61, 0, 0, 0)))
       [no_constraint 1] False = Return s \<and>
     0 < self_N s \<and>
     self_Ds s 0 = fsub (self_ss s (0 + 1)) (self_ss s 0) \<and>
     reach
       (scripted (\<lambda>p. (0, 0, if qp_g p 1 = Fl (- 1) then 2 else 1,
                        if qp_g p 1 = Fl (- 1) then - 3 else 1 / 2))
          (\<lambda>p. (61, 0, 0, 0)))
       s 0 (Fl 0) (Fl 1) True = (Return (Some (Fl (1 / 2), Fl 3)), s1) \<and>
     qp_g (reach_problem s 0 (Fl 0) (Fl 1) (- 1)) 0 = Fl (- 2) \<and>
     qp_g (reach_problem s 0 (Fl 0) (Fl 1) (- 1)) 1 = Fl (- 1) \<and>
     qp_g (reach_problem s 0 (Fl 0) (Fl 1) 1) 0 = Fl 2 \<and>
     qp_g (reach_problem s 0 (Fl 0) (Fl 1) 1) 1 = Fl 1 \<and>
     one_step
       (scripted (\<lambda>p. (0, 0, if qp_g p 1 = Fl (- 1) then 2 else 1,
                        if qp_g p 1 = Fl (- 1) then - 3 else 1 / 2))
          (\<lambda>p. (61, 0, 0, 0)))
       s 0 (Fl 0) (Fl 1) True = (Return (Some (Fl 1, Fl 2)), s2) \<and>
     proj_x_admissible
       (scripted (\<lambda>p. (0, 0, if qp_g p 1 = Fl (- 1) then 2 else 1,
                        if qp_g p 1 = Fl (- 1) then - 3 else 1 / 2))
          (\<lambda>p. (61, 0, 0, 0)))
       s 1 (Fl 0) (Fl 1) True = (Return (Some (Fl 1, Fl 2)), s3)"
proof -
  let ?B = "scripted (\<lambda>p. (0, 0, if qp_g p 1 = Fl (- 1) then 2 else 1,
                        if qp_g p 1 = Fl (- 1) then - 3 else 1 / 2))
          (\<lambda>p. (61, 0, 0, 0))"
  obtain s where s: "qpOASESPPSolver_init ?B [no_constraint 1] False = Return s"
    using qpOASESPPSolver_init_no_constraint by blast
  note sel = qpOASESPPSolver_init_sel [OF s]
  have N: "self_N s = 1" and N0: "0 < self_N s"
    using sel(1) by (simp_all add: no_constraint_def)
  have Ds: "self_Ds s 0 = fsub (self_ss s (0 + 1)) (self_ss s 0)"
    by (simp add: sel(2,3))
  have Ds1: "self_Ds s 0 = Fl 1"
    by (simp add: sel(3) no_constraint_def)
  obtain r1 s1 where p1: "reach ?B s 0 (Fl 0) (Fl 1) True = (r1, s1)"
    by (cases "reach ?B s 0 (Fl 0) (Fl 1) True") blast
  note rr = reach_reads_objective_values [OF N0 Ds p1]
  have up: "sq_getObjVal ?B (self_solver_up s1) = - 3"
    and down: "sq_getObjVal ?B (self_solver_down s1) = 1 / 2"
    and st: "fst (solve ?B True (self_solver_up s) (reach_problem s 0 (Fl 0) (Fl 1) (- 1))) = 0"
      "fst (solve ?B True (self_solver_down s) (reach_problem s 0 (Fl 0) (Fl 1) 1)) = 0"
    using rr by (simp_all add: solve_def scripted_def reach_problem_def)
  have r1: "r1 = Return (Some (Fl (1 / 2), Fl 3))"
    using rr up down st by (simp add: SUCCESSFUL_RETURN_def)
  obtain r2 s2 where p2: "one_step ?B s 0 (Fl 0) (Fl 1) True = (r2, s2)"
    by (cases "one_step ?B s 0 (Fl 0) (Fl 1) True") blast
  have r2: "r2 = Return (Some (Fl 1, Fl 2))"
    using p2
    by (simp add: one_step_def Let_def N scripted_def problem_def solve_def
        getPrimalSolution_def SUCCESSFUL_RETURN_def)
  obtain r3 s3 where p3: "proj_x_admissible ?B s 1 (Fl 0) (Fl 1) True = (r3, s3)"
    by (cases "proj_x_admissible ?B s 1 (Fl 0) (Fl 1) True") blast
  have r3: "r3 = Return (Some (Fl 1, Fl 2))"
    using p3
    by (simp add: proj_x_admissible_def Let_def N scripted_def problem_def solve_def
        getPrimalSolution_def SUCCESSFUL_RETURN_def SUPERTINY_def fgt_def)
  have g: "qp_g (reach_problem s 0 (Fl 0) (Fl 1) (- 1)) 0 = Fl (- 2)"
      "qp_g (reach_problem s 0 (Fl 0) (Fl 1) (- 1)) 1 = Fl (- 1)"
      "qp_g (reach_problem s 0 (Fl 0) (Fl 1) 1) 0 = Fl 2"
      "qp_g (reach_problem s 0 (Fl 0) (Fl 1) 1) 1 = Fl 1"
    using rr Ds1 by simp_all
  show ?thesis
    using s N0 Ds p1 [unfolded r1] p2 [unfolded r2] p3 [unfolded r3] g
    by blast
qed

section \<open>What each primitive does to the shared arrays\<close>

text \<open>
  Claim C9. \<open>reset_operational_rows\<close> zeroes the first \<open>nop\<close> rows of \<open>A\<close>, \<open>lA\<close> and
  \<open>hA\<close> and all of \<open>H\<close> and \<open>g\<close>. \<open>one_step\<close>, \<open>greedy_step\<close> and \<open>least_greedy_step\<close>
  start with it: calling them on the object or on the object already reset is the same.
  \<open>reach\<close> and \<open>proj_x_admissible\<close> do not: they leave rows 1 and 2 of \<open>A\<close>, \<open>lA\<close> and
  \<open>hA\<close>, the whole of \<open>H\<close> and every \<open>g[k]\<close> with \<open>k \<ge> 2\<close> as they found them. With
  \<open>nop = 3\<close>, as the constructor sets it, no primitive changes a row \<open>r \<ge> 3\<close> of \<open>A\<close>,
  \<open>lA\<close> or \<open>hA\<close>, nor the bounds \<open>l\<close> and \<open>h\<close>.
\<close>

theorem primitives_frame:
  assumes "self_nop s = 3"
  shows "(\<forall>j r c.
            self_A (reset_operational_rows s) j r c
              = (if r < self_nop s then Fl 0 else self_A s j r c) \<and>
            self_lA (reset_operational_rows s) j r
              = (if r < self_nop s then Fl 0 else self_lA s j r) \<and>
            self_hA (reset_operational_rows s) j r
              = (if r < self_nop s then Fl 0 else self_hA s j r) \<and>
            self_H (reset_operational_rows s) r c = Fl 0 \<and>
            self_g (reset_operational_rows s) c = Fl 0) \<and>
         one_step B (reset_operational_rows s) i xmin xmax init
           = one_step B s i xmin xmax init \<and>
         greedy_step B (reset_operational_rows s) i x xmin xmax init reg
           = greedy_step B s i x xmin xmax init reg \<and>
         least_greedy_step B (reset_operational_rows s) i x xmin xmax init reg
           = least_greedy_step B s i x xmin xmax init reg \<and>
         (\<forall>j r c. 1 \<le> r \<longrightarrow>
            self_A (snd (reach B s i xmin xmax init)) j r c = self_A s j r c \<and>
            self_lA (snd (reach B s i xmin xmax init)) j r = self_lA s j r \<and>
            self_hA (snd (reach B s i xmin xmax init)) j r = self_hA s j r \<and>
            self_A (snd (proj_x_admissible B s i xmin xmax init)) j r c = self_A s j r c \<and>
            self_lA (snd (proj_x_admissible B s i xmin xmax init)) j r = self_lA s j r \<and>
            self_hA (snd (proj_x_admissible B s i xmin xmax init)) j r = self_hA s j r) \<and>
         self_H (snd (reach B s i xmin xmax init)) = self_H s \<and>
         self_H (snd (proj_x_admissible B s i xmin xmax init)) = self_H s \<and>
         (\<forall>k. 2 \<le> k \<longrightarrow>
            self_g (snd (reach B s i xmin xmax init)) k = self_g s k \<and>
            self_g (snd (proj_x_admissible B s i xmin xmax init)) k = self_g s k) \<and>
         (\<forall>j r c. 3 \<le> r \<longrightarrow>
            self_A (snd (one_step B s i xmin xmax init)) j r c = self_A s j r c \<and>
            self_lA (snd (one_step B s i xmin xmax init)) j r = self_lA s j r \<and>
            self_hA (snd (one_step B s i xmin xmax init)) j r = self_hA s j r \<and>
            self_A (snd (greedy_step B s i x xmin xmax init reg)) j r c = self_A s j r c \<and>
            self_lA (snd (greedy_step B s i x xmin xmax init reg)) j r = self_lA s j r \<and>
            self_hA (snd (greedy_step B s i x xmin xmax init reg)) j r = self_hA s j r \<and>
            self_A (snd (least_greedy_step B s i x xmin xmax init reg)) j r c = self_A s j r c \<and>
            self_lA (snd (least_greedy_step B s i x xmin xmax init reg)) j r = self_lA s j r \<and>
            self_hA (snd (least_greedy_step B s i x xmin xmax init reg)) j r = self_hA s j r) \<and>
         self_l (snd (one_step B s i xmin xmax init)) = self_l s \<and>
         self_h (snd (one_step B s i xmin xmax init)) = self_h s \<and>
         self_l (snd (reach B s i xmin xmax init)) = self_l s \<and>
         self_h (snd (reach B s i xmin xmax init)) = self_h s \<and>
         self_l (snd (proj_x_admissible B s i xmin xmax init)) = self_l s \<and>
         self_h (snd (proj_x_admissible B s i xmin xmax init)) = self_h s \<and>
         self_l (snd (greedy_step B s i x xmin xmax init reg)) = self_l s \<and>
         self_h (snd (greedy_step B s i x xmin xmax init reg)) = self_h s \<and>
         self_l (snd (least_greedy_step B s i x xmin xmax init reg)) = self_l s \<and>
         self_h (snd (least_greedy_step B s i x xmin xmax init reg)) = self_h s"
proof -
  have a: "\<forall>j r c.
            self_A (reset_operational_rows s) j r c
              = (if r < self_nop s then Fl 0 else self_A s j r c) \<and>
            self_lA (reset_operational_rows s) j r
              = (if r < self_nop s then Fl 0 else self_lA s j r) \<and>
            self_hA (reset_operational_rows s) j r
              = (if r < self_nop s then Fl 0 else self_hA s j r) \<and>
            self_H (reset_operational_rows s) r c = Fl 0 \<and>
            self_g (reset_operational_rows s) c = Fl 0"
    by simp
  have b: "\<forall>j r c. 1 \<le> r \<longrightarrow>
            self_A (snd (reach B s i xmin xmax init)) j r c = self_A s j r c \<and>
            self_lA (snd (reach B s i xmin xmax init)) j r = self_lA s j r \<and>
            self_hA (snd (reach B s i xmin xmax init)) j r = self_hA s j r \<and>
            self_A (snd (proj_x_admissible B s i xmin xmax init)) j r c = self_A s j r c \<and>
            self_lA (snd (proj_x_admissible B s i xmin xmax init)) j r = self_lA s j r \<and>
            self_hA (snd (proj_x_admissible B s i xmin xmax init)) j r = self_hA s j r"
    by (simp add: reach_rows proj_x_admissible_rows)
  have c: "\<forall>k. 2 \<le> k \<longrightarrow>
            self_g (snd (reach B s i xmin xmax init)) k = self_g s k \<and>
            self_g (snd (proj_x_admissible B s i xmin xmax init)) k = self_g s k"
    by (simp add: reach_stale_g proj_x_admissible_stale_g)
  have d: "\<forall>j r c. 3 \<le> r \<longrightarrow>
            self_A (snd (one_step B s i xmin xmax init)) j r c = self_A s j r c \<and>
            self_lA (snd (one_step B s i xmin xmax init)) j r = self_lA s j r \<and>
            self_hA (snd (one_step B s i xmin xmax init)) j r = self_hA s j r \<and>
            self_A (snd (greedy_step B s i x xmin xmax init reg)) j r c = self_A s j r c \<and>
            self_lA (snd (greedy_step B s i x xmin xmax init reg)) j r = self_lA s j r \<and>
            self_hA (snd (greedy_step B s i x xmin xmax init reg)) j r = self_hA s j r \<and>
            self_A (snd (least_greedy_step B s i x xmin xmax init reg)) j r c = self_A s j r c \<and>
            self_lA (snd (least_greedy_step B s i x xmin xmax init reg)) j r = self_lA s j r \<and>
            self_hA (snd (least_greedy_step B s i x xmin xmax init reg)) j r = self_hA s j r"
    using assms by (simp add: one_step_rows greedy_step_rows least_greedy_step_rows)
  show ?thesis
    using a b c d by (simp add: reset_at_entry)
qed

text \<open>
  A run of the frame properties: on a freshly built object with one stage, a
  \<open>greedy_step\<close> leaves \<open>A[0, 1, 1] = 1\<close> in operational row 1, and a following
  \<open>reach\<close> still holds that stale cell, while row 3 is the one the object started with.
\<close>

theorem primitives_frame_witness:
  "\<exists>s. qpOASESPPSolver_init (scripted (\<lambda>p. (0, 0, 0, 0)) (\<lambda>p. (0, 0, 0, 0)))
          [no_constraint 1] False = Return s \<and>
     self_nop s = 3 \<and>
     self_nop (snd (greedy_step (scripted (\<lambda>p. (0, 0, 0, 0)) (\<lambda>p. (0, 0, 0, 0)))
        s 0 (Fl 0) (Fl 0) (Fl 1) True (Fl 0))) = 3 \<and>
     (1 :: nat) \<le> 1 \<and>
     self_A (snd (reach (scripted (\<lambda>p. (0, 0, 0, 0)) (\<lambda>p. (0, 0, 0, 0)))
        (snd (greedy_step (scripted (\<lambda>p. (0, 0, 0, 0)) (\<lambda>p. (0, 0, 0, 0)))
           s 0 (Fl 0) (Fl 0) (Fl 1) True (Fl 0)))
        0 (Fl 0) (Fl 1) True)) 0 1 1 = Fl 1 \<and>
     (3 :: nat) \<le> 3 \<and>
     self_A (snd (one_step (scripted (\<lambda>p. (0, 0, 0, 0)) (\<lambda>p. (0, 0, 0, 0)))
        s 0 (Fl 0) (Fl 1) True)) 0 3 0 = self_A s 0 3 0 \<and>
     self_A (snd (greedy_step (scripted (\<lambda>p. (0, 0, 0, 0)) (\<lambda>p. (0, 0, 0, 0)))
        s 0 (Fl 0) (Fl 0) (Fl 1) True (Fl 0))) 0 3 0 = self_A s 0 3 0 \<and>
     one_step (scripted (\<lambda>p. (0, 0, 0, 0)) (\<lambda>p. (0, 0, 0, 0)))
        (reset_operational_rows s) 0 (Fl 0) (Fl 1) True
       = one_step (scripted (\<lambda>p. (0, 0, 0, 0)) (\<lambda>p. (0, 0, 0, 0))) s 0 (Fl 0) (Fl 1) True"
proof -
  let ?B = "scripted (\<lambda>p. (0, 0, 0, 0)) (\<lambda>p. (0, 0, 0, 0))"
  obtain s where s: "qpOASESPPSolver_init ?B [no_constraint 1] False = Return s"
    using qpOASESPPSolver_init_no_constraint by blast
  have nop: "self_nop s = 3"
    by (rule qpOASESPPSolver_init_sel(8) [OF s])
  have N: "self_N s = 1"
    using qpOASESPPSolver_init_sel(1) [OF s] by (simp add: no_constraint_def)
  let ?s1 = "snd (greedy_step ?B s 0 (Fl 0) (Fl 0) (Fl 1) True (Fl 0))"
  have nop1: "self_nop ?s1 = 3"
    by (simp add: nop)
  have stale: "self_A ?s1 0 1 1 = Fl 1"
    by (simp add: greedy_step_def Let_def N nop split: prod.splits)
  have le: "(1 :: nat) \<le> 1" "(3 :: nat) \<le> 3"
    by simp_all
  show ?thesis
    using s nop nop1 stale le
      primitives_frame [OF nop1, of ?B 0 "Fl 0" "Fl 1" True]
      primitives_frame [OF nop, of ?B 0 "Fl 0" "Fl 1" True "Fl 0" "Fl 0"]
    by (intro exI [of _ s]) simp
qed

section \<open>The backward sweep, stage by stage\<close>

text \<open>
  Claim C1. When \<open>solve_controllable_sets\<close> returns true, the row \<open>K[N]\<close> it leaves is
  the pair \<open>proj_x_admissible(N, IN[0], IN[1], init=True)\<close> returned on the reset
  object, stored as it is, with no margin. For every stage \<open>i < N\<close>, in the object
  reached after the stages \<open>N-1, \<dots>, i+1\<close>, \<open>one_step(i, K[i+1][0], K[i+1][1])\<close> (a cold
  start exactly at \<open>i = N-1\<close>) returned a pair \<open>(lo, hi)\<close>, and the sweep left
  \<open>K[i][1] = hi - eps\<close> and \<open>K[i][0] = max(lo, 0)\<close>.
\<close>

theorem solve_controllable_sets_stages:
  assumes "solve_controllable_sets B s eps = (Return True, s')"
  shows "\<exists>xmin xmax s0.
     proj_x_admissible B
       ((reset_operational_rows s)
          \<lparr>self_nWSR_up := (\<lambda>k. self_nWSR_cnst s), self_nWSR_down := (\<lambda>k. self_nWSR_cnst s)\<rparr>)
       (self_N s) (fst (self_IN s)) (snd (self_IN s)) True
       = (Return (Some (xmin, xmax)), s0) \<and>
     self_K s' (self_N s) 0 = xmin \<and> self_K s' (self_N s) 1 = xmax \<and>
     (\<forall>i<self_N s. \<exists>\<sigma> lo hi \<sigma>'.
        controllable_loop B eps (rev [Suc i..<self_N s]) True
          (s0\<lparr>self_K := set2 (set2 (self_K s0) (self_N s) 1 xmax) (self_N s) 0 xmin\<rparr>)
          = (Return True, \<sigma>) \<and>
        one_step B \<sigma> i (self_K s' (i + 1) 0) (self_K s' (i + 1) 1) (i = self_N s - 1)
          = (Return (Some (lo, hi)), \<sigma>') \<and>
        self_K s' i 1 = fsub hi eps \<and> self_K s' i 0 = py_max lo (Fl 0))"
  using assms by (rule solve_controllable_sets_trace)

theorem solve_controllable_sets_stages_witness:
  "\<exists>s s'.
     qpOASESPPSolver_init
       (scripted (\<lambda>p. (0, 0, if qp_g p 1 = Fl (- 1) then 4 else 0, 0))
          (\<lambda>p. (0, 0, if qp_g p 1 = Fl (- 1) then 4 else 0, 0)))
       [no_constraint 2] False = Return s \<and>
     solve_controllable_sets
       (scripted (\<lambda>p. (0, 0, if qp_g p 1 = Fl (- 1) then 4 else 0, 0))
          (\<lambda>p. (0, 0, if qp_g p 1 = Fl (- 1) then 4 else 0, 0)))
       s eps_default = (Return True, s') \<and>
     self_K s' 2 0 = Fl 0 \<and> self_K s' 2 1 = Fl 4 \<and>
     self_K s' 1 0 = py_max (Fl 0) (Fl 0) \<and> self_K s' 1 1 = fsub (Fl 4) eps_default \<and>
     self_K s' 0 0 = py_max (Fl 0) (Fl 0) \<and> self_K s' 0 1 = fsub (Fl 4) eps_default"
proof -
  let ?f = "\<lambda>p. (0 :: int, 0 :: real, if qp_g p 1 = Fl (- 1) then 4 else 0 :: real, 0 :: real)"
  let ?B = "scripted ?f ?f"
  obtain s where s: "qpOASESPPSolver_init ?B [no_constraint 2] False = Return s"
    using qpOASESPPSolver_init_no_constraint by blast
  have N: "self_N s = 2"
    using qpOASESPPSolver_init_sel(1) [OF s] by (simp add: no_constraint_def)
  note ev = solve_scripted scripted_readouts one_step_outcome proj_x_admissible_outcome
    one_step_problem_def proj_problem_def SUCCESSFUL_RETURN_def SUPERTINY_def fgt_def Let_def
  have stages2: "rev [0..<2] = [1, 0 :: nat]"
    by (simp add: upt_rec)
  have run: "fst (solve_controllable_sets ?B s eps_default) = Return True"
    by (simp add: solve_controllable_sets_def N ev case_prod_beta stages2)
  obtain s' where s': "solve_controllable_sets ?B s eps_default = (Return True, s')"
    using run by (cases "solve_controllable_sets ?B s eps_default") simp
  from solve_controllable_sets_stages [OF s']
  obtain xmin xmax s0 where
    proj: "proj_x_admissible ?B
       ((reset_operational_rows s)
          \<lparr>self_nWSR_up := (\<lambda>k. self_nWSR_cnst s), self_nWSR_down := (\<lambda>k. self_nWSR_cnst s)\<rparr>)
       (self_N s) (fst (self_IN s)) (snd (self_IN s)) True
       = (Return (Some (xmin, xmax)), s0)" and
    KN: "self_K s' (self_N s) 0 = xmin" "self_K s' (self_N s) 1 = xmax" and
    stages: "\<forall>i<self_N s. \<exists>\<sigma> lo hi \<sigma>'.
        controllable_loop ?B eps_default (rev [Suc i..<self_N s]) True
          (s0\<lparr>self_K := set2 (set2 (self_K s0) (self_N s) 1 xmax) (self_N s) 0 xmin\<rparr>)
          = (Return True, \<sigma>) \<and>
        one_step ?B \<sigma> i (self_K s' (i + 1) 0) (self_K s' (i + 1) 1) (i = self_N s - 1)
          = (Return (Some (lo, hi)), \<sigma>') \<and>
        self_K s' i 1 = fsub hi eps_default \<and> self_K s' i 0 = py_max lo (Fl 0)"
    by blast
  have "fst (proj_x_admissible ?B
       ((reset_operational_rows s)
          \<lparr>self_nWSR_up := (\<lambda>k. self_nWSR_cnst s), self_nWSR_down := (\<lambda>k. self_nWSR_cnst s)\<rparr>)
       (self_N s) (fst (self_IN s)) (snd (self_IN s)) True) = Return (Some (Fl 0, Fl 4))"
    by (simp add: ev)
  then have x: "xmin = Fl 0" "xmax = Fl 4"
    using proj by simp_all
  have K: "self_K s' i 1 = fsub (Fl 4) eps_default \<and> self_K s' i 0 = py_max (Fl 0) (Fl 0)"
    if i: "i < 2" for i
  proof -
    from stages i N obtain \<sigma> lo hi \<sigma>' where
      pre: "controllable_loop ?B eps_default (rev [Suc i..<self_N s]) True
          (s0\<lparr>self_K := set2 (set2 (self_K s0) (self_N s) 1 xmax) (self_N s) 0 xmin\<rparr>)
          = (Return True, \<sigma>)" and
      one: "one_step ?B \<sigma> i (self_K s' (i + 1) 0) (self_K s' (i + 1) 1) (i = self_N s - 1)
          = (Return (Some (lo, hi)), \<sigma>')" and
      Ki: "self_K s' i 1 = fsub hi eps_default" "self_K s' i 0 = py_max lo (Fl 0)"
      by auto
    have "same_setup s s0"
      using same_frame_setup [OF proj_x_admissible_frameD [OF proj]] by (simp add: same_setup_def)
    then have "self_N s0 = 2" using N by (simp add: same_setup_def)
    moreover have "\<sigma> = snd (controllable_loop ?B eps_default (rev [Suc i..<self_N s]) True
          (s0\<lparr>self_K := set2 (set2 (self_K s0) (self_N s) 1 xmax) (self_N s) 0 xmin\<rparr>))"
      using pre by simp
    ultimately have N\<sigma>: "self_N \<sigma> = 2" by simp
    have "fst (one_step ?B \<sigma> i (self_K s' (i + 1) 0) (self_K s' (i + 1) 1) (i = self_N s - 1))
        = Return (Some (Fl 0, Fl 4))"
      using i N\<sigma> by (simp add: ev)
    then have "lo = Fl 0" "hi = Fl 4" using one by simp_all
    then show ?thesis using Ki by simp
  qed
  show ?thesis
    using s s' KN x N K [of 0] K [of 1] by (intro exI [of _ s] exI [of _ s']) simp
qed


section \<open>The feasibility check of \<open>solve_topp\<close>\<close>




section \<open>The forward pass, stage by stage\<close>

text \<open>
  Claim C5. When \<open>solve_topp\<close> returns the arrays \<open>us\<close> and \<open>xs\<close>, the backward sweep
  has returned true and left an object \<open>s1\<close>, and \<open>xs[0]\<close> is \<open>min(K[0][1], I0[1])\<close>
  read there; \<open>I0[0]\<close> does not enter. One \<open>greedy_step\<close> at stage 0 with
  \<open>init=True\<close> comes first; its returned pair is dropped and only the object \<open>s0\<close> it
  leaves is passed on. The loop over the stages \<open>0, \<dots>, N-1\<close> then starts from \<open>s0\<close>
  with \<open>us\<close> all zero and \<open>xs\<close> zero but for \<open>xs[0]\<close>, and ends with the arrays and
  the object \<open>solve_topp\<close> returns. For every \<open>i < N\<close>, in the object reached after the
  stages \<open>0, \<dots>, i-1\<close>, \<open>greedy_step(i, xs[i], K[i+1][0], K[i+1][1], init=False)\<close>
  returned a result, and \<open>us[i]\<close> and \<open>xs[i+1]\<close> are its two components as the float
  arrays store them.
\<close>

theorem solve_topp_forward_pass:
  assumes "solve_topp B s save_solutions reg = (Return (us, xs), s')"
  shows "\<exists>s1.
     solve_controllable_sets B
       (if save_solutions
        then s\<lparr>self_xfulls := Map.empty, self_yfulls := Map.empty\<rparr> else s)
       eps_default = (Return True, s1) \<and>
     xs 0 = py_min (self_K s1 0 1) (snd (self_I0 s)) \<and>
     (\<exists>r0 s0.
        greedy_step B s1 0 (xs 0) (self_K s1 1 0) (self_K s1 1 1) True reg = (Return r0, s0) \<and>
        forward_loop B save_solutions reg [0..<self_N s] (\<lambda>k. Fl 0, (\<lambda>k. Fl 0)(0 := xs 0)) s0
          = (Return (us, xs), s') \<and>
        (\<forall>i<self_N s. \<exists>usi xsi \<sigma> r \<sigma>'.
           forward_loop B save_solutions reg [0..<i] (\<lambda>k. Fl 0, (\<lambda>k. Fl 0)(0 := xs 0)) s0
             = (Return (usi, xsi), \<sigma>) \<and>
           greedy_step B \<sigma> i (xs i) (self_K s1 (i + 1) 0) (self_K s1 (i + 1) 1) False reg
             = (Return r, \<sigma>') \<and>
           us i = store_float (map_option fst r) \<and>
           xs (i + 1) = store_float (map_option snd r)))"
proof -
  let ?s0 = "if save_solutions
             then s\<lparr>self_xfulls := Map.empty, self_yfulls := Map.empty\<rparr> else s"
  obtain r s1 where sweep0: "solve_controllable_sets B ?s0 eps_default = (r, s1)"
    by (cases "solve_controllable_sets B ?s0 eps_default") blast
  have "r = Return True \<and> forward_pass B save_solutions reg s1 = (Return (us, xs), s')"
    using assms sweep0
    by (cases r; cases save_solutions)
      (auto simp add: solve_topp_def Let_def split: if_splits)
  then have sweep: "solve_controllable_sets B ?s0 eps_default = (Return True, s1)"
    and fp: "forward_pass B save_solutions reg s1 = (Return (us, xs), s')"
    using sweep0 by simp_all
  have "s1 = snd (solve_controllable_sets B ?s0 eps_default)"
    using sweep by simp
  then have fr: "self_I0 s1 = self_I0 s" "self_N s1 = self_N s"
    by simp_all
  let ?x0 = "py_min (self_K s1 0 1) (snd (self_I0 s1))"
  let ?ux = "(\<lambda>k. Fl 0, (\<lambda>k. Fl 0)(0 := ?x0)) :: vec \<times> vec"
  from forward_pass_trace [OF fp] obtain r0 s0 where
    x0: "xs 0 = ?x0" and
    warm: "greedy_step B s1 0 (xs 0) (self_K s1 1 0) (self_K s1 1 1) True reg = (Return r0, s0)" and
    stages: "\<forall>i<self_N s1. \<exists>usi xsi \<sigma> r \<sigma>'.
           forward_loop B save_solutions reg [0..<i] (\<lambda>k. Fl 0, (\<lambda>k. Fl 0)(0 := xs 0)) s0
             = (Return (usi, xsi), \<sigma>) \<and>
           greedy_step B \<sigma> i (xs i) (self_K s1 (i + 1) 0) (self_K s1 (i + 1) 1) False reg
             = (Return r, \<sigma>') \<and>
           us i = store_float (map_option fst r) \<and>
           xs (i + 1) = store_float (map_option snd r)"
    by blast
  have "same_frame s1 s0"
    by (rule greedy_step_frameD [OF warm])
  then have N0: "self_N s0 = self_N s1"
    by (simp add: same_frame_def)
  have "forward_loop B save_solutions reg [0..<self_N s0] ?ux s0 = (Return (us, xs), s')"
    using fp warm x0
    by (auto simp add: forward_pass_def Let_def split: if_splits prod.splits outcome.splits)
  then have loop: "forward_loop B save_solutions reg [0..<self_N s]
      (\<lambda>k. Fl 0, (\<lambda>k. Fl 0)(0 := xs 0)) s0 = (Return (us, xs), s')"
    using N0 fr x0 by simp
  show ?thesis
    using sweep x0 warm loop stages unfolding fr by blast
qed

theorem solve_topp_forward_pass_witness:
  "\<exists>s s1 us xs s'.
     qpOASESPPSolver_init (fixed_answers 0 4 1 0) [no_constraint 2] False = Return s \<and>
     solve_topp (fixed_answers 0 4 1 0) s False (Fl 0) = (Return (us, xs), s') \<and>
     solve_controllable_sets (fixed_answers 0 4 1 0) s eps_default = (Return True, s1) \<and>
     xs 0 = py_min (self_K s1 0 1) (snd (self_I0 s)) \<and>
     xs 0 = Fl (1 / 10 ^ 4) \<and>
     (\<exists>r0 s0 usi xsi \<sigma> r \<sigma>'.
        greedy_step (fixed_answers 0 4 1 0) s1 0 (xs 0) (self_K s1 1 0) (self_K s1 1 1)
          True (Fl 0) = (Return r0, s0) \<and>
        forward_loop (fixed_answers 0 4 1 0) False (Fl 0) [0..<self_N s]
          (\<lambda>k. Fl 0, (\<lambda>k. Fl 0)(0 := xs 0)) s0 = (Return (us, xs), s') \<and>
        forward_loop (fixed_answers 0 4 1 0) False (Fl 0) [0..<1]
          (\<lambda>k. Fl 0, (\<lambda>k. Fl 0)(0 := xs 0)) s0 = (Return (usi, xsi), \<sigma>) \<and>
        greedy_step (fixed_answers 0 4 1 0) \<sigma> 1 (xs 1) (self_K s1 (1 + 1) 0)
          (self_K s1 (1 + 1) 1) False (Fl 0) = (Return r, \<sigma>') \<and>
        us 1 = store_float (map_option fst r) \<and>
        xs (1 + 1) = store_float (map_option snd r)) \<and>
     us 0 = Fl 1 \<and> us 1 = Fl 1 \<and> xs 1 = Fl (1 + 1 / 10 ^ 4) \<and> xs 2 = Fl (2 + 1 / 10 ^ 4)"
proof -
  let ?B = "fixed_answers 0 4 1 0"
  from two_stage_run obtain s us xs s' where
    s: "qpOASESPPSolver_init ?B [no_constraint 2] False = Return s" and
    run: "solve_topp ?B s False (Fl 0) = (Return (us, xs), s')" and
    N: "self_N s = 2" and
    v: "xs 0 = Fl (1 / 10 ^ 4)" "us 0 = Fl 1" "us 1 = Fl 1" "xs 1 = Fl (1 + 1 / 10 ^ 4)"
      "xs 2 = Fl (2 + 1 / 10 ^ 4)"
    by blast
  have pre: "(if False then x\<lparr>self_xfulls := Map.empty, self_yfulls := Map.empty\<rparr> else x) = x"
    for x :: "reply qpOASESPPSolver"
    by simp
  from solve_topp_forward_pass [OF run, unfolded pre] obtain s1 r0 s0 where
    s1: "solve_controllable_sets ?B s eps_default = (Return True, s1)" and
    x0: "xs 0 = py_min (self_K s1 0 1) (snd (self_I0 s))" and
    warm: "greedy_step ?B s1 0 (xs 0) (self_K s1 1 0) (self_K s1 1 1) True (Fl 0)
             = (Return r0, s0)" and
    loop: "forward_loop ?B False (Fl 0) [0..<self_N s] (\<lambda>k. Fl 0, (\<lambda>k. Fl 0)(0 := xs 0)) s0
             = (Return (us, xs), s')" and
    stages: "\<forall>i<self_N s. \<exists>usi xsi \<sigma> r \<sigma>'.
           forward_loop ?B False (Fl 0) [0..<i] (\<lambda>k. Fl 0, (\<lambda>k. Fl 0)(0 := xs 0)) s0
             = (Return (usi, xsi), \<sigma>) \<and>
           greedy_step ?B \<sigma> i (xs i) (self_K s1 (i + 1) 0) (self_K s1 (i + 1) 1) False (Fl 0)
             = (Return r, \<sigma>') \<and>
           us i = store_float (map_option fst r) \<and>
           xs (i + 1) = store_float (map_option snd r)"
    by blast
  have "(1 :: nat) < self_N s" using N by simp
  with stages obtain usi xsi \<sigma> r \<sigma>' where
    st1: "forward_loop ?B False (Fl 0) [0..<1] (\<lambda>k. Fl 0, (\<lambda>k. Fl 0)(0 := xs 0)) s0
             = (Return (usi, xsi), \<sigma>)"
      "greedy_step ?B \<sigma> 1 (xs 1) (self_K s1 (1 + 1) 0) (self_K s1 (1 + 1) 1) False (Fl 0)
             = (Return r, \<sigma>')"
      "us 1 = store_float (map_option fst r)"
      "xs (1 + 1) = store_float (map_option snd r)"
    by blast
  show ?thesis
    using s run s1 x0 v warm loop st1 by blast
qed
section \<open>The dynamics along the returned profile\<close>

text \<open>
  Claim C4, as stated, fails: \<open>greedy_step\<close> returns \<open>x + 2 * Ds[i] * u\<close> only when
  that value is not negative, and that value plus \<open>SUPERTINY\<close> when it is negative
  (the assertion before it bounds it from below by \<open>-SUPERTINY\<close>). In the run below the
  solver leaves the next state at \<open>-5e-11\<close>, and the returned \<open>xs[1]\<close> is \<open>5e-11\<close>.
\<close>

theorem solve_topp_dynamics_counterexample:
  "\<exists>s us xs s'.
     qpOASESPPSolver_init (fixed_answers 0 4 (- (1 / 10 ^ 4 + 5 / 10 ^ 11) / 2) 0)
       [no_constraint 1] False = Return s \<and>
     solve_topp (fixed_answers 0 4 (- (1 / 10 ^ 4 + 5 / 10 ^ 11) / 2) 0) s False (Fl 0)
       = (Return (us, xs), s') \<and>
     0 < self_N s \<and>
     us 0 = Fl (- (1 / 10 ^ 4 + 5 / 10 ^ 11) / 2) \<and>
     xs 0 = Fl (1 / 10 ^ 4) \<and>
     xs (0 + 1) = Fl (5 / 10 ^ 11) \<and>
     fadd (xs 0) (fmul (fmul (Fl 2) (self_Ds s 0)) (us 0)) = Fl (- 5 / 10 ^ 11) \<and>
     xs (0 + 1) \<noteq> fadd (xs 0) (fmul (fmul (Fl 2) (self_Ds s 0)) (us 0))"
proof -
  from snap_run obtain s us xs s' where
    run: "qpOASESPPSolver_init (fixed_answers 0 4 (- (1 / 10 ^ 4 + 5 / 10 ^ 11) / 2) 0)
       [no_constraint 1] False = Return s"
     "solve_topp (fixed_answers 0 4 (- (1 / 10 ^ 4 + 5 / 10 ^ 11) / 2) 0) s False (Fl 0)
       = (Return (us, xs), s')" and
    v: "self_N s = 1" "self_Ds s 0 = Fl 1"
     "us 0 = Fl (- (1 / 10 ^ 4 + 5 / 10 ^ 11) / 2)" "xs 0 = Fl (1 / 10 ^ 4)"
     "xs 1 = Fl (5 / 10 ^ 11)"
    by blast
  show ?thesis
    using run v by (intro exI [of _ s] exI [of _ us] exI [of _ xs] exI [of _ s']) simp
qed

text \<open>
  Claim C4, amended. After a successful \<open>solve_topp\<close>, for every \<open>i < N\<close> whose returned
  control \<open>us[i]\<close> is a number, the value \<open>y = xs[i] + 2 * Ds[i] * us[i]\<close> satisfies
  \<open>y + SUPERTINY \<ge> 0\<close>, and \<open>xs[i+1]\<close> is \<open>y\<close> when \<open>y\<close> is not negative and
  \<open>y + SUPERTINY\<close> when it is.
\<close>

theorem solve_topp_dynamics:
  assumes "solve_topp B s save_solutions reg = (Return (us, xs), s')"
  shows "\<forall>i<self_N s. us i \<noteq> NaN \<longrightarrow>
     fge (fadd (fadd (xs i) (fmul (fmul (Fl 2) (self_Ds s i)) (us i))) SUPERTINY) (Fl 0) \<and>
     xs (i + 1) =
       (if flt (fadd (xs i) (fmul (fmul (Fl 2) (self_Ds s i)) (us i))) (Fl 0)
        then fadd (fadd (xs i) (fmul (fmul (Fl 2) (self_Ds s i)) (us i))) SUPERTINY
        else fadd (xs i) (fmul (fmul (Fl 2) (self_Ds s i)) (us i)))"
proof -
  let ?s0 = "if save_solutions
             then s\<lparr>self_xfulls := Map.empty, self_yfulls := Map.empty\<rparr> else s"
  let ?s1 = "snd (solve_controllable_sets B ?s0 eps_default)"
  have fp: "forward_pass B save_solutions reg ?s1 = (Return (us, xs), s')"
    using assms
    by (auto simp add: solve_topp_def Let_def split: prod.splits outcome.splits if_splits)
  have "self_N ?s1 = self_N s" "self_Ds ?s1 = self_Ds s"
    by simp_all
  then show ?thesis
    using forward_pass_step_value [OF fp] by simp
qed

theorem solve_topp_dynamics_witness:
  "\<exists>s us xs s'.
     qpOASESPPSolver_init (fixed_answers 0 4 (- (1 / 10 ^ 4 + 5 / 10 ^ 11) / 2) 0)
       [no_constraint 1] False = Return s \<and>
     solve_topp (fixed_answers 0 4 (- (1 / 10 ^ 4 + 5 / 10 ^ 11) / 2) 0) s False (Fl 0)
       = (Return (us, xs), s') \<and>
     0 < self_N s \<and> us 0 \<noteq> NaN \<and>
     flt (fadd (xs 0) (fmul (fmul (Fl 2) (self_Ds s 0)) (us 0))) (Fl 0) \<and>
     fge (fadd (fadd (xs 0) (fmul (fmul (Fl 2) (self_Ds s 0)) (us 0))) SUPERTINY) (Fl 0) \<and>
     xs (0 + 1) = fadd (fadd (xs 0) (fmul (fmul (Fl 2) (self_Ds s 0)) (us 0))) SUPERTINY"
proof -
  from snap_run obtain s us xs s' where
    run: "qpOASESPPSolver_init (fixed_answers 0 4 (- (1 / 10 ^ 4 + 5 / 10 ^ 11) / 2) 0)
       [no_constraint 1] False = Return s"
     "solve_topp (fixed_answers 0 4 (- (1 / 10 ^ 4 + 5 / 10 ^ 11) / 2) 0) s False (Fl 0)
       = (Return (us, xs), s')" and
    v: "self_N s = 1" "self_Ds s 0 = Fl 1"
     "us 0 = Fl (- (1 / 10 ^ 4 + 5 / 10 ^ 11) / 2)" "xs 0 = Fl (1 / 10 ^ 4)"
    by blast
  have N: "0 < self_N s" and u: "us 0 \<noteq> NaN"
    and neg: "flt (fadd (xs 0) (fmul (fmul (Fl 2) (self_Ds s 0)) (us 0))) (Fl 0)"
    using v by simp_all
  from solve_topp_dynamics [OF run(2)] N u neg
  have "fge (fadd (fadd (xs 0) (fmul (fmul (Fl 2) (self_Ds s 0)) (us 0))) SUPERTINY) (Fl 0) \<and>
     xs (0 + 1) = fadd (fadd (xs 0) (fmul (fmul (Fl 2) (self_Ds s 0)) (us 0))) SUPERTINY"
    by (auto simp del: fadd.simps fmul.simps)
  then show ?thesis
    using run N u neg by blast
qed

section \<open>An infeasible step of the forward pass\<close>

text \<open>
  Claim C3 says that \<open>solve_topp\<close> raises when a \<open>greedy_step\<close> of the forward loop is
  infeasible. The loop has no such check: when \<open>greedy_step\<close> returns \<open>(None, None)\<close>
  at a stage \<open>i < N\<close>, the loop stores \<open>NaN\<close> in \<open>us[i]\<close> and \<open>xs[i+1]\<close> and goes on
  with the remaining stages; when \<open>i\<close> is the last stage it returns the two arrays.
  In the run below the hot start of stage 0 stops with status 61, and \<open>solve_topp\<close>
  returns \<open>us = [nan]\<close> and \<open>xs = [1e-4, nan]\<close>.
\<close>

theorem forward_loop_infeasible_step:
  assumes "i < self_N s"
    and "greedy_step B s i (xs i) (self_K s (i + 1) 0) (self_K s (i + 1) 1) False reg
           = (Return None, s1)"
  shows "forward_loop B save_solutions reg (i # stages) (us, xs) s
           = forward_loop B save_solutions reg stages (us(i := NaN), xs(i + 1 := NaN))
               (if save_solutions
                then s1\<lparr>self_xfulls := (self_xfulls s1)(i \<mapsto> self_xfull s1)\<rparr> else s1) \<and>
         forward_loop B save_solutions reg [i] (us, xs) s
           = (Return (us(i := NaN), xs(i + 1 := NaN)),
              if save_solutions
              then s1\<lparr>self_xfulls := (self_xfulls s1)(i \<mapsto> self_xfull s1)\<rparr> else s1)"
  using assms by (simp add: Let_def)

theorem forward_loop_infeasible_step_witness:
  "\<exists>s us xs s'.
     qpOASESPPSolver_init (fixed_answers 0 4 1 61) [no_constraint 1] False = Return s \<and>
     solve_topp (fixed_answers 0 4 1 61) s False (Fl 0) = (Return (us, xs), s') \<and>
     us 0 = NaN \<and> xs 0 = Fl (1 / 10 ^ 4) \<and> xs 1 = NaN"
proof -
  let ?B = "fixed_answers 0 4 1 61"
  obtain s where s: "qpOASESPPSolver_init ?B [no_constraint 1] False = Return s"
    using qpOASESPPSolver_init_no_constraint by blast
  note sel = qpOASESPPSolver_init_sel [OF s]
  have N: "self_N s = 1"
    using sel(1) by (simp add: no_constraint_def)
  have Ds: "self_Ds s 0 = Fl 1"
    by (simp add: sel(3) no_constraint_def)
  note ev = fixed_answers_def solve_scripted scripted_readouts one_step_outcome
    proj_x_admissible_outcome greedy_step_outcome one_step_problem_def proj_problem_def
    greedy_problem_def SUCCESSFUL_RETURN_def SUPERTINY_def fgt_def fge_def Let_def
    case_prod_beta
  have run: "fst (solve_controllable_sets ?B s eps_default) = Return True"
    and K0: "self_K (snd (solve_controllable_sets ?B s eps_default)) 0 1
               = Fl (4 - 1 / 10 ^ 14)"
      "self_K (snd (solve_controllable_sets ?B s eps_default)) 0 0 = Fl 0"
      "self_K (snd (solve_controllable_sets ?B s eps_default)) 1 0 = Fl 0"
      "self_K (snd (solve_controllable_sets ?B s eps_default)) 1 1 = Fl 4"
    by (simp_all add: N ev solve_controllable_sets_def eps_default_def py_max_def)
  obtain s1 where s1: "solve_controllable_sets ?B s eps_default = (Return True, s1)"
    using run by (cases "solve_controllable_sets ?B s eps_default") simp
  have K: "self_K s1 0 1 = Fl (4 - 1 / 10 ^ 14)" "self_K s1 0 0 = Fl 0"
      "self_K s1 1 0 = Fl 0" "self_K s1 1 1 = Fl 4"
    using K0 s1 by simp_all
  have "s1 = snd (solve_controllable_sets ?B s eps_default)"
    using s1 by simp
  then have N1: "self_N s1 = 1" "self_Ds s1 0 = Fl 1" "self_I0 s1 = (Fl 0, Fl (1 / 10 ^ 4))"
    using N Ds sel(4) by simp_all
  have top: "solve_topp ?B s False (Fl 0) = forward_pass ?B False (Fl 0) s1"
    using s1 K N1 by (simp add: solve_topp_def Let_def fgt_def)
  let ?x0 = "Fl (1 / 10 ^ 4)"
  let ?xs = "(\<lambda>k. Fl 0)(0 := ?x0) :: vec"
  let ?us = "(\<lambda>k. Fl 0) :: vec"
  have x0: "py_min (self_K s1 0 1) (snd (self_I0 s1)) = ?x0"
    using K N1 by (simp add: py_min_def)
  have warm: "\<exists>r0. fst (greedy_step ?B s1 0 ?x0 (self_K s1 1 0) (self_K s1 1 1) True (Fl 0))
      = Return r0"
    using K N1 by (simp add: ev)
  then obtain r0 s0 where
    w: "greedy_step ?B s1 0 ?x0 (self_K s1 1 0) (self_K s1 1 1) True (Fl 0) = (Return r0, s0)"
    by (cases "greedy_step ?B s1 0 ?x0 (self_K s1 1 0) (self_K s1 1 1) True (Fl 0)") auto
  have fr: "same_frame s1 s0"
    by (rule greedy_step_frameD [OF w])
  have N0: "self_N s0 = 1" and K0': "self_K s0 = self_K s1"
    using fr N1 by (simp_all add: same_frame_def)
  have "fst (greedy_step ?B s0 0 (?xs 0) (self_K s0 (0 + 1) 0) (self_K s0 (0 + 1) 1)
      False (Fl 0)) = Return None"
    using N0 by (simp add: ev)
  then obtain s2 where
    hot: "greedy_step ?B s0 0 (?xs 0) (self_K s0 (0 + 1) 0) (self_K s0 (0 + 1) 1) False (Fl 0)
      = (Return None, s2)"
    by (cases "greedy_step ?B s0 0 (?xs 0) (self_K s0 (0 + 1) 0) (self_K s0 (0 + 1) 1)
      False (Fl 0)") auto
  have pos: "0 < self_N s0" using N0 by simp
  from forward_loop_infeasible_step [where i = 0 and s = s0 and xs = ?xs and B = ?B
      and reg = "Fl 0" and ?s1.0 = s2 and save_solutions = False and stages = "[]"
      and us = ?us, OF pos hot]
  have loop: "forward_loop ?B False (Fl 0) [0] (?us, ?xs) s0
      = (Return (?us(0 := NaN), ?xs(0 + 1 := NaN)), s2)"
    by simp
  have "forward_pass ?B False (Fl 0) s1 = (Return (?us(0 := NaN), ?xs(0 + 1 := NaN)), s2)"
    using w loop N1 N0 x0 by (simp add: forward_pass_def Let_def)
  then show ?thesis
    using s top
    by (intro exI [of _ s] exI [of _ "?us(0 := NaN)"] exI [of _ "?xs(0 + 1 := NaN)"]
        exI [of _ s2]) simp
qed


section \<open>The exposed rows \<open>K\<close> and \<open>L\<close>\<close>

text \<open>
  Claim C10. \<open>K\<close> and \<open>L\<close> are exactly the rows of the internal arrays whose lower end
  point exceeds \<open>-TINY\<close>, in order, and both are empty on a freshly constructed object.
  A backward sweep that fails either fails in the projection at stage \<open>N\<close> and leaves
  \<open>K\<close> as it was, or fails in \<open>one_step\<close> at a stage \<open>m < N\<close> after the stages
  \<open>N-1, \<dots>, m+1\<close> succeeded; then the rows \<open>0..m\<close> are as they were, so that on fresh
  arrays exactly the rows above \<open>m\<close> whose lower end point exceeds \<open>-TINY\<close> are
  exposed. A forward sweep that fails either fails in the projection at stage 0, or
  fails in \<open>reach\<close> or in the projection at a stage \<open>m < N\<close> after the stages
  \<open>0, \<dots>, m-1\<close> succeeded; then the rows above \<open>m\<close> are as they were, so that on
  fresh arrays only rows \<open>0..m\<close> are exposed. The last part of the claim does not hold
  of the code: a successful backward sweep stores \<open>max(lo, 0)\<close> as the lower end point
  of every row \<open>i < N\<close>, but row \<open>N\<close> holds the \<open>x\<close> component the down solver
  reported to \<open>proj_x_admissible\<close>, as it is, and so does every row a successful
  forward sweep stores; such a row is exposed only if that value exceeds \<open>-TINY\<close>,
  and its lower end point can be negative. The source clamps the rows \<open>i < N\<close> under
  the comment \<open>Negative end-point not allowed\<close>; the store of row \<open>N\<close> has no such
  clamp.
\<close>

theorem exposed_rows:
  "K s = map (\<lambda>i. (self_K s i 0, self_K s i 1))
           (filter (\<lambda>i. fgt (self_K s i 0) (fneg TINY)) [0..<self_N s + 1]) \<and>
   L s = map (\<lambda>i. (self_L s i 0, self_L s i 1))
           (filter (\<lambda>i. fgt (self_L s i 0) (fneg TINY)) [0..<self_N s + 1]) \<and>
   (qpOASESPPSolver_init B cs verbose = Return s0 \<longrightarrow> K s0 = [] \<and> L s0 = []) \<and>
   (solve_controllable_sets B s eps = (Return False, s1) \<longrightarrow>
      (proj_x_admissible B
         ((reset_operational_rows s)
            \<lparr>self_nWSR_up := (\<lambda>k. self_nWSR_cnst s),
             self_nWSR_down := (\<lambda>k. self_nWSR_cnst s)\<rparr>)
         (self_N s) (fst (self_IN s)) (snd (self_IN s)) True = (Return None, s1) \<and>
       self_K s1 = self_K s \<and> K s1 = K s) \<or>
      (\<exists>m<self_N s. \<exists>xmin xmax p \<sigma>.
         proj_x_admissible B
           ((reset_operational_rows s)
              \<lparr>self_nWSR_up := (\<lambda>k. self_nWSR_cnst s),
               self_nWSR_down := (\<lambda>k. self_nWSR_cnst s)\<rparr>)
           (self_N s) (fst (self_IN s)) (snd (self_IN s)) True
           = (Return (Some (xmin, xmax)), p) \<and>
         controllable_loop B eps (rev [Suc m..<self_N s]) True
           (p\<lparr>self_K := set2 (set2 (self_K p) (self_N s) 1 xmax) (self_N s) 0 xmin\<rparr>)
           = (Return True, \<sigma>) \<and>
         one_step B \<sigma> m (self_K \<sigma> (m + 1) 0) (self_K \<sigma> (m + 1) 1) (m = self_N s - 1)
           = (Return None, s1) \<and>
         (\<forall>j\<le>m. self_K s1 j = self_K s j) \<and>
         (\<forall>j. m < j \<and> j < self_N s \<longrightarrow> fge (self_K s1 j 0) (Fl 0)) \<and>
         self_K s1 (self_N s) 0 = xmin \<and>
         (self_K s = (\<lambda>i j. Fl (- 1)) \<longrightarrow>
            K s1 = map (\<lambda>i. (self_K s1 i 0, self_K s1 i 1))
                     (if fgt xmin (fneg TINY)
                      then [Suc m..<self_N s + 1] else [Suc m..<self_N s])))) \<and>
   (solve_reachable_sets B s = (Return False, s2) \<longrightarrow>
      (proj_x_admissible B (reset_operational_rows s) 0 (fst (self_I0 s)) (snd (self_I0 s))
         True = (Return None, s2) \<and>
       self_L s2 = self_L s \<and> L s2 = L s) \<or>
      (\<exists>m<self_N s. \<exists>xmin xmax p \<sigma>.
         proj_x_admissible B (reset_operational_rows s) 0 (fst (self_I0 s))
           (snd (self_I0 s)) True = (Return (Some (xmin, xmax)), p) \<and>
         reachable_loop B [0..<m]
           (p\<lparr>self_L := set2 (set2 (self_L p) 0 1 xmax) 0 0 xmin\<rparr>) = (Return True, \<sigma>) \<and>
         (reach B \<sigma> m (self_L \<sigma> m 0) (self_L \<sigma> m 1) (m \<le> 1) = (Return None, s2) \<or>
          (\<exists>a b \<sigma>1.
             reach B \<sigma> m (self_L \<sigma> m 0) (self_L \<sigma> m 1) (m \<le> 1)
               = (Return (Some (a, b)), \<sigma>1) \<and>
             proj_x_admissible B \<sigma>1 (m + 1) a b (m \<le> 1) = (Return None, s2))) \<and>
         (\<forall>j>m. self_L s2 j = self_L s j) \<and>
         (self_L s = (\<lambda>i j. Fl (- 1)) \<longrightarrow>
            L s2 = map (\<lambda>i. (self_L s2 i 0, self_L s2 i 1))
                     (filter (\<lambda>i. fgt (self_L s2 i 0) (fneg TINY)) [0..<m + 1])))) \<and>
   (solve_controllable_sets B s eps = (Return True, s3) \<longrightarrow>
      (\<forall>i<self_N s. fge (self_K s3 i 0) (Fl 0)) \<and>
      (\<exists>xmin xmax p.
         proj_x_admissible B
           ((reset_operational_rows s)
              \<lparr>self_nWSR_up := (\<lambda>k. self_nWSR_cnst s),
               self_nWSR_down := (\<lambda>k. self_nWSR_cnst s)\<rparr>)
           (self_N s) (fst (self_IN s)) (snd (self_IN s)) True
           = (Return (Some (xmin, xmax)), p) \<and>
         self_K s3 (self_N s) 0 = xmin \<and>
         xmin = Fl (sq_getPrimalSolution B (self_solver_down p) 1)) \<and>
      K s3 = map (\<lambda>i. (self_K s3 i 0, self_K s3 i 1))
               (if fgt (self_K s3 (self_N s) 0) (fneg TINY)
                then [0..<self_N s + 1] else [0..<self_N s])) \<and>
   (solve_reachable_sets B s = (Return True, s4) \<longrightarrow>
      (\<exists>xmin xmax p.
         proj_x_admissible B (reset_operational_rows s) 0 (fst (self_I0 s))
           (snd (self_I0 s)) True = (Return (Some (xmin, xmax)), p) \<and>
         self_L s4 0 0 = xmin \<and>
         xmin = Fl (sq_getPrimalSolution B (self_solver_down p) 1) \<and>
         (\<forall>i<self_N s. \<exists>\<sigma> a b \<sigma>1 lo hi \<sigma>2.
            reachable_loop B [0..<i]
              (p\<lparr>self_L := set2 (set2 (self_L p) 0 1 xmax) 0 0 xmin\<rparr>) = (Return True, \<sigma>) \<and>
            reach B \<sigma> i (self_L s4 i 0) (self_L s4 i 1) (i \<le> 1)
              = (Return (Some (a, b)), \<sigma>1) \<and>
            proj_x_admissible B \<sigma>1 (i + 1) a b (i \<le> 1) = (Return (Some (lo, hi)), \<sigma>2) \<and>
            self_L s4 (i + 1) 0 = lo \<and>
            lo = Fl (sq_getPrimalSolution B (self_solver_down \<sigma>2) 1))) \<and>
      L s4 = map (\<lambda>i. (self_L s4 i 0, self_L s4 i 1))
               (filter (\<lambda>i. fgt (self_L s4 i 0) (fneg TINY)) [0..<self_N s + 1]))"
proof -
  let ?entry = "(reset_operational_rows s)
            \<lparr>self_nWSR_up := (\<lambda>k. self_nWSR_cnst s),
             self_nWSR_down := (\<lambda>k. self_nWSR_cnst s)\<rparr>"
  let ?N = "self_N s"
  have a: "K s = map (\<lambda>i. (self_K s i 0, self_K s i 1))
           (filter (\<lambda>i. fgt (self_K s i 0) (fneg TINY)) [0..<?N + 1])"
    "L s = map (\<lambda>i. (self_L s i 0, self_L s i 1))
           (filter (\<lambda>i. fgt (self_L s i 0) (fneg TINY)) [0..<?N + 1])"
    by (simp_all add: K_def L_def)
  have b: "K s0 = [] \<and> L s0 = []" if "qpOASESPPSolver_init B cs verbose = Return s0"
    using qpOASESPPSolver_init_sel(6,7) [OF that] hidden_minus_one
    by (simp add: K_def L_def)
  have c: "(proj_x_admissible B ?entry ?N (fst (self_IN s)) (snd (self_IN s)) True
              = (Return None, s1) \<and>
       self_K s1 = self_K s \<and> K s1 = K s) \<or>
      (\<exists>m<?N. \<exists>xmin xmax p \<sigma>.
         proj_x_admissible B ?entry ?N (fst (self_IN s)) (snd (self_IN s)) True
           = (Return (Some (xmin, xmax)), p) \<and>
         controllable_loop B eps (rev [Suc m..<?N]) True
           (p\<lparr>self_K := set2 (set2 (self_K p) ?N 1 xmax) ?N 0 xmin\<rparr>)
           = (Return True, \<sigma>) \<and>
         one_step B \<sigma> m (self_K \<sigma> (m + 1) 0) (self_K \<sigma> (m + 1) 1) (m = ?N - 1)
           = (Return None, s1) \<and>
         (\<forall>j\<le>m. self_K s1 j = self_K s j) \<and>
         (\<forall>j. m < j \<and> j < ?N \<longrightarrow> fge (self_K s1 j 0) (Fl 0)) \<and>
         self_K s1 ?N 0 = xmin \<and>
         (self_K s = (\<lambda>i j. Fl (- 1)) \<longrightarrow>
            K s1 = map (\<lambda>i. (self_K s1 i 0, self_K s1 i 1))
                     (if fgt xmin (fneg TINY) then [Suc m..<?N + 1] else [Suc m..<?N])))"
    if f: "solve_controllable_sets B s eps = (Return False, s1)"
  proof -
    have "s1 = snd (solve_controllable_sets B s eps)" using f by simp
    then have N: "self_N s1 = ?N" by simp
    from solve_controllable_sets_False_stage [OF f] show ?thesis
    proof (rule disjE)
      assume "proj_x_admissible B ?entry ?N (fst (self_IN s)) (snd (self_IN s)) True
              = (Return None, s1) \<and> self_K s1 = self_K s"
      then have pr: "proj_x_admissible B ?entry ?N (fst (self_IN s)) (snd (self_IN s)) True
              = (Return None, s1)" and same: "self_K s1 = self_K s"
        by simp_all
      have "K s1 = K s"
        unfolding K_def Let_def N same ..
      then show ?thesis using pr same by blast
    next
      assume "\<exists>m<?N. \<exists>xmin xmax s0 \<sigma>.
            proj_x_admissible B ?entry ?N (fst (self_IN s)) (snd (self_IN s)) True
              = (Return (Some (xmin, xmax)), s0) \<and>
            controllable_loop B eps (rev [Suc m..<?N]) True
              (s0\<lparr>self_K := set2 (set2 (self_K s0) ?N 1 xmax) ?N 0 xmin\<rparr>)
              = (Return True, \<sigma>) \<and>
            one_step B \<sigma> m (self_K \<sigma> (m + 1) 0) (self_K \<sigma> (m + 1) 1) (m = ?N - 1)
              = (Return None, s1) \<and>
            (\<forall>j\<le>m. self_K s1 j = self_K s j) \<and>
            (\<forall>j. m < j \<and> j < ?N \<longrightarrow>
               fge (self_K s1 j 0) (Fl 0) \<and> fgt (self_K s1 j 0) (fneg TINY)) \<and>
            self_K s1 ?N 0 = xmin \<and> self_K s1 ?N 1 = xmax"
      then obtain m xmin xmax p \<sigma> where m: "m < ?N"
        and pr: "proj_x_admissible B ?entry ?N (fst (self_IN s)) (snd (self_IN s)) True
           = (Return (Some (xmin, xmax)), p)"
        and lp: "controllable_loop B eps (rev [Suc m..<?N]) True
           (p\<lparr>self_K := set2 (set2 (self_K p) ?N 1 xmax) ?N 0 xmin\<rparr>) = (Return True, \<sigma>)"
        and os: "one_step B \<sigma> m (self_K \<sigma> (m + 1) 0) (self_K \<sigma> (m + 1) 1) (m = ?N - 1)
           = (Return None, s1)"
        and low: "\<forall>j\<le>m. self_K s1 j = self_K s j"
        and mid: "\<forall>j. m < j \<and> j < ?N \<longrightarrow>
               fge (self_K s1 j 0) (Fl 0) \<and> fgt (self_K s1 j 0) (fneg TINY)"
        and top: "self_K s1 ?N 0 = xmin"
        by blast
      let ?P = "\<lambda>i. fgt (self_K s1 i 0) (fneg TINY)"
      have fresh: "K s1 = map (\<lambda>i. (self_K s1 i 0, self_K s1 i 1))
                     (if fgt xmin (fneg TINY) then [Suc m..<?N + 1] else [Suc m..<?N])"
        if fr: "self_K s = (\<lambda>i j. Fl (- 1))"
      proof -
        have "\<forall>j\<le>m. \<not> ?P j"
          using low fr hidden_minus_one by simp
        moreover have "m < ?N + 1" using m by simp
        ultimately have "filter ?P [0..<?N + 1] = filter ?P [Suc m..<?N + 1]"
          by (rule filter_upt_below [rotated])
        also have "\<dots> = (if ?P ?N then [Suc m..<?N + 1] else [Suc m..<?N])"
          by (rule filter_upt_from_exposed) (use m mid in auto)
        finally have "filter ?P [0..<?N + 1]
            = (if fgt xmin (fneg TINY) then [Suc m..<?N + 1] else [Suc m..<?N])"
          using top by simp
        then show ?thesis
          unfolding K_def Let_def N by (simp only:)
      qed
      have "\<forall>j. m < j \<and> j < ?N \<longrightarrow> fge (self_K s1 j 0) (Fl 0)"
        using mid by blast
      then show ?thesis
        using m pr lp os low top fresh by blast
    qed
  qed
  have d: "(proj_x_admissible B (reset_operational_rows s) 0 (fst (self_I0 s))
         (snd (self_I0 s)) True = (Return None, s2) \<and>
       self_L s2 = self_L s \<and> L s2 = L s) \<or>
      (\<exists>m<?N. \<exists>xmin xmax p \<sigma>.
         proj_x_admissible B (reset_operational_rows s) 0 (fst (self_I0 s))
           (snd (self_I0 s)) True = (Return (Some (xmin, xmax)), p) \<and>
         reachable_loop B [0..<m]
           (p\<lparr>self_L := set2 (set2 (self_L p) 0 1 xmax) 0 0 xmin\<rparr>) = (Return True, \<sigma>) \<and>
         (reach B \<sigma> m (self_L \<sigma> m 0) (self_L \<sigma> m 1) (m \<le> 1) = (Return None, s2) \<or>
          (\<exists>a b \<sigma>1.
             reach B \<sigma> m (self_L \<sigma> m 0) (self_L \<sigma> m 1) (m \<le> 1)
               = (Return (Some (a, b)), \<sigma>1) \<and>
             proj_x_admissible B \<sigma>1 (m + 1) a b (m \<le> 1) = (Return None, s2))) \<and>
         (\<forall>j>m. self_L s2 j = self_L s j) \<and>
         (self_L s = (\<lambda>i j. Fl (- 1)) \<longrightarrow>
            L s2 = map (\<lambda>i. (self_L s2 i 0, self_L s2 i 1))
                     (filter (\<lambda>i. fgt (self_L s2 i 0) (fneg TINY)) [0..<m + 1])))"
    if f: "solve_reachable_sets B s = (Return False, s2)"
  proof -
    have "s2 = snd (solve_reachable_sets B s)" using f by simp
    then have N: "self_N s2 = ?N" by simp
    from solve_reachable_sets_False_stage [OF f] show ?thesis
    proof (rule disjE)
      assume "proj_x_admissible B (reset_operational_rows s) 0 (fst (self_I0 s))
            (snd (self_I0 s)) True = (Return None, s2) \<and> self_L s2 = self_L s"
      then have pr: "proj_x_admissible B (reset_operational_rows s) 0 (fst (self_I0 s))
            (snd (self_I0 s)) True = (Return None, s2)" and same: "self_L s2 = self_L s"
        by simp_all
      have "L s2 = L s"
        unfolding L_def Let_def N same ..
      then show ?thesis using pr same by blast
    next
      assume "\<exists>m<?N. \<exists>xmin xmax s0 \<sigma>.
            proj_x_admissible B (reset_operational_rows s) 0 (fst (self_I0 s))
              (snd (self_I0 s)) True = (Return (Some (xmin, xmax)), s0) \<and>
            reachable_loop B [0..<m]
              (s0\<lparr>self_L := set2 (set2 (self_L s0) 0 1 xmax) 0 0 xmin\<rparr>) = (Return True, \<sigma>) \<and>
            (reach B \<sigma> m (self_L \<sigma> m 0) (self_L \<sigma> m 1) (m \<le> 1) = (Return None, s2) \<or>
             (\<exists>a b \<sigma>1.
                reach B \<sigma> m (self_L \<sigma> m 0) (self_L \<sigma> m 1) (m \<le> 1)
                  = (Return (Some (a, b)), \<sigma>1) \<and>
                proj_x_admissible B \<sigma>1 (m + 1) a b (m \<le> 1) = (Return None, s2))) \<and>
            self_L s2 = self_L \<sigma> \<and>
            (\<forall>j>m. self_L s2 j = self_L s j)"
      then obtain m xmin xmax p \<sigma> where m: "m < ?N"
        and pr: "proj_x_admissible B (reset_operational_rows s) 0 (fst (self_I0 s))
              (snd (self_I0 s)) True = (Return (Some (xmin, xmax)), p)"
        and lp: "reachable_loop B [0..<m]
              (p\<lparr>self_L := set2 (set2 (self_L p) 0 1 xmax) 0 0 xmin\<rparr>) = (Return True, \<sigma>)"
        and fl: "reach B \<sigma> m (self_L \<sigma> m 0) (self_L \<sigma> m 1) (m \<le> 1) = (Return None, s2) \<or>
             (\<exists>a b \<sigma>1.
                reach B \<sigma> m (self_L \<sigma> m 0) (self_L \<sigma> m 1) (m \<le> 1)
                  = (Return (Some (a, b)), \<sigma>1) \<and>
                proj_x_admissible B \<sigma>1 (m + 1) a b (m \<le> 1) = (Return None, s2))"
        and high: "\<forall>j>m. self_L s2 j = self_L s j"
        by blast
      let ?P = "\<lambda>i. fgt (self_L s2 i 0) (fneg TINY)"
      have fresh: "L s2 = map (\<lambda>i. (self_L s2 i 0, self_L s2 i 1)) (filter ?P [0..<m + 1])"
        if fr: "self_L s = (\<lambda>i j. Fl (- 1))"
      proof -
        have "\<forall>j>m. \<not> ?P j"
          using high fr hidden_minus_one by simp
        moreover have "m \<le> ?N" using m by simp
        ultimately have "filter ?P [0..<?N + 1] = filter ?P [0..<m + 1]"
          by (rule filter_upt_above [rotated])
        then show ?thesis
          unfolding L_def Let_def N by (simp only:)
      qed
      show ?thesis
        using m pr lp fl high fresh by blast
    qed
  qed
  have e: "(\<forall>i<?N. fge (self_K s3 i 0) (Fl 0)) \<and>
      (\<exists>xmin xmax p.
         proj_x_admissible B ?entry ?N (fst (self_IN s)) (snd (self_IN s)) True
           = (Return (Some (xmin, xmax)), p) \<and>
         self_K s3 ?N 0 = xmin \<and>
         xmin = Fl (sq_getPrimalSolution B (self_solver_down p) 1)) \<and>
      K s3 = map (\<lambda>i. (self_K s3 i 0, self_K s3 i 1))
               (if fgt (self_K s3 ?N 0) (fneg TINY) then [0..<?N + 1] else [0..<?N])"
    if t: "solve_controllable_sets B s eps = (Return True, s3)"
  proof -
    have "s3 = snd (solve_controllable_sets B s eps)" using t by simp
    then have N: "self_N s3 = ?N" by simp
    from solve_controllable_sets_trace [OF t] obtain xmin xmax p where
      pr: "proj_x_admissible B ?entry ?N (fst (self_IN s)) (snd (self_IN s)) True
           = (Return (Some (xmin, xmax)), p)" and
      top: "self_K s3 ?N 0 = xmin" and
      st: "\<forall>i<?N. \<exists>\<sigma> lo hi \<sigma>'.
        controllable_loop B eps (rev [Suc i..<?N]) True
          (p\<lparr>self_K := set2 (set2 (self_K p) ?N 1 xmax) ?N 0 xmin\<rparr>) = (Return True, \<sigma>) \<and>
        one_step B \<sigma> i (self_K s3 (i + 1) 0) (self_K s3 (i + 1) 1) (i = ?N - 1)
          = (Return (Some (lo, hi)), \<sigma>') \<and>
        self_K s3 i 1 = fsub hi eps \<and> self_K s3 i 0 = py_max lo (Fl 0)"
      by blast
    have rows: "fge (self_K s3 i 0) (Fl 0) \<and> fgt (self_K s3 i 0) (fneg TINY)"
      if i: "i < ?N" for i
    proof -
      from st i obtain \<sigma> lo hi \<sigma>' where
        one: "one_step B \<sigma> i (self_K s3 (i + 1) 0) (self_K s3 (i + 1) 1) (i = ?N - 1)
          = (Return (Some (lo, hi)), \<sigma>')" and
        Ki: "self_K s3 i 0 = py_max lo (Fl 0)"
        by blast
      from one_step_Some_Fl [OF one] obtain x where "lo = Fl x" by blast
      then show ?thesis
        using Ki py_max_Fl_0 [of x] by simp
    qed
    have low: "xmin = Fl (sq_getPrimalSolution B (self_solver_down p) 1)"
      by (rule proj_x_admissible_Some_lower [OF pr])
    have "\<forall>i<?N. fgt (self_K s3 i 0) (fneg TINY)"
      using rows by blast
    from filter_upt_exposed [of ?N "\<lambda>i. fgt (self_K s3 i 0) (fneg TINY)", OF this]
    have "K s3 = map (\<lambda>i. (self_K s3 i 0, self_K s3 i 1))
               (if fgt (self_K s3 ?N 0) (fneg TINY) then [0..<?N + 1] else [0..<?N])"
      unfolding K_def N Let_def by (simp only:)
    then show ?thesis using rows pr top low by blast
  qed
  have f: "(\<exists>xmin xmax p.
         proj_x_admissible B (reset_operational_rows s) 0 (fst (self_I0 s))
           (snd (self_I0 s)) True = (Return (Some (xmin, xmax)), p) \<and>
         self_L s4 0 0 = xmin \<and>
         xmin = Fl (sq_getPrimalSolution B (self_solver_down p) 1) \<and>
         (\<forall>i<?N. \<exists>\<sigma> a b \<sigma>1 lo hi \<sigma>2.
            reachable_loop B [0..<i]
              (p\<lparr>self_L := set2 (set2 (self_L p) 0 1 xmax) 0 0 xmin\<rparr>) = (Return True, \<sigma>) \<and>
            reach B \<sigma> i (self_L s4 i 0) (self_L s4 i 1) (i \<le> 1)
              = (Return (Some (a, b)), \<sigma>1) \<and>
            proj_x_admissible B \<sigma>1 (i + 1) a b (i \<le> 1) = (Return (Some (lo, hi)), \<sigma>2) \<and>
            self_L s4 (i + 1) 0 = lo \<and>
            lo = Fl (sq_getPrimalSolution B (self_solver_down \<sigma>2) 1))) \<and>
      L s4 = map (\<lambda>i. (self_L s4 i 0, self_L s4 i 1))
               (filter (\<lambda>i. fgt (self_L s4 i 0) (fneg TINY)) [0..<?N + 1])"
    if t: "solve_reachable_sets B s = (Return True, s4)"
  proof -
    have "s4 = snd (solve_reachable_sets B s)" using t by simp
    then have N: "self_N s4 = ?N" by simp
    from solve_reachable_sets_trace [OF t] obtain xmin xmax p where
      pr: "proj_x_admissible B (reset_operational_rows s) 0 (fst (self_I0 s))
           (snd (self_I0 s)) True = (Return (Some (xmin, xmax)), p)" and
      L0: "self_L s4 0 0 = xmin" and
      st: "\<forall>i<?N. \<exists>\<sigma> a b \<sigma>1 lo hi \<sigma>2.
        reachable_loop B [0..<i]
          (p\<lparr>self_L := set2 (set2 (self_L p) 0 1 xmax) 0 0 xmin\<rparr>) = (Return True, \<sigma>) \<and>
        reach B \<sigma> i (self_L s4 i 0) (self_L s4 i 1) (i \<le> 1) = (Return (Some (a, b)), \<sigma>1) \<and>
        proj_x_admissible B \<sigma>1 (i + 1) a b (i \<le> 1) = (Return (Some (lo, hi)), \<sigma>2) \<and>
        self_L s4 (i + 1) 0 = lo \<and> self_L s4 (i + 1) 1 = hi"
      by blast
    have low: "xmin = Fl (sq_getPrimalSolution B (self_solver_down p) 1)"
      by (rule proj_x_admissible_Some_lower [OF pr])
    have st': "\<exists>\<sigma> a b \<sigma>1 lo hi \<sigma>2.
        reachable_loop B [0..<i]
          (p\<lparr>self_L := set2 (set2 (self_L p) 0 1 xmax) 0 0 xmin\<rparr>) = (Return True, \<sigma>) \<and>
        reach B \<sigma> i (self_L s4 i 0) (self_L s4 i 1) (i \<le> 1) = (Return (Some (a, b)), \<sigma>1) \<and>
        proj_x_admissible B \<sigma>1 (i + 1) a b (i \<le> 1) = (Return (Some (lo, hi)), \<sigma>2) \<and>
        self_L s4 (i + 1) 0 = lo \<and>
        lo = Fl (sq_getPrimalSolution B (self_solver_down \<sigma>2) 1)"
      if i: "i < ?N" for i
    proof -
      from st i obtain \<sigma> a b \<sigma>1 lo hi \<sigma>2 where
        x: "reachable_loop B [0..<i]
          (p\<lparr>self_L := set2 (set2 (self_L p) 0 1 xmax) 0 0 xmin\<rparr>) = (Return True, \<sigma>)"
         "reach B \<sigma> i (self_L s4 i 0) (self_L s4 i 1) (i \<le> 1) = (Return (Some (a, b)), \<sigma>1)"
         "proj_x_admissible B \<sigma>1 (i + 1) a b (i \<le> 1) = (Return (Some (lo, hi)), \<sigma>2)"
         "self_L s4 (i + 1) 0 = lo"
        by blast
      from proj_x_admissible_Some_lower [OF x(3)] x show ?thesis by blast
    qed
    have "L s4 = map (\<lambda>i. (self_L s4 i 0, self_L s4 i 1))
               (filter (\<lambda>i. fgt (self_L s4 i 0) (fneg TINY)) [0..<?N + 1])"
      unfolding L_def Let_def N ..
    then show ?thesis using pr L0 low st' by blast
  qed
  show ?thesis
    using a b c d e f by blast
qed

text \<open>
  Runs of the theorem. In the first the down solver reports \<open>x = -5e-11\<close>: both sweeps
  succeed, row \<open>N\<close> of \<open>K\<close> and both rows of \<open>L\<close> have a negative lower end point,
  and all of them are exposed. In the next two a hot start fails: the backward sweep on
  two stages stops at stage 0 and exposes rows 1 and 2, the forward sweep on three
  stages stops at stage 2 and exposes rows 0 to 2. In the last the projections fail
  and nothing is exposed.
\<close>

theorem exposed_rows_witness:
  "\<exists>s s3 s4 u u1 v v2 w w1 w2.
     qpOASESPPSolver_init (fixed_answers (- 5 / 10 ^ 11) 4 1 0) [no_constraint 1] False
       = Return s \<and>
     K s = [] \<and> L s = [] \<and>
     solve_controllable_sets (fixed_answers (- 5 / 10 ^ 11) 4 1 0) s eps_default
       = (Return True, s3) \<and>
     fge (self_K s3 0 0) (Fl 0) \<and>
     self_K s3 (self_N s) 0 = Fl (- 5 / 10 ^ 11) \<and>
     flt (self_K s3 (self_N s) 0) (Fl 0) \<and>
     K s3 = [(Fl 0, Fl (4 - 1 / 10 ^ 14)), (Fl (- 5 / 10 ^ 11), Fl 4)] \<and>
     solve_reachable_sets (fixed_answers (- 5 / 10 ^ 11) 4 1 0) s = (Return True, s4) \<and>
     L s4 = [(Fl (- 5 / 10 ^ 11), Fl 4), (Fl (- 5 / 10 ^ 11), Fl 4)] \<and>
     qpOASESPPSolver_init (fixed_answers 0 4 1 61) [no_constraint 2] False = Return u \<and>
     solve_controllable_sets (fixed_answers 0 4 1 61) u eps_default = (Return False, u1) \<and>
     (\<exists>m<self_N u. (\<forall>j\<le>m. self_K u1 j = self_K u j) \<and>
        K u1 = map (\<lambda>i. (self_K u1 i 0, self_K u1 i 1)) [Suc m..<self_N u + 1]) \<and>
     K u1 = [(Fl 0, Fl (4 - 1 / 10 ^ 14)), (Fl 0, Fl 4)] \<and>
     qpOASESPPSolver_init (fixed_answers 0 4 1 61) [no_constraint 3] False = Return v \<and>
     solve_reachable_sets (fixed_answers 0 4 1 61) v = (Return False, v2) \<and>
     (\<exists>m<self_N v. (\<forall>j>m. self_L v2 j = self_L v j) \<and>
        L v2 = map (\<lambda>i. (self_L v2 i 0, self_L v2 i 1))
                 (filter (\<lambda>i. fgt (self_L v2 i 0) (fneg TINY)) [0..<m + 1])) \<and>
     L v2 = [(Fl 0, Fl 4), (Fl 0, Fl 4), (Fl 0, Fl 4)] \<and>
     qpOASESPPSolver_init (scripted (\<lambda>p. (37, 0, 0, 0)) (\<lambda>p. (37, 0, 0, 0)))
       [no_constraint 1] False = Return w \<and>
     solve_controllable_sets (scripted (\<lambda>p. (37, 0, 0, 0)) (\<lambda>p. (37, 0, 0, 0))) w eps_default
       = (Return False, w1) \<and>
     K w1 = [] \<and>
     solve_reachable_sets (scripted (\<lambda>p. (37, 0, 0, 0)) (\<lambda>p. (37, 0, 0, 0))) w
       = (Return False, w2) \<and>
     L w2 = []"
proof -
  let ?A = "fixed_answers (- 5 / 10 ^ 11) 4 1 0"
  let ?B = "fixed_answers 0 4 1 61"
  let ?C = "scripted (\<lambda>p :: qp. (37 :: int, 0 :: real, 0 :: real, 0 :: real))
              (\<lambda>p. (37, 0, 0, 0))"
  have up: "[0..<2] = [0, 1 :: nat]" "[0..<3] = [0, 1, 2 :: nat]"
    "[0..<4] = [0, 1, 2, 3 :: nat]"
    by (simp_all add: upt_rec)
  txt \<open>The run with a negative lower end point.\<close>
  from backward_run [of "- 5 / 10 ^ 11"] obtain s s3 where
    s: "qpOASESPPSolver_init ?A [no_constraint 1] False = Return s" and
    s3: "solve_controllable_sets ?A s eps_default = (Return True, s3)" and
    Ns: "self_N s = 1" and
    Ks3: "self_K s3 1 0 = Fl (- 5 / 10 ^ 11)" "self_K s3 1 1 = Fl 4"
      "self_K s3 0 0 = py_max (Fl (- 5 / 10 ^ 11)) (Fl 0)"
      "self_K s3 0 1 = Fl (4 - 1 / 10 ^ 14)"
    by auto
  from forward_run [of "- 5 / 10 ^ 11"] s obtain s4 where
    s4: "solve_reachable_sets ?A s = (Return True, s4)" and
    Ls4: "self_L s4 0 0 = Fl (- 5 / 10 ^ 11)" "self_L s4 0 1 = Fl 4"
      "self_L s4 1 0 = Fl (- 5 / 10 ^ 11)" "self_L s4 1 1 = Fl 4"
    by auto
  note t = exposed_rows [of s ?A "[no_constraint 1]" False s eps_default s3 s4 s3 s4]
  have fresh_s: "K s = [] \<and> L s = []"
    using t [THEN conjunct2, THEN conjunct2, THEN conjunct1] s by (rule mp)
  note te = t [THEN conjunct2, THEN conjunct2, THEN conjunct2, THEN conjunct2,
    THEN conjunct2, THEN conjunct1, THEN mp, OF s3]
  note tf = t [THEN conjunct2, THEN conjunct2, THEN conjunct2, THEN conjunct2,
    THEN conjunct2, THEN conjunct2, THEN mp, OF s4]
  have row0: "fge (self_K s3 0 0) (Fl 0)"
    using te Ns by simp
  have top: "self_K s3 (self_N s) 0 = Fl (- 5 / 10 ^ 11)"
    "flt (self_K s3 (self_N s) 0) (Fl 0)"
    using Ks3 Ns by simp_all
  have "K s3 = map (\<lambda>i. (self_K s3 i 0, self_K s3 i 1))
               (if fgt (self_K s3 (self_N s) 0) (fneg TINY)
                then [0..<self_N s + 1] else [0..<self_N s])"
    using te by (rule conjunct2 [THEN conjunct2])
  then have Ks: "K s3 = [(Fl 0, Fl (4 - 1 / 10 ^ 14)), (Fl (- 5 / 10 ^ 11), Fl 4)]"
    using Ks3 Ns by (simp add: up fgt_def TINY_def py_max_def)
  have "L s4 = map (\<lambda>i. (self_L s4 i 0, self_L s4 i 1))
               (filter (\<lambda>i. fgt (self_L s4 i 0) (fneg TINY)) [0..<self_N s + 1])"
    using tf by (rule conjunct2)
  then have Ls: "L s4 = [(Fl (- 5 / 10 ^ 11), Fl 4), (Fl (- 5 / 10 ^ 11), Fl 4)]"
    using Ls4 Ns by (simp add: up fgt_def TINY_def)
  txt \<open>The backward sweep that fails at stage 0.\<close>
  from backward_stage_failure_run obtain u u1 where
    u: "qpOASESPPSolver_init ?B [no_constraint 2] False = Return u" and
    u1: "solve_controllable_sets ?B u eps_default = (Return False, u1)" and
    Nu: "self_N u = 2" and Ku: "self_K u = (\<lambda>i j. Fl (- 1))" and
    pu: "fst (proj_x_admissible ?B
            ((reset_operational_rows u)
               \<lparr>self_nWSR_up := (\<lambda>k. self_nWSR_cnst u),
                self_nWSR_down := (\<lambda>k. self_nWSR_cnst u)\<rparr>)
            (self_N u) (fst (self_IN u)) (snd (self_IN u)) True) = Return (Some (Fl 0, Fl 4))" and
    Ku1: "self_K u1 0 0 = Fl (- 1)" "self_K u1 1 0 = Fl 0" "self_K u1 1 1 = Fl (4 - 1 / 10 ^ 14)"
      "self_K u1 2 0 = Fl 0" "self_K u1 2 1 = Fl 4"
    by blast
  have "u1 = snd (solve_controllable_sets ?B u eps_default)"
    using u1 by simp
  then have Nu1: "self_N u1 = 2"
    using Nu by simp
  note tu = exposed_rows [of u ?B "[no_constraint 2]" False u eps_default u1 u1 u1 u1]
  note tu1 = exposed_rows [of u1 ?B "[no_constraint 2]" False u eps_default u1 u1 u1 u1]
  from tu [THEN conjunct2, THEN conjunct2, THEN conjunct2, THEN conjunct1, THEN mp, OF u1]
  have "\<exists>m<self_N u. \<exists>xmin.
         (\<forall>j\<le>m. self_K u1 j = self_K u j) \<and> self_K u1 (self_N u) 0 = xmin \<and>
         (self_K u = (\<lambda>i j. Fl (- 1)) \<longrightarrow>
            K u1 = map (\<lambda>i. (self_K u1 i 0, self_K u1 i 1))
                     (if fgt xmin (fneg TINY)
                      then [Suc m..<self_N u + 1] else [Suc m..<self_N u]))"
  proof (rule disjE)
    assume "proj_x_admissible ?B
         ((reset_operational_rows u)
            \<lparr>self_nWSR_up := (\<lambda>k. self_nWSR_cnst u),
             self_nWSR_down := (\<lambda>k. self_nWSR_cnst u)\<rparr>)
         (self_N u) (fst (self_IN u)) (snd (self_IN u)) True = (Return None, u1) \<and>
       self_K u1 = self_K u \<and> K u1 = K u"
    then have "fst (proj_x_admissible ?B
         ((reset_operational_rows u)
            \<lparr>self_nWSR_up := (\<lambda>k. self_nWSR_cnst u),
             self_nWSR_down := (\<lambda>k. self_nWSR_cnst u)\<rparr>)
         (self_N u) (fst (self_IN u)) (snd (self_IN u)) True) = Return None"
      by simp
    then show ?thesis using pu by simp
  next
    assume "\<exists>m<self_N u. \<exists>xmin xmax p \<sigma>.
         proj_x_admissible ?B
           ((reset_operational_rows u)
              \<lparr>self_nWSR_up := (\<lambda>k. self_nWSR_cnst u),
               self_nWSR_down := (\<lambda>k. self_nWSR_cnst u)\<rparr>)
           (self_N u) (fst (self_IN u)) (snd (self_IN u)) True
           = (Return (Some (xmin, xmax)), p) \<and>
         controllable_loop ?B eps_default (rev [Suc m..<self_N u]) True
           (p\<lparr>self_K := set2 (set2 (self_K p) (self_N u) 1 xmax) (self_N u) 0 xmin\<rparr>)
           = (Return True, \<sigma>) \<and>
         one_step ?B \<sigma> m (self_K \<sigma> (m + 1) 0) (self_K \<sigma> (m + 1) 1) (m = self_N u - 1)
           = (Return None, u1) \<and>
         (\<forall>j\<le>m. self_K u1 j = self_K u j) \<and>
         (\<forall>j. m < j \<and> j < self_N u \<longrightarrow> fge (self_K u1 j 0) (Fl 0)) \<and>
         self_K u1 (self_N u) 0 = xmin \<and>
         (self_K u = (\<lambda>i j. Fl (- 1)) \<longrightarrow>
            K u1 = map (\<lambda>i. (self_K u1 i 0, self_K u1 i 1))
                     (if fgt xmin (fneg TINY)
                      then [Suc m..<self_N u + 1] else [Suc m..<self_N u]))"
    then show ?thesis by blast
  qed
  then obtain m xmin where m: "m < self_N u" and
    low: "\<forall>j\<le>m. self_K u1 j = self_K u j" and
    xmin: "self_K u1 (self_N u) 0 = xmin" and
    ex: "self_K u = (\<lambda>i j. Fl (- 1)) \<longrightarrow>
            K u1 = map (\<lambda>i. (self_K u1 i 0, self_K u1 i 1))
                     (if fgt xmin (fneg TINY)
                      then [Suc m..<self_N u + 1] else [Suc m..<self_N u])"
    by blast
  have "fgt xmin (fneg TINY)"
    using xmin Ku1 Nu by (auto simp add: fgt_def TINY_def)
  then have "K u1 = map (\<lambda>i. (self_K u1 i 0, self_K u1 i 1)) [Suc m..<self_N u + 1]"
    using ex Ku by (simp only: if_True)
  then have stage_u: "\<exists>m<self_N u. (\<forall>j\<le>m. self_K u1 j = self_K u j) \<and>
        K u1 = map (\<lambda>i. (self_K u1 i 0, self_K u1 i 1)) [Suc m..<self_N u + 1]"
    using m low by blast
  have "K u1 = map (\<lambda>i. (self_K u1 i 0, self_K u1 i 1))
           (filter (\<lambda>i. fgt (self_K u1 i 0) (fneg TINY)) [0..<self_N u1 + 1])"
    by (rule tu1 [THEN conjunct1])
  then have Ku1l: "K u1 = [(Fl 0, Fl (4 - 1 / 10 ^ 14)), (Fl 0, Fl 4)]"
    using Ku1 Nu1 by (simp add: up fgt_def TINY_def)
  txt \<open>The forward sweep that fails at stage 2.\<close>
  from forward_stage_failure_run obtain v v2 where
    v: "qpOASESPPSolver_init ?B [no_constraint 3] False = Return v" and
    v2: "solve_reachable_sets ?B v = (Return False, v2)" and
    Nv: "self_N v = 3" and Lv: "self_L v = (\<lambda>i j. Fl (- 1))" and
    pv: "fst (proj_x_admissible ?B (reset_operational_rows v) 0
            (fst (self_I0 v)) (snd (self_I0 v)) True) = Return (Some (Fl 0, Fl 4))" and
    Lv2: "self_L v2 0 0 = Fl 0" "self_L v2 0 1 = Fl 4" "self_L v2 1 0 = Fl 0"
      "self_L v2 1 1 = Fl 4" "self_L v2 2 0 = Fl 0" "self_L v2 2 1 = Fl 4"
      "self_L v2 3 0 = Fl (- 1)"
    by blast
  have "v2 = snd (solve_reachable_sets ?B v)"
    using v2 by simp
  then have Nv2: "self_N v2 = 3"
    using Nv by simp
  note tv = exposed_rows [of v ?B "[no_constraint 3]" False v eps_default v2 v2 v2 v2]
  note tv2 = exposed_rows [of v2 ?B "[no_constraint 3]" False v eps_default v2 v2 v2 v2]
  from tv [THEN conjunct2, THEN conjunct2, THEN conjunct2, THEN conjunct2, THEN conjunct1,
    THEN mp, OF v2]
  have "\<exists>m<self_N v. (\<forall>j>m. self_L v2 j = self_L v j) \<and>
         (self_L v = (\<lambda>i j. Fl (- 1)) \<longrightarrow>
            L v2 = map (\<lambda>i. (self_L v2 i 0, self_L v2 i 1))
                     (filter (\<lambda>i. fgt (self_L v2 i 0) (fneg TINY)) [0..<m + 1]))"
  proof (rule disjE)
    assume "proj_x_admissible ?B (reset_operational_rows v) 0 (fst (self_I0 v))
         (snd (self_I0 v)) True = (Return None, v2) \<and>
       self_L v2 = self_L v \<and> L v2 = L v"
    then have "fst (proj_x_admissible ?B (reset_operational_rows v) 0 (fst (self_I0 v))
         (snd (self_I0 v)) True) = Return None"
      by simp
    then show ?thesis using pv by simp
  next
    assume "\<exists>m<self_N v. \<exists>xmin xmax p \<sigma>.
         proj_x_admissible ?B (reset_operational_rows v) 0 (fst (self_I0 v))
           (snd (self_I0 v)) True = (Return (Some (xmin, xmax)), p) \<and>
         reachable_loop ?B [0..<m]
           (p\<lparr>self_L := set2 (set2 (self_L p) 0 1 xmax) 0 0 xmin\<rparr>) = (Return True, \<sigma>) \<and>
         (reach ?B \<sigma> m (self_L \<sigma> m 0) (self_L \<sigma> m 1) (m \<le> 1) = (Return None, v2) \<or>
          (\<exists>a b \<sigma>1.
             reach ?B \<sigma> m (self_L \<sigma> m 0) (self_L \<sigma> m 1) (m \<le> 1)
               = (Return (Some (a, b)), \<sigma>1) \<and>
             proj_x_admissible ?B \<sigma>1 (m + 1) a b (m \<le> 1) = (Return None, v2))) \<and>
         (\<forall>j>m. self_L v2 j = self_L v j) \<and>
         (self_L v = (\<lambda>i j. Fl (- 1)) \<longrightarrow>
            L v2 = map (\<lambda>i. (self_L v2 i 0, self_L v2 i 1))
                     (filter (\<lambda>i. fgt (self_L v2 i 0) (fneg TINY)) [0..<m + 1]))"
    then show ?thesis by blast
  qed
  then have stage_v: "\<exists>m<self_N v. (\<forall>j>m. self_L v2 j = self_L v j) \<and>
        L v2 = map (\<lambda>i. (self_L v2 i 0, self_L v2 i 1))
                 (filter (\<lambda>i. fgt (self_L v2 i 0) (fneg TINY)) [0..<m + 1])"
    using Lv by blast
  have "L v2 = map (\<lambda>i. (self_L v2 i 0, self_L v2 i 1))
           (filter (\<lambda>i. fgt (self_L v2 i 0) (fneg TINY)) [0..<self_N v2 + 1])"
    by (rule tv2 [THEN conjunct2, THEN conjunct1])
  then have Lv2l: "L v2 = [(Fl 0, Fl 4), (Fl 0, Fl 4), (Fl 0, Fl 4)]"
    using Lv2 Nv2 by (simp add: up fgt_def TINY_def)
  txt \<open>The sweeps that fail in their first projection.\<close>
  from projection_failure_run obtain w w1 w2 where
    w: "qpOASESPPSolver_init ?C [no_constraint 1] False = Return w" and
    w1: "solve_controllable_sets ?C w eps_default = (Return False, w1)" and
    w2: "solve_reachable_sets ?C w = (Return False, w2)" and
    pw: "fst (proj_x_admissible ?C
            ((reset_operational_rows w)
               \<lparr>self_nWSR_up := (\<lambda>k. self_nWSR_cnst w),
                self_nWSR_down := (\<lambda>k. self_nWSR_cnst w)\<rparr>)
            (self_N w) (fst (self_IN w)) (snd (self_IN w)) True) = Return None"
      "fst (proj_x_admissible ?C (reset_operational_rows w) 0 (fst (self_I0 w))
            (snd (self_I0 w)) True) = Return None"
    by blast
  note tw = exposed_rows [of w ?C "[no_constraint 1]" False w eps_default w1 w2 w1 w2]
  have fresh_w: "K w = [] \<and> L w = []"
    using tw [THEN conjunct2, THEN conjunct2, THEN conjunct1] w by (rule mp)
  from tw [THEN conjunct2, THEN conjunct2, THEN conjunct2, THEN conjunct1, THEN mp, OF w1]
  have "K w1 = K w"
    using pw(1) by auto
  then have Kw1: "K w1 = []"
    using fresh_w by simp
  from tw [THEN conjunct2, THEN conjunct2, THEN conjunct2, THEN conjunct2, THEN conjunct1,
    THEN mp, OF w2]
  have "L w2 = L w"
    using pw(2) by auto
  then have Lw2: "L w2 = []"
    using fresh_w by simp
  have c1: "K s = []" "L s = []"
    using fresh_s by simp_all
  show ?thesis
    using s c1 s3 row0 top Ks s4 Ls u u1 stage_u Ku1l v v2 stage_v Lv2l w w1 Kw1 w2 Lw2
    by blast
qed
end
